theory Spec2Isabelle
  imports Complex_Main "HOL-Library.Char_ord" "HOL-Library.List_Lexorder" "HOL-Library.Multiset"
begin

section \<open>Python values, dictionaries and exceptions\<close>

text \<open>
  The values a caller can put into a field dictionary and the values the store hands
  back: \<open>None\<close>, booleans, integers, floats, strings and lists.  A string is a list of
  characters, each standing for the code point of the same number (U+0000 to U+00FF);
  strings are compared lexicographically by code point, as Python and the storage
  engine's BINARY collation do.  A float \<open>PFloat m e\<close> is the finite binary64 number
  \<open>m * 2 ^ e\<close>.  Dictionaries nested in values, bytes and other objects are not part of
  the model.
\<close>

datatype pyval =
    PNone
  | PBool bool
  | PInt int
  | PFloat int int
  | PStr string
  | PList "pyval list"

text \<open>A \<open>dict\<close> with string keys, in insertion order.\<close>

type_synonym pydict = "(string \<times> pyval) list"

text \<open>
  Exceptions.  \<open>SqliteError\<close> is \<open>sqlite3.Error\<close> (with its subclasses) as raised by the
  engine inside a connection; \<open>DatabaseError\<close> is the class of that name in vault.py.
  \<open>OutsideModel\<close> is not an exception: it marks an input on which this model does not
  say what the program does (the reason is attached).
\<close>

datatype exn =
    DatabaseError string
  | SqliteError string
  | JSONDecodeError
  | TypeError
  | OverflowError
  | ValueError
  | OutsideModel string

text \<open>\<open>d.get(k, default)\<close> and \<open>d.get(k)\<close>.\<close>

definition dict_get :: "pydict \<Rightarrow> string \<Rightarrow> pyval \<Rightarrow> pyval" where
  "dict_get d k dflt = (case map_of d k of None \<Rightarrow> dflt | Some v \<Rightarrow> v)"

definition dict_get_none :: "pydict \<Rightarrow> string \<Rightarrow> pyval" where
  "dict_get_none d k = dict_get d k PNone"

text \<open>\<open>d[k] = v\<close>: an existing key keeps its place, a new key goes last.\<close>

definition dict_set :: "pydict \<Rightarrow> string \<Rightarrow> pyval \<Rightarrow> pydict" where
  "dict_set d k v =
     (if k \<in> fst ` set d then map (\<lambda>(k', v'). if k' = k then (k', v) else (k', v')) d
      else d @ [(k, v)])"

text \<open>Truth value of an object, as \<open>or\<close>, \<open>not\<close> and \<open>if\<close> test it.\<close>

fun truthy :: "pyval \<Rightarrow> bool" where
  "truthy PNone = False"
| "truthy (PBool b) = b"
| "truthy (PInt i) = (i \<noteq> 0)"
| "truthy (PFloat m e) = (m \<noteq> 0)"
| "truthy (PStr s) = (s \<noteq> [])"
| "truthy (PList xs) = (xs \<noteq> [])"

text \<open>\<open>a or b\<close>.\<close>

definition py_or :: "pyval \<Rightarrow> pyval \<Rightarrow> pyval" where
  "py_or a b = (if truthy a then a else b)"

text \<open>Collecting results, stopping at the first exception.\<close>

fun collect :: "(exn + 'a) list \<Rightarrow> exn + 'a list" where
  "collect [] = Inr []"
| "collect (x # xs) =
     (case x of
        Inl e \<Rightarrow> Inl e
      | Inr v \<Rightarrow> (case collect xs of Inl e \<Rightarrow> Inl e | Inr vs \<Rightarrow> Inr (v # vs)))"


section \<open>Decimal text of integers\<close>

definition digit_char :: "nat \<Rightarrow> char" where
  "digit_char n = ''0123456789'' ! n"

fun dec_nat :: "nat \<Rightarrow> string" where
  "dec_nat n = (if n < 10 then [digit_char n] else dec_nat (n div 10) @ [digit_char (n mod 10)])"

declare dec_nat.simps [simp del]

text \<open>\<open>str(i)\<close> for an integer.\<close>

definition dec_int :: "int \<Rightarrow> string" where
  "dec_int i = (if i < 0 then CHR ''-'' # dec_nat (nat (- i)) else dec_nat (nat i))"

definition is_digit :: "char \<Rightarrow> bool" where
  "is_digit c = (CHR ''0'' \<le> c \<and> c \<le> CHR ''9'')"

definition digit_val :: "char \<Rightarrow> nat" where
  "digit_val c = of_char c - 48"

definition nat_of_digits :: "string \<Rightarrow> nat" where
  "nat_of_digits ds = foldl (\<lambda>n c. 10 * n + digit_val c) 0 ds"


section \<open>The JSON text of list-valued fields\<close>

subsection \<open>\<open>json.dumps\<close>\<close>

text \<open>
  \<open>json.dumps\<close> with its defaults (\<open>ensure_ascii=True\<close>, separators \<open>", "\<close>).  A string is
  written between double quotes; the quote, the backslash and the control characters
  with a short name get their two-character escape, every other character outside
  \<open>' '..'~'\<close> becomes \<open>\u00xx\<close> in lower-case hexadecimal.
\<close>

definition dquote :: char where
  "dquote = CHR 0x22"

definition backslash :: char where
  "backslash = CHR 0x5C"

definition hex_digit :: "nat \<Rightarrow> char" where
  "hex_digit n = ''0123456789abcdef'' ! n"

definition json_escape_char :: "char \<Rightarrow> string" where
  "json_escape_char c =
     (if c = dquote then [backslash, dquote]
      else if c = backslash then [backslash, backslash]
      else if c = CHR 0x0A then [backslash, CHR ''n'']
      else if c = CHR 0x0D then [backslash, CHR ''r'']
      else if c = CHR 0x09 then [backslash, CHR ''t'']
      else if c = CHR 0x08 then [backslash, CHR ''b'']
      else if c = CHR 0x0C then [backslash, CHR ''f'']
      else if of_char c < (32::nat) \<or> (126::nat) < of_char c
        then [backslash, CHR ''u'', CHR ''0'', CHR ''0'',
              hex_digit (of_char c div 16), hex_digit (of_char c mod 16)]
      else [c])"

definition encode_basestring_ascii :: "string \<Rightarrow> string" where
  "encode_basestring_ascii s = dquote # concat (map json_escape_char s) @ [dquote]"

text \<open>
  The encoder on a value that is not a list.  The text of a float (\<open>float.__repr__\<close>)
  is not modelled.  An integer of more than 4300 digits has no decimal text: the
  conversion raises \<open>ValueError\<close>, in the encoder and in the decoder alike.
\<close>

definition too_long :: "int \<Rightarrow> bool" where
  "too_long i = (4300 < length (dec_nat (nat \<bar>i\<bar>)))"

fun dumps_scalar :: "pyval \<Rightarrow> exn + string" where
  "dumps_scalar PNone = Inr ''null''"
| "dumps_scalar (PBool b) = Inr (if b then ''true'' else ''false'')"
| "dumps_scalar (PInt i) = (if too_long i then Inl ValueError else Inr (dec_int i))"
| "dumps_scalar (PStr s) = Inr (encode_basestring_ascii s)"
| "dumps_scalar (PFloat m e) = Inl (OutsideModel ''json.dumps of a float'')"
| "dumps_scalar (PList xs) = Inl (OutsideModel ''json.dumps of a list inside a list'')"

fun join :: "string \<Rightarrow> string list \<Rightarrow> string" where
  "join sep [] = []"
| "join sep [x] = x"
| "join sep (x # y # ys) = x @ sep @ join sep (y # ys)"

definition json_dumps :: "pyval \<Rightarrow> exn + string" where
  "json_dumps v =
     (case v of
        PList xs \<Rightarrow>
          (case collect (map dumps_scalar xs) of
             Inl e \<Rightarrow> Inl e
           | Inr ss \<Rightarrow> Inr (''['' @ join '', '' ss @ '']''))
      | _ \<Rightarrow> dumps_scalar v)"

subsection \<open>\<open>json.loads\<close>\<close>

text \<open>
  The decoder follows Python's scanner on scalars and on arrays of scalars.  Objects,
  arrays inside arrays, numbers with a fraction or an exponent, the constants
  \<open>NaN\<close> and \<open>Infinity\<close>, and \<open>\uXXXX\<close> escapes above U+00FF are JSON that Python accepts
  or may accept and this model does not decode: the result there is \<open>OutsideModel\<close>.
\<close>

definition is_ws :: "char \<Rightarrow> bool" where
  "is_ws c = (c = CHR '' '' \<or> c = CHR 0x09 \<or> c = CHR 0x0A \<or> c = CHR 0x0D)"

definition skip_ws :: "string \<Rightarrow> string" where
  "skip_ws s = dropWhile is_ws s"

definition hex_val :: "char \<Rightarrow> nat option" where
  "hex_val c =
     (if CHR ''0'' \<le> c \<and> c \<le> CHR ''9'' then Some (of_char c - 48)
      else if CHR ''a'' \<le> c \<and> c \<le> CHR ''f'' then Some (of_char c - 87)
      else if CHR ''A'' \<le> c \<and> c \<le> CHR ''F'' then Some (of_char c - 55)
      else None)"

definition hex4 :: "char \<Rightarrow> char \<Rightarrow> char \<Rightarrow> char \<Rightarrow> nat option" where
  "hex4 a b c d =
     (case (hex_val a, hex_val b, hex_val c, hex_val d) of
        (Some w, Some x, Some y, Some z) \<Rightarrow> Some (((w * 16 + x) * 16 + y) * 16 + z)
      | _ \<Rightarrow> None)"

definition unescape :: "char \<Rightarrow> char option" where
  "unescape c =
     (if c = dquote then Some dquote
      else if c = backslash then Some backslash
      else if c = CHR ''/'' then Some (CHR ''/'')
      else if c = CHR ''b'' then Some (CHR 0x08)
      else if c = CHR ''f'' then Some (CHR 0x0C)
      else if c = CHR ''n'' then Some (CHR 0x0A)
      else if c = CHR ''r'' then Some (CHR 0x0D)
      else if c = CHR ''t'' then Some (CHR 0x09)
      else None)"

text \<open>
  The character an escape sequence stands for, read after its backslash, and the
  rest of the input.
\<close>

definition scan_escape :: "string \<Rightarrow> exn + (char \<times> string)" where
  "scan_escape cs =
     (case cs of
        [] \<Rightarrow> Inl JSONDecodeError
      | x # r \<Rightarrow>
          if x = CHR ''u'' then
            (case r of
               h1 # h2 # h3 # h4 # r' \<Rightarrow>
                 (case hex4 h1 h2 h3 h4 of
                    None \<Rightarrow> Inl JSONDecodeError
                  | Some n \<Rightarrow>
                      if n < 256 then Inr (char_of n, r')
                      else Inl (OutsideModel ''escape above U+00FF''))
             | _ \<Rightarrow> Inl JSONDecodeError)
          else
            (case unescape x of
               None \<Rightarrow> Inl JSONDecodeError
             | Some y \<Rightarrow> Inr (y, r)))"

lemma scan_escape_shorter:
  assumes "scan_escape cs = Inr (y, r)"
  shows "length r < length cs"
proof (cases cs)
  case Nil
  with assms show ?thesis by (simp add: scan_escape_def)
next
  case (Cons x t)
  show ?thesis
  proof (cases "x = CHR ''u''")
    case True
    with assms Cons obtain h1 h2 h3 h4 where "t = h1 # h2 # h3 # h4 # r"
      by (auto simp: scan_escape_def split: list.splits option.splits if_splits)
    with Cons show ?thesis by simp
  next
    case False
    with assms Cons have "r = t"
      by (auto simp: scan_escape_def split: option.splits)
    with Cons show ?thesis by simp
  qed
qed

text \<open>
  \<open>scanstring\<close> reads a string literal after its opening quote (strict mode: a raw
  control character is an error) and returns the decoded string and the rest of the
  input.
\<close>

function scanstring :: "string \<Rightarrow> string \<Rightarrow> exn + (string \<times> string)" where
  "scanstring [] acc = Inl JSONDecodeError"
| "scanstring (c # cs) acc =
     (if c = dquote then Inr (acc, cs)
      else if c = backslash then
        (case scan_escape cs of
           Inl e \<Rightarrow> Inl e
         | Inr (y, r) \<Rightarrow> scanstring r (acc @ [y]))
      else if of_char c < (32::nat) then Inl JSONDecodeError
      else scanstring cs (acc @ [c]))"
  by pat_completeness auto
termination
proof (relation "measure (\<lambda>(s, acc). length s)")
  show "wf (measure (\<lambda>(s, acc). length s))" by simp
next
  fix c :: char and cs acc :: string and p y r
  assume "scan_escape cs = Inr p" and "(y, r) = p"
  then have "length r < length cs"
    using scan_escape_shorter [of cs y r] by simp
  then show "((r, acc @ [y]), c # cs, acc) \<in> measure (\<lambda>(s, acc). length s)"
    by simp
next
  fix c :: char and cs acc :: string
  show "((cs, acc @ [c]), c # cs, acc) \<in> measure (\<lambda>(s, acc). length s)"
    by simp
qed

text \<open>
  A number at the start of the input, by Python's pattern
  \<open>(-?(?:0|[1-9][0-9]*))(\.[0-9]+)?([eE][-+]?[0-9]+)?\<close>: \<open>None\<close> when the pattern
  does not match.
\<close>

definition starts_with_digit :: "string \<Rightarrow> bool" where
  "starts_with_digit s = (case s of [] \<Rightarrow> False | c # _ \<Rightarrow> is_digit c)"

definition float_tail :: "string \<Rightarrow> bool" where
  "float_tail r =
     (case r of
        [] \<Rightarrow> False
      | c # r1 \<Rightarrow>
          if c = CHR ''.'' then starts_with_digit r1
          else if c = CHR ''e'' \<or> c = CHR ''E'' then
            (case r1 of
               [] \<Rightarrow> False
             | c1 # r2 \<Rightarrow>
                 if c1 = CHR ''-'' \<or> c1 = CHR ''+'' then starts_with_digit r2
                 else is_digit c1)
          else False)"

definition scan_unsigned :: "string \<Rightarrow> (nat \<times> string) option" where
  "scan_unsigned s =
     (case s of
        [] \<Rightarrow> None
      | c # cs \<Rightarrow>
          if c = CHR ''0'' then Some (0, cs)
          else if is_digit c then
            Some (nat_of_digits (takeWhile is_digit s), dropWhile is_digit s)
          else None)"

definition scan_number :: "string \<Rightarrow> (exn + (pyval \<times> string)) option" where
  "scan_number s =
     (let (neg, body) = (case s of c # cs \<Rightarrow> if c = CHR ''-'' then (True, cs) else (False, s)
                                  | [] \<Rightarrow> (False, s))
      in case scan_unsigned body of
           None \<Rightarrow> None
         | Some (n, r) \<Rightarrow>
             Some (if float_tail r then Inl (OutsideModel ''JSON number with fraction or exponent'')
                   else if length (takeWhile is_digit body) > 4300 then Inl ValueError
                   else Inr (PInt (if neg then - int n else int n), r)))"

definition starts :: "string \<Rightarrow> string \<Rightarrow> bool" where
  "starts p s = (take (length p) s = p)"

text \<open>One value that is not an array (\<open>scan_once\<close> without its array case).\<close>

definition scan_scalar :: "string \<Rightarrow> exn + (pyval \<times> string)" where
  "scan_scalar s =
     (case s of
        [] \<Rightarrow> Inl JSONDecodeError
      | c # cs \<Rightarrow>
          if c = dquote then
            (case scanstring cs [] of Inl e \<Rightarrow> Inl e | Inr (x, r) \<Rightarrow> Inr (PStr x, r))
          else if c = CHR ''{'' then Inl (OutsideModel ''JSON object'')
          else if c = CHR ''['' then Inl (OutsideModel ''JSON array inside an array'')
          else if starts ''null'' s then Inr (PNone, drop 4 s)
          else if starts ''true'' s then Inr (PBool True, drop 4 s)
          else if starts ''false'' s then Inr (PBool False, drop 5 s)
          else
            (case scan_number s of
               Some r \<Rightarrow> r
             | None \<Rightarrow>
                 if starts ''NaN'' s \<or> starts ''Infinity'' s \<or> starts ''-Infinity'' s
                 then Inl (OutsideModel ''JSON constant NaN or Infinity'')
                 else Inl JSONDecodeError))"

lemma scanstring_shorter:
  "scanstring s acc = Inr (x, r) \<Longrightarrow> length r < length s"
proof (induction s acc rule: scanstring.induct)
  case (1 acc)
  then show ?case by simp
next
  case (2 c cs acc)
  show ?case
  proof (cases "c = dquote")
    case True
    with "2.prems" show ?thesis by simp
  next
    case nq: False
    show ?thesis
    proof (cases "c = backslash")
      case True
      with nq "2.prems" obtain y t where e: "scan_escape cs = Inr (y, t)"
        and s: "scanstring t (acc @ [y]) = Inr (x, r)"
        by (auto split: sum.splits)
      have "length r < length t"
        using "2.IH"(1) [OF nq True e refl s] .
      moreover have "length t < length cs"
        using e by (rule scan_escape_shorter)
      ultimately show ?thesis by simp
    next
      case nb: False
      with nq "2.prems" have c: "\<not> of_char c < (32::nat)"
        and s: "scanstring cs (acc @ [c]) = Inr (x, r)"
        by (auto split: if_splits)
      have "length r < length cs"
        using "2.IH"(2) [OF nq nb c s] .
      then show ?thesis by simp
    qed
  qed
qed

lemma scan_unsigned_shorter:
  "scan_unsigned s = Some (n, r) \<Longrightarrow> length r < length s"
  by (auto simp: scan_unsigned_def length_dropWhile_le less_Suc_eq_le
           split: list.splits if_splits)

lemma scan_number_shorter:
  "scan_number s = Some (Inr (v, r)) \<Longrightarrow> length r < length s"
  by (auto simp: scan_number_def Let_def split: list.splits if_splits option.splits
           dest!: scan_unsigned_shorter)

lemma drop_shorter: "s \<noteq> [] \<Longrightarrow> 0 < n \<Longrightarrow> length (drop n s) < length s"
  by (cases s) auto

lemma scan_scalar_shorter:
  assumes "scan_scalar s = Inr (v, r)"
  shows "length r < length s"
proof (cases s)
  case Nil
  with assms show ?thesis by (simp add: scan_scalar_def)
next
  case (Cons c cs)
  then have ne: "s \<noteq> []" by simp
  show ?thesis
  proof (cases "c = dquote")
    case True
    with assms Cons obtain x where "scanstring cs [] = Inr (x, r)"
      by (auto simp: scan_scalar_def split: sum.splits)
    then have "length r < length cs" by (rule scanstring_shorter)
    with Cons show ?thesis by simp
  next
    case False
    with assms Cons have "r = drop 4 s \<or> r = drop 5 s \<or> scan_number s = Some (Inr (v, r))"
      by (simp add: scan_scalar_def split: if_splits option.splits)
    then show ?thesis
      using drop_shorter [OF ne, of 4] drop_shorter [OF ne, of 5]
        scan_number_shorter [of s v r] by auto
  qed
qed

lemma skip_ws_length: "length (skip_ws s) \<le> length s"
  by (simp add: skip_ws_def length_dropWhile_le)

text \<open>
  The elements of an array after the first position: a value, then \<open>]\<close> or a comma
  and the next value, with white space allowed around each.
\<close>

function parse_elems :: "string \<Rightarrow> pyval list \<Rightarrow> exn + (pyval list \<times> string)" where
  "parse_elems s acc =
     (case scan_scalar s of
        Inl e \<Rightarrow> Inl e
      | Inr (v, r) \<Rightarrow>
          (case skip_ws r of
             [] \<Rightarrow> Inl JSONDecodeError
           | c # r' \<Rightarrow>
               if c = CHR '']'' then Inr (acc @ [v], r')
               else if c = CHR '','' then parse_elems (skip_ws r') (acc @ [v])
               else Inl JSONDecodeError))"
  by pat_completeness auto
termination
proof (relation "measure (\<lambda>(s, acc). length s)")
  show "wf (measure (\<lambda>(s, acc). length s))" by simp
next
  fix s :: string and acc :: "pyval list" and x2 x y c r'
  assume a: "scan_scalar s = Inr x2" "(x, y) = x2" "skip_ws y = c # r'"
  from a have "length y < length s"
    using scan_scalar_shorter [of s x y] by simp
  moreover have "length (c # r') \<le> length y"
    using skip_ws_length [of y] a by simp
  moreover have "length (skip_ws r') \<le> length r'"
    by (rule skip_ws_length)
  ultimately show "((skip_ws r', acc @ [x]), s, acc) \<in> measure (\<lambda>(s, acc). length s)"
    by simp
qed

declare parse_elems.simps [simp del]

definition parse_array :: "string \<Rightarrow> exn + (pyval \<times> string)" where
  "parse_array s =
     (case skip_ws s of
        [] \<Rightarrow> Inl JSONDecodeError
      | c # r \<Rightarrow>
          if c = CHR '']'' then Inr (PList [], r)
          else (case parse_elems (c # r) [] of
                  Inl e \<Rightarrow> Inl e
                | Inr (vs, r') \<Rightarrow> Inr (PList vs, r')))"

definition scan_once :: "string \<Rightarrow> exn + (pyval \<times> string)" where
  "scan_once s =
     (case s of
        [] \<Rightarrow> Inl JSONDecodeError
      | c # cs \<Rightarrow> if c = CHR ''['' then parse_array cs else scan_scalar s)"

text \<open>\<open>json.loads\<close> on a string: one value, white space around it, nothing after it.\<close>

definition json_loads :: "string \<Rightarrow> exn + pyval" where
  "json_loads s =
     (case scan_once (skip_ws s) of
        Inl e \<Rightarrow> Inl e
      | Inr (v, r) \<Rightarrow> if skip_ws r = [] then Inr v else Inl JSONDecodeError)"

text \<open>\<open>json.loads\<close> on any object: only a string is accepted.\<close>

definition py_json_loads :: "pyval \<Rightarrow> exn + pyval" where
  "py_json_loads v =
     (case v of
        PStr s \<Rightarrow> json_loads s
      | _ \<Rightarrow> Inl TypeError)"


section \<open>Binary64 floats\<close>

text \<open>
  A finite float is a pair \<open>(m, e)\<close> standing for \<open>m * 2 ^ e\<close>, kept in normal form (an odd
  \<open>m\<close>, or \<open>(0, 0)\<close>).  \<open>round53\<close> rounds an exact dyadic number to 53 significant bits, to
  nearest with ties to even, which is what an int-to-float conversion and a float
  multiplication do as long as the result is a normal number and does not overflow.
\<close>

fun bitlen :: "nat \<Rightarrow> nat" where
  "bitlen n = (if n = 0 then 0 else Suc (bitlen (n div 2)))"

declare bitlen.simps [simp del]

fun trailing_zeros :: "nat \<Rightarrow> nat" where
  "trailing_zeros n = (if n = 0 \<or> odd n then 0 else Suc (trailing_zeros (n div 2)))"

declare trailing_zeros.simps [simp del]

definition norm_float :: "int \<Rightarrow> int \<Rightarrow> int \<times> int" where
  "norm_float m e =
     (if m = 0 then (0, 0)
      else let k = trailing_zeros (nat \<bar>m\<bar>) in (m div 2 ^ k, e + int k))"

definition round53 :: "int \<Rightarrow> int \<Rightarrow> int \<times> int" where
  "round53 m e =
     (let a = nat \<bar>m\<bar>; b = bitlen a in
      if b \<le> 53 then norm_float m e
      else
        let sh = b - 53;
            q = a div 2 ^ sh;
            r = a mod 2 ^ sh;
            h = 2 ^ (sh - 1);
            q' = (if h < r \<or> (r = h \<and> odd q) then q + 1 else q)
        in norm_float (sgn m * int q') (e + int sh))"

text \<open>The range in which \<open>round53\<close> is the binary64 rounding: zero, or a normal number
  below \<open>2 ^ 1023\<close> in magnitude.\<close>

definition in_float_range :: "int \<Rightarrow> int \<Rightarrow> bool" where
  "in_float_range m e =
     (m = 0 \<or> (- 1021 \<le> int (bitlen (nat \<bar>m\<bar>)) + e \<and> int (bitlen (nat \<bar>m\<bar>)) + e \<le> 1023))"

text \<open>\<open>float(i)\<close>.\<close>

definition float_of_int :: "int \<Rightarrow> int \<times> int" where
  "float_of_int i = round53 i 0"

text \<open>The float literal \<open>1.2\<close>: the binary64 number nearest to 12/10.\<close>

definition float_1_2 :: "int \<times> int" where
  "float_1_2 = (5404319552844595, - 52)"

definition float_mul :: "int \<times> int \<Rightarrow> int \<times> int \<Rightarrow> int \<times> int" where
  "float_mul x y = round53 (fst x * fst y) (snd x + snd y)"

text \<open>
  \<open>v * 1.2\<close>.  An integer is converted to a float first.  A string or a list cannot be
  multiplied by a float.  Integers beyond 64 bits (the engine stores none) and floats
  at the edge of the binary64 range are left out.
\<close>

definition mul_1_2 :: "pyval \<Rightarrow> exn + pyval" where
  "mul_1_2 v =
     (case v of
        PInt i \<Rightarrow>
          if - (2 ^ 63) \<le> i \<and> i < 2 ^ 63
          then (case float_mul (float_of_int i) float_1_2 of (m, e) \<Rightarrow> Inr (PFloat m e))
          else Inl (OutsideModel ''integer beyond 64 bits times a float'')
      | PBool b \<Rightarrow>
          (case float_mul (float_of_int (if b then 1 else 0)) float_1_2 of
             (m, e) \<Rightarrow> Inr (PFloat m e))
      | PFloat m e \<Rightarrow>
          if in_float_range m e \<and> in_float_range (m * 2) e
          then (case float_mul (norm_float m e) float_1_2 of (m', e') \<Rightarrow> Inr (PFloat m' e'))
          else Inl (OutsideModel ''float at the edge of the binary64 range'')
      | PStr s \<Rightarrow> Inl TypeError
      | PList xs \<Rightarrow> Inl TypeError
      | PNone \<Rightarrow> Inl TypeError)"


section \<open>The storage engine\<close>

subsection \<open>Values, affinity and comparison\<close>

text \<open>
  A stored value is NULL, an INTEGER, a REAL (a float in normal form) or TEXT.  A
  column has an affinity, which converts a value on its way into the column.
\<close>

datatype sqlval = SNull | SInt int | SReal int int | SText string

datatype affinity = TEXT | INTEGER | REAL | NUMERIC

definition has_digit :: "string \<Rightarrow> bool" where
  "has_digit s = (\<exists>c \<in> set s. is_digit c)"

text \<open>
  Text goes into a numeric column unchanged unless it is a well-formed numeric
  literal; a literal has a digit, so text without one is certainly kept.  The
  conversion of numeric text is not modelled, nor is the text of a REAL.
\<close>

definition numeric_affinity :: "sqlval \<Rightarrow> exn + sqlval" where
  "numeric_affinity v =
     (case v of
        SText s \<Rightarrow>
          if has_digit s then Inl (OutsideModel ''text with a digit into a numeric column'')
          else Inr v
      | SReal m e \<Rightarrow>
          if 0 \<le> e \<and> - (2 ^ 63) < m * 2 ^ nat e \<and> m * 2 ^ nat e < 2 ^ 63
          then Inr (SInt (m * 2 ^ nat e))
          else Inr v
      | _ \<Rightarrow> Inr v)"

definition apply_affinity :: "affinity \<Rightarrow> sqlval \<Rightarrow> exn + sqlval" where
  "apply_affinity a v =
     (case a of
        TEXT \<Rightarrow>
          (case v of
             SInt i \<Rightarrow> Inr (SText (dec_int i))
           | SReal m e \<Rightarrow> Inl (OutsideModel ''REAL into a TEXT column'')
           | _ \<Rightarrow> Inr v)
      | INTEGER \<Rightarrow> numeric_affinity v
      | NUMERIC \<Rightarrow> numeric_affinity v
      | REAL \<Rightarrow>
          (case v of
             SInt i \<Rightarrow> (case float_of_int i of (m, e) \<Rightarrow> Inr (SReal m e))
           | SText s \<Rightarrow>
               if has_digit s then Inl (OutsideModel ''text with a digit into a numeric column'')
               else Inr v
           | _ \<Rightarrow> Inr v))"

text \<open>The number a numeric value stands for.\<close>

definition num_val :: "sqlval \<Rightarrow> rat" where
  "num_val v =
     (case v of
        SInt i \<Rightarrow> of_int i
      | SReal m e \<Rightarrow> (if 0 \<le> e then of_int m * 2 ^ nat e else of_int m / 2 ^ nat (- e))
      | _ \<Rightarrow> 0)"

text \<open>
  The order ORDER BY sorts in: NULL first, then numbers by value, then text by the
  BINARY collation.
\<close>

fun sql_le :: "sqlval \<Rightarrow> sqlval \<Rightarrow> bool" where
  "sql_le SNull _ = True"
| "sql_le _ SNull = False"
| "sql_le (SText s) (SText t) = (s \<le> t)"
| "sql_le (SText s) _ = False"
| "sql_le _ (SText t) = True"
| "sql_le a b = (num_val a \<le> num_val b)"

text \<open>The comparison \<open>a = b\<close> of a WHERE clause, where it is true.\<close>

fun sql_eq :: "sqlval \<Rightarrow> sqlval \<Rightarrow> bool" where
  "sql_eq SNull _ = False"
| "sql_eq _ SNull = False"
| "sql_eq (SText s) (SText t) = (s = t)"
| "sql_eq (SText s) _ = False"
| "sql_eq _ (SText t) = False"
| "sql_eq a b = (num_val a = num_val b)"

text \<open>The operator NOT.  Its value on text goes through a numeric conversion that is
  not modelled.\<close>

definition sql_not :: "sqlval \<Rightarrow> exn + sqlval" where
  "sql_not v =
     (case v of
        SNull \<Rightarrow> Inr SNull
      | SInt i \<Rightarrow> Inr (SInt (if i = 0 then 1 else 0))
      | SReal m e \<Rightarrow> Inr (SInt (if m = 0 then 1 else 0))
      | SText s \<Rightarrow> Inl (OutsideModel ''NOT of a text value''))"

subsection \<open>The schema\<close>

datatype dflt = NoDefault | Default sqlval | CurrentTimestamp

record coldef =
  cname :: string
  caff :: affinity
  notnull :: bool
  cdefault :: dflt

definition col :: "string \<Rightarrow> affinity \<Rightarrow> coldef" where
  "col n a = \<lparr>cname = n, caff = a, notnull = False, cdefault = NoDefault\<rparr>"

definition col_nn :: "string \<Rightarrow> affinity \<Rightarrow> coldef" where
  "col_nn n a = \<lparr>cname = n, caff = a, notnull = True, cdefault = NoDefault\<rparr>"

definition col_d :: "string \<Rightarrow> affinity \<Rightarrow> dflt \<Rightarrow> coldef" where
  "col_d n a d = \<lparr>cname = n, caff = a, notnull = False, cdefault = d\<rparr>"

datatype table = Jobs | Companies | Contacts | Offers | JobAlerts | InterviewSessions

fun table_name :: "table \<Rightarrow> string" where
  "table_name Jobs = ''jobs''"
| "table_name Companies = ''companies''"
| "table_name Contacts = ''contacts''"
| "table_name Offers = ''offers''"
| "table_name JobAlerts = ''job_alerts''"
| "table_name InterviewSessions = ''interview_sessions''"

text \<open>
  The six CREATE TABLE statements of \<open>_init_schema\<close>, column by column.  \<open>id\<close> is the
  primary key of every table (TEXT PRIMARY KEY, which does not forbid NULL).  BOOLEAN
  has NUMERIC affinity.
\<close>

fun schema :: "table \<Rightarrow> coldef list" where
  "schema Jobs =
     [col ''id'' TEXT, col_nn ''title'' TEXT, col_nn ''company'' TEXT, col ''url'' TEXT,
      col ''description'' TEXT, col ''location'' TEXT, col ''salary'' TEXT,
      col ''requirements'' TEXT, col_d ''stage'' TEXT (Default (SText ''saved'')),
      col_d ''notes'' TEXT (Default (SText '''')), col ''tags'' TEXT,
      col ''applied_date'' TEXT, col_nn ''created_at'' TEXT, col_nn ''updated_at'' TEXT]"
| "schema Companies =
     [col ''id'' TEXT, col_nn ''name'' TEXT, col ''domain'' TEXT, col ''industry'' TEXT,
      col ''size'' TEXT, col ''funding_stage'' TEXT, col ''rating'' REAL,
      col ''location'' TEXT, col ''website'' TEXT, col ''notes'' TEXT,
      col ''last_updated'' TEXT, col_d ''created_at'' TEXT CurrentTimestamp]"
| "schema Contacts =
     [col ''id'' TEXT, col_nn ''name'' TEXT, col_nn ''company'' TEXT, col ''position'' TEXT,
      col ''linkedin_url'' TEXT, col ''relationship'' TEXT, col ''connection_type'' TEXT,
      col ''warm_intro_potential'' TEXT, col ''last_contact'' TEXT, col ''notes'' TEXT,
      col_d ''created_at'' TEXT CurrentTimestamp, col_d ''updated_at'' TEXT CurrentTimestamp]"
| "schema Offers =
     [col ''id'' TEXT, col ''job_id'' TEXT, col_nn ''company'' TEXT,
      col ''base_salary'' INTEGER, col ''bonus'' TEXT, col ''equity'' TEXT,
      col ''benefits'' TEXT, col ''start_date'' TEXT, col ''negotiation_notes'' TEXT,
      col_d ''status'' TEXT (Default (SText ''pending'')),
      col_d ''created_at'' TEXT CurrentTimestamp, col_d ''updated_at'' TEXT CurrentTimestamp]"
| "schema JobAlerts =
     [col ''id'' TEXT, col_nn ''name'' TEXT, col_nn ''keywords'' TEXT, col ''location'' TEXT,
      col_d ''frequency'' TEXT (Default (SText ''daily'')),
      col_d ''is_active'' NUMERIC (Default (SInt 1)), col ''last_run'' TEXT,
      col_d ''created_at'' TEXT CurrentTimestamp, col_d ''updated_at'' TEXT CurrentTimestamp]"
| "schema InterviewSessions =
     [col ''id'' TEXT, col_nn ''company'' TEXT, col_nn ''role'' TEXT,
      col_d ''category'' TEXT (Default (SText ''behavioral'')), col ''questions'' TEXT,
      col ''answers'' TEXT, col ''feedback'' TEXT, col ''score'' INTEGER,
      col_d ''created_at'' TEXT CurrentTimestamp, col_d ''updated_at'' TEXT CurrentTimestamp]"

definition columns :: "table \<Rightarrow> string list" where
  "columns t = map cname (schema t)"

definition find_col :: "table \<Rightarrow> string \<Rightarrow> coldef option" where
  "find_col t n = find (\<lambda>c. cname c = n) (schema t)"

subsection \<open>Rows and the database\<close>

text \<open>
  A row gives every column of its table a value; the database is the six tables,
  each a list of rows in the order of insertion.
\<close>

type_synonym row = "string \<Rightarrow> sqlval"

type_synonym db = "table \<Rightarrow> row list"

definition empty_db :: db where
  "empty_db = (\<lambda>t. [])"

definition make_row :: "string list \<Rightarrow> sqlval list \<Rightarrow> row" where
  "make_row ns vs = (\<lambda>n. case map_of (zip ns vs) n of Some v \<Rightarrow> v | None \<Rightarrow> SNull)"

subsection \<open>Statements\<close>

text \<open>
  The statements vault.py sends, as data.  \<open>SELECT_ALL t c d\<close> is
  \<open>SELECT * FROM t ORDER BY c d\<close>; \<open>SELECT_BY_ID t\<close> is \<open>SELECT * FROM t WHERE id = ?\<close>;
  \<open>INSERT t cols ts\<close> is \<open>INSERT INTO t (cols) VALUES (?, ...)\<close> run when the engine's
  CURRENT_TIMESTAMP is \<open>ts\<close>; \<open>UPDATE_BY_ID t sets\<close> is \<open>UPDATE t SET ... WHERE id = ?\<close>,
  each item \<open>c = ?\<close> or \<open>c = NOT d\<close>; \<open>DELETE_BY_ID t\<close> is \<open>DELETE FROM t WHERE id = ?\<close>.
\<close>

datatype sort_dir = ASC | DESC

datatype setexpr = Param | NotCol string

datatype query = SELECT_ALL table string sort_dir | SELECT_BY_ID table

datatype command =
    INSERT table "string list" string
  | UPDATE_BY_ID table "(string \<times> setexpr) list"
  | DELETE_BY_ID table

fun query_table :: "query \<Rightarrow> table" where
  "query_table (SELECT_ALL t c d) = t"
| "query_table (SELECT_BY_ID t) = t"

text \<open>The number of \<open>?\<close> in a statement.\<close>

fun query_params :: "query \<Rightarrow> nat" where
  "query_params (SELECT_ALL t c d) = 0"
| "query_params (SELECT_BY_ID t) = 1"

fun command_params :: "command \<Rightarrow> nat" where
  "command_params (INSERT t cols ts) = length cols"
| "command_params (UPDATE_BY_ID t sets) = length (filter (\<lambda>x. snd x = Param) sets) + 1"
| "command_params (DELETE_BY_ID t) = 1"

subsection \<open>Queries\<close>

text \<open>
  ORDER BY as a stable insertion sort.  SQL leaves the order of rows with equal keys
  open; here they stay in the order of insertion.
\<close>

fun insort_by :: "('a \<Rightarrow> 'a \<Rightarrow> bool) \<Rightarrow> 'a \<Rightarrow> 'a list \<Rightarrow> 'a list" where
  "insort_by le x [] = [x]"
| "insort_by le x (y # ys) = (if le x y then x # y # ys else y # insort_by le x ys)"

definition sort_by :: "('a \<Rightarrow> 'a \<Rightarrow> bool) \<Rightarrow> 'a list \<Rightarrow> 'a list" where
  "sort_by le xs = foldr (insort_by le) xs []"

fun row_le :: "string \<Rightarrow> sort_dir \<Rightarrow> row \<Rightarrow> row \<Rightarrow> bool" where
  "row_le c ASC a b = sql_le (a c) (b c)"
| "row_le c DESC a b = sql_le (b c) (a c)"

definition order_by :: "string \<Rightarrow> sort_dir \<Rightarrow> row list \<Rightarrow> row list" where
  "order_by c d rows = sort_by (row_le c d) rows"

definition matches_id :: "sqlval \<Rightarrow> row \<Rightarrow> bool" where
  "matches_id v r = sql_eq (r ''id'') v"

fun run_query :: "query \<Rightarrow> sqlval list \<Rightarrow> db \<Rightarrow> exn + row list" where
  "run_query (SELECT_ALL t c d) ps s =
     (if c \<in> set (columns t) then Inr (order_by c d (s t))
      else Inl (SqliteError (''no such column: '' @ c)))"
| "run_query (SELECT_BY_ID t) ps s =
     (case ps of
        [v] \<Rightarrow> Inr (filter (matches_id v) (s t))
      | _ \<Rightarrow> Inl (SqliteError ''Incorrect number of bindings supplied''))"

subsection \<open>Commands\<close>

definition unknown_column :: "table \<Rightarrow> string list \<Rightarrow> string option" where
  "unknown_column t ns = find (\<lambda>n. n \<notin> set (columns t)) ns"

text \<open>
  The first NOT NULL column, among the columns a statement writes, that holds NULL in
  the new row.  An INSERT writes every column; an UPDATE is checked on the columns
  it assigns only.
\<close>

definition null_violation :: "table \<Rightarrow> string list \<Rightarrow> row \<Rightarrow> string option" where
  "null_violation t written r =
     map_option cname
       (find (\<lambda>c. cname c \<in> set written \<and> notnull c \<and> r (cname c) = SNull) (schema t))"

text \<open>The value INSERT stores in a column: the argument given for it, converted by
  the column's affinity, or the column's default.\<close>

definition insert_value :: "string \<Rightarrow> (string \<times> sqlval) list \<Rightarrow> coldef \<Rightarrow> exn + sqlval" where
  "insert_value ts given c =
     (case map_of given (cname c) of
        Some v \<Rightarrow> apply_affinity (caff c) v
      | None \<Rightarrow>
          (case cdefault c of
             NoDefault \<Rightarrow> Inr SNull
           | Default v \<Rightarrow> Inr v
           | CurrentTimestamp \<Rightarrow> Inr (SText ts)))"

text \<open>The items of a SET clause with the arguments of their \<open>?\<close>, left to right.\<close>

fun bind_sets :: "(string \<times> setexpr) list \<Rightarrow> sqlval list \<Rightarrow> (string \<times> (sqlval + string)) list" where
  "bind_sets [] ps = []"
| "bind_sets ((c, NotCol d) # xs) ps = (c, Inr d) # bind_sets xs ps"
| "bind_sets ((c, Param) # xs) [] = (c, Inl SNull) # bind_sets xs []"
| "bind_sets ((c, Param) # xs) (p # ps) = (c, Inl p) # bind_sets xs ps"

text \<open>One assignment of an UPDATE, computed on the row as it was before the statement.\<close>

definition set_value :: "table \<Rightarrow> row \<Rightarrow> string \<times> (sqlval + string) \<Rightarrow> exn + (string \<times> sqlval)" where
  "set_value t r a =
     (case find_col t (fst a) of
        None \<Rightarrow> Inl (SqliteError (''no such column: '' @ fst a))
      | Some c \<Rightarrow>
          (case (case snd a of Inl v \<Rightarrow> Inr v | Inr d \<Rightarrow> sql_not (r d)) of
             Inl e \<Rightarrow> Inl e
           | Inr v \<Rightarrow>
               (case apply_affinity (caff c) v of
                  Inl e \<Rightarrow> Inl e
                | Inr v' \<Rightarrow> Inr (fst a, v'))))"

text \<open>When a column is assigned twice, the rightmost assignment stays.\<close>

definition update_row :: "table \<Rightarrow> (string \<times> (sqlval + string)) list \<Rightarrow> row \<Rightarrow> exn + row" where
  "update_row t as r =
     (case collect (map (set_value t r) as) of
        Inl e \<Rightarrow> Inl e
      | Inr cvs \<Rightarrow>
          (let r' = foldl (\<lambda>x cv. x(fst cv := snd cv)) r cvs in
           case null_violation t (map fst as) r' of
             Some n \<Rightarrow>
               Inl (SqliteError (''NOT NULL constraint failed: '' @ table_name t @ ''.'' @ n))
           | None \<Rightarrow> Inr r'))"

text \<open>
  A statement changes the database as a whole or not at all.  An UPDATE that
  assigns the primary key is left out of the model (vault.py never sends one).
\<close>

fun run_command :: "command \<Rightarrow> sqlval list \<Rightarrow> db \<Rightarrow> exn + (nat \<times> db)" where
  "run_command (INSERT t cols ts) ps s =
     (case unknown_column t cols of
        Some n \<Rightarrow>
          Inl (SqliteError (''table '' @ table_name t @ '' has no column named '' @ n))
      | None \<Rightarrow>
          (case collect (map (insert_value ts (zip cols ps)) (schema t)) of
             Inl e \<Rightarrow> Inl e
           | Inr vs \<Rightarrow>
               (let r = make_row (columns t) vs in
                case null_violation t (columns t) r of
                  Some n \<Rightarrow>
                    Inl (SqliteError
                          (''NOT NULL constraint failed: '' @ table_name t @ ''.'' @ n))
                | None \<Rightarrow>
                    if list_ex (matches_id (r ''id'')) (s t)
                    then Inl (SqliteError
                               (''UNIQUE constraint failed: '' @ table_name t @ ''.id''))
                    else Inr (1, s(t := s t @ [r])))))"
| "run_command (UPDATE_BY_ID t sets) ps s =
     (case rev ps of
        [] \<Rightarrow> Inl (SqliteError ''Incorrect number of bindings supplied'')
      | v # rest \<Rightarrow>
          (case unknown_column t (map fst sets) of
             Some n \<Rightarrow> Inl (SqliteError (''no such column: '' @ n))
           | None \<Rightarrow>
               if ''id'' \<in> set (map fst sets)
               then Inl (OutsideModel ''UPDATE of the primary key'')
               else
                 (case collect (map (\<lambda>r. if matches_id v r
                                           then update_row t (bind_sets sets (rev rest)) r
                                           else Inr r) (s t)) of
                    Inl e \<Rightarrow> Inl e
                  | Inr rows \<Rightarrow> Inr (length (filter (matches_id v) (s t)), s(t := rows)))))"
| "run_command (DELETE_BY_ID t) ps s =
     (case ps of
        [v] \<Rightarrow>
          Inr (length (filter (matches_id v) (s t)),
               s(t := filter (\<lambda>r. \<not> matches_id v r) (s t)))
      | _ \<Rightarrow> Inl (SqliteError ''Incorrect number of bindings supplied''))"


section \<open>The sqlite3 module\<close>

text \<open>
  A Python object becomes a stored value when it is bound to a \<open>?\<close>.  An integer
  outside 64 bits raises \<open>OverflowError\<close>; a list is refused with an error of
  \<open>sqlite3.Error\<close>.
\<close>

definition squote :: char where
  "squote = CHR 0x27"

definition int64 :: "int \<Rightarrow> bool" where
  "int64 i = (- (2 ^ 63) \<le> i \<and> i < 2 ^ 63)"

definition bind_param :: "nat \<Rightarrow> pyval \<Rightarrow> exn + sqlval" where
  "bind_param n v =
     (case v of
        PNone \<Rightarrow> Inr SNull
      | PBool b \<Rightarrow> Inr (SInt (if b then 1 else 0))
      | PInt i \<Rightarrow> if int64 i then Inr (SInt i) else Inl OverflowError
      | PFloat m e \<Rightarrow> (case norm_float m e of (m', e') \<Rightarrow> Inr (SReal m' e'))
      | PStr s \<Rightarrow> Inr (SText s)
      | PList xs \<Rightarrow>
          Inl (SqliteError (''Error binding parameter '' @ dec_nat n @ '': type ''
                 @ [squote] @ ''list'' @ [squote] @ '' is not supported'')))"

fun bind_from :: "nat \<Rightarrow> pyval list \<Rightarrow> exn + sqlval list" where
  "bind_from n [] = Inr []"
| "bind_from n (p # ps) =
     (case bind_param n p of
        Inl e \<Rightarrow> Inl e
      | Inr v \<Rightarrow> (case bind_from (Suc n) ps of Inl e \<Rightarrow> Inl e | Inr vs \<Rightarrow> Inr (v # vs)))"

fun py_of_sql :: "sqlval \<Rightarrow> pyval" where
  "py_of_sql SNull = PNone"
| "py_of_sql (SInt i) = PInt i"
| "py_of_sql (SReal m e) = PFloat m e"
| "py_of_sql (SText s) = PStr s"

text \<open>\<open>dict(row)\<close> for a row of \<open>SELECT *\<close>: every column, in the order of the schema.\<close>

definition row_dict :: "table \<Rightarrow> row \<Rightarrow> pydict" where
  "row_dict t r = map (\<lambda>n. (n, py_of_sql (r n))) (columns t)"

text \<open>
  A connection holds the database as committed and as the statements of the open
  transaction have left it.
\<close>

record conn =
  committed :: db
  working :: db

definition conn_query :: "query \<Rightarrow> pyval list \<Rightarrow> conn \<Rightarrow> (exn + row list) \<times> conn" where
  "conn_query q ps c =
     (if length ps \<noteq> query_params q
      then (Inl (SqliteError ''Incorrect number of bindings supplied''), c)
      else case bind_from 1 ps of
             Inl e \<Rightarrow> (Inl e, c)
           | Inr vs \<Rightarrow> (run_query q vs (working c), c))"

definition conn_command :: "command \<Rightarrow> pyval list \<Rightarrow> conn \<Rightarrow> (exn + nat) \<times> conn" where
  "conn_command cmd ps c =
     (if length ps \<noteq> command_params cmd
      then (Inl (SqliteError ''Incorrect number of bindings supplied''), c)
      else case bind_from 1 ps of
             Inl e \<Rightarrow> (Inl e, c)
           | Inr vs \<Rightarrow>
               (case run_command cmd vs (working c) of
                  Inl e \<Rightarrow> (Inl e, c)
                | Inr (n, w) \<Rightarrow> (Inr n, c\<lparr>working := w\<rparr>)))"

definition commit :: "conn \<Rightarrow> conn" where
  "commit c = c\<lparr>committed := working c\<rparr>"

definition rollback :: "conn \<Rightarrow> conn" where
  "rollback c = c\<lparr>working := committed c\<rparr>"


section \<open>WickitSQLite\<close>

text \<open>
  \<open>get_connection\<close>: the body runs on a fresh connection.  An exception of
  \<open>sqlite3.Error\<close> is caught, the transaction rolled back and \<open>DatabaseError\<close> raised
  with the text \<open>Database error: \<close> and the engine's message; any other exception
  passes.  The connection is closed in every case, and what was not committed is
  lost.
\<close>

definition get_connection :: "(conn \<Rightarrow> (exn + 'a) \<times> conn) \<Rightarrow> db \<Rightarrow> (exn + 'a) \<times> db" where
  "get_connection body s =
     (case body \<lparr>committed = s, working = s\<rparr> of
        (Inl (SqliteError m), c) \<Rightarrow>
          (Inl (DatabaseError (''Database error: '' @ m)), committed (rollback c))
      | (r, c) \<Rightarrow> (r, committed c))"

definition execute_query :: "query \<Rightarrow> pyval list \<Rightarrow> db \<Rightarrow> (exn + pydict list) \<times> db" where
  "execute_query q ps s =
     get_connection
       (\<lambda>c. case conn_query q ps c of
               (Inl e, c') \<Rightarrow> (Inl e, c')
             | (Inr rows, c') \<Rightarrow> (Inr (map (row_dict (query_table q)) rows), c')) s"

definition execute_command :: "command \<Rightarrow> pyval list \<Rightarrow> db \<Rightarrow> (exn + nat) \<times> db" where
  "execute_command cmd ps s =
     get_connection
       (\<lambda>c. case conn_command cmd ps c of
               (Inl e, c') \<Rightarrow> (Inl e, c')
             | (Inr n, c') \<Rightarrow> (Inr n, commit c')) s"


section \<open>VaultDatabase\<close>

text \<open>
  What a call reads from outside the program: the result of \<open>str(uuid.uuid4())\<close>, of
  \<open>datetime.now().isoformat()\<close>, and the engine's CURRENT_TIMESTAMP.  The operations
  that only read the clock take its text as an argument.
\<close>

record env =
  uuid4 :: string
  clock :: string
  current_timestamp :: string

text \<open>
  In every \<open>create_*\<close> the keys of \<open>record\<close>, the column list of the INSERT and the
  tuple of arguments run in the same order, so the statement and its arguments are
  read off the record.
\<close>

definition insert_record :: "table \<Rightarrow> string \<Rightarrow> pydict \<Rightarrow> db \<Rightarrow> (exn + nat) \<times> db" where
  "insert_record t ts kvs s = execute_command (INSERT t (map fst kvs) ts) (map snd kvs) s"

text \<open>\<open>xs[0] if xs else None\<close>.\<close>

definition first_or_none :: "'a list \<Rightarrow> 'a option" where
  "first_or_none xs = (case xs of [] \<Rightarrow> None | x # _ \<Rightarrow> Some x)"

text \<open>\<open>d[k] = json.loads(d[k] or "[]")\<close>; every key read here is a column of the row.\<close>

definition decode_field :: "string \<Rightarrow> pydict \<Rightarrow> exn + pydict" where
  "decode_field k d =
     (case py_json_loads (py_or (dict_get_none d k) (PStr ''[]'')) of
        Inl e \<Rightarrow> Inl e
      | Inr v \<Rightarrow> Inr (dict_set d k v))"

fun decode_fields :: "string list \<Rightarrow> pydict \<Rightarrow> exn + pydict" where
  "decode_fields [] d = Inr d"
| "decode_fields (k # ks) d =
     (case decode_field k d of Inl e \<Rightarrow> Inl e | Inr d' \<Rightarrow> decode_fields ks d')"

text \<open>The end of a \<open>create_*\<close>: \<open>return self.get_*(id)\<close> after the command.\<close>

definition then_get :: "(exn + nat) \<times> db \<Rightarrow> (db \<Rightarrow> exn + 'a) \<Rightarrow> (exn + 'a) \<times> db" where
  "then_get r g = (case r of (Inl e, s') \<Rightarrow> (Inl e, s') | (Inr n, s') \<Rightarrow> (g s', s'))"

subsection \<open>Jobs\<close>

definition get_job :: "string \<Rightarrow> db \<Rightarrow> exn + pydict option" where
  "get_job job_id s =
     (case fst (execute_query (SELECT_BY_ID Jobs) [PStr job_id] s) of
        Inl e \<Rightarrow> Inl e
      | Inr jobs \<Rightarrow>
          (case jobs of
             [] \<Rightarrow> Inr None
           | job # _ \<Rightarrow>
               (case decode_fields [''requirements'', ''tags''] job of
                  Inl e \<Rightarrow> Inl e
                | Inr j \<Rightarrow> Inr (Some j))))"

definition get_jobs :: "db \<Rightarrow> exn + pydict list" where
  "get_jobs s =
     (case fst (execute_query (SELECT_ALL Jobs ''created_at'' DESC) [] s) of
        Inl e \<Rightarrow> Inl e
      | Inr jobs \<Rightarrow> collect (map (decode_fields [''requirements'', ''tags'']) jobs))"

definition create_job :: "env \<Rightarrow> pydict \<Rightarrow> db \<Rightarrow> (exn + pydict option) \<times> db" where
  "create_job e job_data s =
     (case json_dumps (dict_get job_data ''requirements'' (PList [])) of
        Inl x \<Rightarrow> (Inl x, s)
      | Inr reqs \<Rightarrow>
          (case json_dumps (dict_get job_data ''tags'' (PList [])) of
             Inl x \<Rightarrow> (Inl x, s)
           | Inr tags \<Rightarrow>
               then_get
                 (insert_record Jobs (current_timestamp e)
                    [(''id'', PStr (uuid4 e)),
                     (''title'', dict_get job_data ''title'' (PStr '''')),
                     (''company'', dict_get job_data ''company'' (PStr '''')),
                     (''url'', dict_get_none job_data ''url''),
                     (''description'', dict_get_none job_data ''description''),
                     (''location'', dict_get_none job_data ''location''),
                     (''salary'', dict_get_none job_data ''salary''),
                     (''requirements'', PStr reqs),
                     (''stage'', dict_get job_data ''stage'' (PStr ''saved'')),
                     (''notes'', dict_get job_data ''notes'' (PStr '''')),
                     (''tags'', PStr tags),
                     (''applied_date'', dict_get_none job_data ''applied_date''),
                     (''created_at'', PStr (clock e)),
                     (''updated_at'', PStr (clock e))] s)
                 (get_job (uuid4 e))))"



definition delete_job :: "string \<Rightarrow> db \<Rightarrow> (exn + bool) \<times> db" where
  "delete_job job_id s =
     (case execute_command (DELETE_BY_ID Jobs) [PStr job_id] s of
        (Inl x, s') \<Rightarrow> (Inl x, s')
      | (Inr rows_affected, s') \<Rightarrow> (Inr (rows_affected > 0), s'))"

subsection \<open>Companies\<close>

definition get_company :: "string \<Rightarrow> db \<Rightarrow> exn + pydict option" where
  "get_company company_id s =
     (case fst (execute_query (SELECT_BY_ID Companies) [PStr company_id] s) of
        Inl e \<Rightarrow> Inl e
      | Inr companies \<Rightarrow> Inr (first_or_none companies))"

definition get_companies :: "db \<Rightarrow> exn + pydict list" where
  "get_companies s = fst (execute_query (SELECT_ALL Companies ''name'' ASC) [] s)"

definition create_company :: "env \<Rightarrow> pydict \<Rightarrow> db \<Rightarrow> (exn + pydict option) \<times> db" where
  "create_company e company_data s =
     then_get
       (insert_record Companies (current_timestamp e)
          [(''id'', PStr (uuid4 e)),
           (''name'', dict_get company_data ''name'' (PStr '''')),
           (''domain'', dict_get_none company_data ''domain''),
           (''industry'', dict_get_none company_data ''industry''),
           (''size'', dict_get_none company_data ''size''),
           (''funding_stage'', dict_get_none company_data ''funding_stage''),
           (''rating'', dict_get_none company_data ''rating''),
           (''location'', dict_get_none company_data ''location''),
           (''website'', dict_get_none company_data ''website''),
           (''notes'', dict_get company_data ''notes'' (PStr '''')),
           (''last_updated'', PStr (clock e)),
           (''created_at'', PStr (clock e))] s)
       (get_company (uuid4 e))"

subsection \<open>Contacts\<close>

definition get_contact :: "string \<Rightarrow> db \<Rightarrow> exn + pydict option" where
  "get_contact contact_id s =
     (case fst (execute_query (SELECT_BY_ID Contacts) [PStr contact_id] s) of
        Inl e \<Rightarrow> Inl e
      | Inr contacts \<Rightarrow> Inr (first_or_none contacts))"

definition get_contacts :: "db \<Rightarrow> exn + pydict list" where
  "get_contacts s = fst (execute_query (SELECT_ALL Contacts ''name'' ASC) [] s)"

definition create_contact :: "env \<Rightarrow> pydict \<Rightarrow> db \<Rightarrow> (exn + pydict option) \<times> db" where
  "create_contact e contact_data s =
     then_get
       (insert_record Contacts (current_timestamp e)
          [(''id'', PStr (uuid4 e)),
           (''name'', dict_get contact_data ''name'' (PStr '''')),
           (''company'', dict_get contact_data ''company'' (PStr '''')),
           (''position'', dict_get_none contact_data ''position''),
           (''linkedin_url'', dict_get_none contact_data ''linkedin_url''),
           (''relationship'', dict_get_none contact_data ''relationship''),
           (''connection_type'', dict_get_none contact_data ''connection_type''),
           (''warm_intro_potential'', dict_get_none contact_data ''warm_intro_potential''),
           (''last_contact'', dict_get_none contact_data ''last_contact''),
           (''notes'', dict_get contact_data ''notes'' (PStr ''''))] s)
       (get_contact (uuid4 e))"

definition delete_contact :: "string \<Rightarrow> db \<Rightarrow> (exn + bool) \<times> db" where
  "delete_contact contact_id s =
     (case execute_command (DELETE_BY_ID Contacts) [PStr contact_id] s of
        (Inl x, s') \<Rightarrow> (Inl x, s')
      | (Inr rows_affected, s') \<Rightarrow> (Inr (rows_affected > 0), s'))"

subsection \<open>Job alerts\<close>

definition get_job_alert :: "string \<Rightarrow> db \<Rightarrow> exn + pydict option" where
  "get_job_alert alert_id s =
     (case fst (execute_query (SELECT_BY_ID JobAlerts) [PStr alert_id] s) of
        Inl e \<Rightarrow> Inl e
      | Inr alerts \<Rightarrow> Inr (first_or_none alerts))"

definition get_job_alerts :: "db \<Rightarrow> exn + pydict list" where
  "get_job_alerts s = fst (execute_query (SELECT_ALL JobAlerts ''created_at'' DESC) [] s)"

definition create_job_alert :: "env \<Rightarrow> pydict \<Rightarrow> db \<Rightarrow> (exn + pydict option) \<times> db" where
  "create_job_alert e alert_data s =
     then_get
       (insert_record JobAlerts (current_timestamp e)
          [(''id'', PStr (uuid4 e)),
           (''name'', dict_get alert_data ''name'' (PStr '''')),
           (''keywords'', dict_get alert_data ''keywords'' (PStr '''')),
           (''location'', dict_get alert_data ''location'' (PStr '''')),
           (''frequency'', dict_get alert_data ''frequency'' (PStr ''daily'')),
           (''is_active'', dict_get alert_data ''is_active'' (PBool True)),
           (''last_run'', dict_get_none alert_data ''last_run''),
           (''created_at'', PStr (clock e)),
           (''updated_at'', PStr (clock e))] s)
       (get_job_alert (uuid4 e))"

definition toggle_job_alert :: "string \<Rightarrow> string \<Rightarrow> db \<Rightarrow> (exn + pydict option) \<times> db" where
  "toggle_job_alert now alert_id s =
     then_get
       (execute_command
          (UPDATE_BY_ID JobAlerts [(''is_active'', NotCol ''is_active''), (''updated_at'', Param)])
          [PStr now, PStr alert_id] s)
       (get_job_alert alert_id)"

text \<open>The result of \<open>run_job_alert\<close>; it reads the clock twice.\<close>

record run_result =
  alert :: "pydict option"
  jobs_found :: "pyval list"
  message :: string

definition run_job_alert :: "string \<Rightarrow> string \<Rightarrow> string \<Rightarrow> db \<Rightarrow> (exn + run_result) \<times> db" where
  "run_job_alert now1 now2 alert_id s =
     (case then_get
             (execute_command
                (UPDATE_BY_ID JobAlerts [(''last_run'', Param), (''updated_at'', Param)])
                [PStr now1, PStr now2, PStr alert_id] s)
             (get_job_alert alert_id) of
        (Inl x, s') \<Rightarrow> (Inl x, s')
      | (Inr a, s') \<Rightarrow>
          (Inr \<lparr>alert = a, jobs_found = [], message = ''Job alert executed (demo mode)''\<rparr>, s'))"

subsection \<open>Interview sessions\<close>

definition get_interview_session :: "string \<Rightarrow> db \<Rightarrow> exn + pydict option" where
  "get_interview_session session_id s =
     (case fst (execute_query (SELECT_BY_ID InterviewSessions) [PStr session_id] s) of
        Inl e \<Rightarrow> Inl e
      | Inr sessions \<Rightarrow>
          (case sessions of
             [] \<Rightarrow> Inr None
           | session # _ \<Rightarrow>
               (case decode_fields [''questions'', ''answers''] session of
                  Inl e \<Rightarrow> Inl e
                | Inr x \<Rightarrow> Inr (Some x))))"

definition get_interview_sessions :: "db \<Rightarrow> exn + pydict list" where
  "get_interview_sessions s =
     (case fst (execute_query (SELECT_ALL InterviewSessions ''created_at'' DESC) [] s) of
        Inl e \<Rightarrow> Inl e
      | Inr sessions \<Rightarrow> collect (map (decode_fields [''questions'', ''answers'']) sessions))"

definition create_interview_session :: "env \<Rightarrow> pydict \<Rightarrow> db \<Rightarrow> (exn + pydict option) \<times> db" where
  "create_interview_session e session_data s =
     (case json_dumps (dict_get session_data ''questions'' (PList [])) of
        Inl x \<Rightarrow> (Inl x, s)
      | Inr questions \<Rightarrow>
          (case json_dumps (dict_get session_data ''answers'' (PList [])) of
             Inl x \<Rightarrow> (Inl x, s)
           | Inr answers \<Rightarrow>
               then_get
                 (insert_record InterviewSessions (current_timestamp e)
                    [(''id'', PStr (uuid4 e)),
                     (''company'', dict_get session_data ''company'' (PStr '''')),
                     (''role'', dict_get session_data ''role'' (PStr '''')),
                     (''category'', dict_get session_data ''category'' (PStr ''behavioral'')),
                     (''questions'', PStr questions),
                     (''answers'', PStr answers),
                     (''feedback'', dict_get session_data ''feedback'' (PStr '''')),
                     (''score'', dict_get_none session_data ''score''),
                     (''created_at'', PStr (clock e)),
                     (''updated_at'', PStr (clock e))] s)
                 (get_interview_session (uuid4 e))))"

subsection \<open>Offers\<close>

definition get_offer :: "string \<Rightarrow> db \<Rightarrow> exn + pydict option" where
  "get_offer offer_id s =
     (case fst (execute_query (SELECT_BY_ID Offers) [PStr offer_id] s) of
        Inl e \<Rightarrow> Inl e
      | Inr offers \<Rightarrow> Inr (first_or_none offers))"

definition get_offers :: "db \<Rightarrow> exn + pydict list" where
  "get_offers s = fst (execute_query (SELECT_ALL Offers ''created_at'' DESC) [] s)"

definition create_offer :: "env \<Rightarrow> pydict \<Rightarrow> db \<Rightarrow> (exn + pydict option) \<times> db" where
  "create_offer e offer_data s =
     then_get
       (insert_record Offers (current_timestamp e)
          [(''id'', PStr (uuid4 e)),
           (''job_id'', dict_get_none offer_data ''job_id''),
           (''company'', dict_get offer_data ''company'' (PStr '''')),
           (''base_salary'', dict_get_none offer_data ''base_salary''),
           (''bonus'', dict_get offer_data ''bonus'' (PStr '''')),
           (''equity'', dict_get offer_data ''equity'' (PStr '''')),
           (''benefits'', dict_get offer_data ''benefits'' (PStr '''')),
           (''start_date'', dict_get_none offer_data ''start_date''),
           (''negotiation_notes'', dict_get offer_data ''negotiation_notes'' (PStr '''')),
           (''status'', dict_get offer_data ''status'' (PStr ''pending''))] s)
       (get_offer (uuid4 e))"

text \<open>\<open>not offer\<close> holds for \<open>None\<close> and for an empty dictionary.\<close>

definition calculate_offer_value :: "string \<Rightarrow> db \<Rightarrow> exn + pydict" where
  "calculate_offer_value offer_id s =
     (case get_offer offer_id s of
        Inl x \<Rightarrow> Inl x
      | Inr None \<Rightarrow> Inl (DatabaseError ''Offer not found'')
      | Inr (Some offer) \<Rightarrow>
          if offer = [] then Inl (DatabaseError ''Offer not found'')
          else
            (let base_salary = py_or (dict_get offer ''base_salary'' (PInt 0)) (PInt 0) in
             case mul_1_2 base_salary of
               Inl x \<Rightarrow> Inl x
             | Inr total_value \<Rightarrow>
                 Inr [(''offer_id'', PStr offer_id),
                      (''base_salary'', base_salary),
                      (''estimated_total_value'', total_value),
                      (''calculation_note'', PStr ''Estimated total value including benefits'')]))"


section \<open>Example inputs\<close>

text \<open>Three calls of a create operation, each with its own identifier and clock.\<close>

definition env_a :: env where
  "env_a = \<lparr>uuid4 = ''a1'', clock = ''2024-05-01T09:00:00.000001'',
             current_timestamp = ''2024-05-01 07:00:00''\<rparr>"

definition env_b :: env where
  "env_b = \<lparr>uuid4 = ''b2'', clock = ''2024-05-01T09:00:00.000002'',
             current_timestamp = ''2024-05-01 07:00:01''\<rparr>"

definition env_c :: env where
  "env_c = \<lparr>uuid4 = ''c3'', clock = ''2024-05-01T09:00:00.000003'',
             current_timestamp = ''2024-05-01 07:00:02''\<rparr>"


section \<open>Auxiliary facts\<close>

lemma collect_map_Inr_iff:
  "collect (map f xs) = Inr ws \<longleftrightarrow> list_all2 (\<lambda>x w. f x = Inr w) xs ws"
proof (induction xs arbitrary: ws)
  case Nil
  show ?case by auto
next
  case (Cons x xs)
  show ?case
  proof (cases "f x")
    case (Inl e)
    then show ?thesis by (auto simp: list_all2_Cons1)
  next
    case (Inr v)
    show ?thesis
    proof (cases "collect (map f xs)")
      case (Inl e)
      with Cons [of "tl ws"] Inr show ?thesis
        by (auto simp: list_all2_Cons1)
    next
      case r: (Inr vs)
      with Cons Inr show ?thesis
        by (auto simp: list_all2_Cons1)
    qed
  qed
qed

lemma collect_map_total:
  "(\<And>x. x \<in> set xs \<Longrightarrow> f x = Inr (g x)) \<Longrightarrow> collect (map f xs) = Inr (map g xs)"
  by (induction xs) auto

lemma bind_param_index: "bind_param n p = Inr v \<longleftrightarrow> bind_param 0 p = Inr v"
  by (cases p) (auto simp: bind_param_def split: prod.splits)

lemma bind_from_Inr_iff:
  "bind_from n ps = Inr vs \<longleftrightarrow> list_all2 (\<lambda>p v. bind_param 0 p = Inr v) ps vs"
proof (induction ps arbitrary: n vs)
  case Nil
  show ?case by auto
next
  case (Cons p ps)
  show ?case
  proof (cases "bind_param n p")
    case (Inl e)
    then show ?thesis
      using bind_param_index [of n p] by (auto simp: list_all2_Cons1)
  next
    case (Inr v)
    then have v0: "bind_param 0 p = Inr v" using bind_param_index by blast
    show ?thesis
    proof (cases "bind_from (Suc n) ps")
      case (Inl e)
      with Cons [of "Suc n" "tl vs"] Inr v0 show ?thesis
        by (auto simp: list_all2_Cons1)
    next
      case r: (Inr us)
      with Cons [of "Suc n"] Inr v0 show ?thesis
        by (auto simp: list_all2_Cons1)
    qed
  qed
qed

lemma matches_id_text [simp]: "matches_id (SText i) = (\<lambda>r. r ''id'' = SText i)"
proof
  fix r show "matches_id (SText i) r = (r ''id'' = SText i)"
    by (cases "r ''id''") (auto simp: matches_id_def)
qed

lemma make_row_simps [simp]:
  "make_row [] vs k = SNull"
  "make_row ns [] k = SNull"
  "make_row (n # ns) (v # vs) k = (if k = n then v else make_row ns vs k)"
  by (auto simp: make_row_def)

lemma filter_fresh: "\<not> list_ex P xs \<Longrightarrow> filter P xs = []"
  by (simp add: list_ex_iff filter_empty_conv)

lemma list_ex_filter: "list_ex P xs \<longleftrightarrow> 0 < length (filter P xs)"
  by (induction xs) auto

lemmas schema_defs = columns_def col_def col_nn_def col_d_def find_col_def

lemmas engine_defs =
  insert_record_def execute_command_def get_connection_def conn_command_def bind_param_def
  unknown_column_def insert_value_def apply_affinity_def null_violation_def commit_def
  rollback_def then_get_def

lemmas json_defs =
  json_dumps_def json_loads_def scan_once_def parse_array_def skip_ws_def is_ws_def
  py_json_loads_def py_or_def

lemma execute_query_by_id:
  "execute_query (SELECT_BY_ID t) [PStr i] s =
     (Inr (map (row_dict t) (filter (\<lambda>r. r ''id'' = SText i) (s t))), s)"
  by (simp add: execute_query_def get_connection_def conn_query_def bind_param_def)

lemma execute_query_all:
  "c \<in> set (columns t) \<Longrightarrow>
   execute_query (SELECT_ALL t c d) [] s = (Inr (map (row_dict t) (order_by c d (s t))), s)"
  by (simp add: execute_query_def get_connection_def conn_query_def)

lemma execute_command_delete:
  "execute_command (DELETE_BY_ID t) [PStr i] s =
     (Inr (length (filter (\<lambda>r. r ''id'' = SText i) (s t))),
      s(t := filter (\<lambda>r. r ''id'' \<noteq> SText i) (s t)))"
  by (simp add: execute_command_def get_connection_def conn_command_def bind_param_def commit_def)

lemma collect_map_Inr [simp]: "collect (map (\<lambda>x. Inr (g x)) xs) = Inr (map g xs)"
  by (induction xs) auto

lemma if_Inr: "(if c then Inr a else Inr b) = Inr (if c then a else b)"
  by simp

lemma update_row_run:
  "update_row JobAlerts [(''last_run'', Inl (SText n1)), (''updated_at'', Inl (SText n2))] r =
     Inr (r(''last_run'' := SText n1, ''updated_at'' := SText n2))"
  by (simp add: update_row_def set_value_def schema_defs apply_affinity_def null_violation_def)

lemma execute_command_run:
  "execute_command (UPDATE_BY_ID JobAlerts [(''last_run'', Param), (''updated_at'', Param)])
       [PStr n1, PStr n2, PStr i] s =
     (Inr (length (filter (\<lambda>r. r ''id'' = SText i) (s JobAlerts))),
      s(JobAlerts := map (\<lambda>r. if r ''id'' = SText i
                              then r(''last_run'' := SText n1, ''updated_at'' := SText n2)
                              else r) (s JobAlerts)))"
  by (simp add: execute_command_def get_connection_def conn_command_def bind_param_def
      commit_def unknown_column_def schema_defs update_row_run if_Inr cong: if_cong)

lemma map_unmatched:
  "\<not> list_ex P xs \<Longrightarrow> map (\<lambda>r. if P r then f r else r) xs = xs"
  by (induction xs) auto

lemma filter_map_matched:
  "(\<And>r. P (f r) = P r) \<Longrightarrow>
   filter P (map (\<lambda>r. if P r then f r else r) xs) = map f (filter P xs)"
  by (induction xs) auto

lemma get_job_alert_eq:
  "get_job_alert i s =
     Inr (first_or_none (map (row_dict JobAlerts) (filter (\<lambda>r. r ''id'' = SText i) (s JobAlerts))))"
  by (simp add: get_job_alert_def execute_query_by_id)

lemma create_job_empty:
  assumes "\<not> list_ex (\<lambda>r. r ''id'' = SText (uuid4 e)) (s Jobs)"
  shows "create_job e [] s =
     (Inr (Some [(''id'', PStr (uuid4 e)), (''title'', PStr ''''), (''company'', PStr ''''),
                 (''url'', PNone), (''description'', PNone), (''location'', PNone),
                 (''salary'', PNone), (''requirements'', PList []), (''stage'', PStr ''saved''),
                 (''notes'', PStr ''''), (''tags'', PList []), (''applied_date'', PNone),
                 (''created_at'', PStr (clock e)), (''updated_at'', PStr (clock e))]),
      s(Jobs := s Jobs @ [make_row (columns Jobs)
          [SText (uuid4 e), SText '''', SText '''', SNull, SNull, SNull, SNull, SText ''[]'',
           SText ''saved'', SText '''', SText ''[]'', SNull, SText (clock e), SText (clock e)]]))"
  using assms
  by (simp add: create_job_def dict_get_def dict_get_none_def engine_defs schema_defs json_defs
      get_job_def execute_query_by_id filter_fresh row_dict_def decode_field_def dict_set_def)

text \<open>The database after one job has been created with no field given.\<close>

definition db_one_job :: db where
  "db_one_job = snd (create_job env_a [] empty_db)"

lemma db_one_job_eq:
  "db_one_job = empty_db(Jobs := [make_row (columns Jobs)
      [SText ''a1'', SText '''', SText '''', SNull, SNull, SNull, SNull, SText ''[]'',
       SText ''saved'', SText '''', SText ''[]'', SNull,
       SText ''2024-05-01T09:00:00.000001'', SText ''2024-05-01T09:00:00.000001'']])"
  unfolding db_one_job_def
  by (subst create_job_empty) (simp_all add: empty_db_def env_a_def)


section \<open>Defaults of a new job\<close>

text \<open>
  Claim C9.  Creating a job from the empty field set, with an identifier that is not
  in the table yet, succeeds, and the record returned has the title \<open>""\<close>, the stage
  \<open>"saved"\<close>, the requirements \<open>[]\<close>, the tags \<open>[]\<close> and the notes \<open>""\<close>.
\<close>

theorem create_job_default_fill:
  assumes "\<not> list_ex (\<lambda>r. r ''id'' = SText (uuid4 e)) (s Jobs)"
  shows "\<exists>r s'. create_job e [] s = (Inr (Some r), s')
           \<and> map_of r ''title'' = Some (PStr '''')
           \<and> map_of r ''stage'' = Some (PStr ''saved'')
           \<and> map_of r ''requirements'' = Some (PList [])
           \<and> map_of r ''tags'' = Some (PList [])
           \<and> map_of r ''notes'' = Some (PStr '''')"
  using assms by (simp add: create_job_empty)

theorem create_job_default_fill_witness:
  "\<exists>r s'. create_job env_a [] empty_db = (Inr (Some r), s')
           \<and> map_of r ''title'' = Some (PStr '''')
           \<and> map_of r ''stage'' = Some (PStr ''saved'')
           \<and> map_of r ''requirements'' = Some (PList [])
           \<and> map_of r ''tags'' = Some (PList [])
           \<and> map_of r ''notes'' = Some (PStr '''')"
  using create_job_default_fill [of env_a empty_db] by (simp add: empty_db_def)


section \<open>Deleting\<close>

text \<open>
  Claim C8.  \<open>delete_job\<close> and \<open>delete_contact\<close> never raise.  They remove every row
  with the given identifier and return whether there was one: \<open>True\<close> exactly when a
  row with that identifier was stored.  After the call no row has the identifier, so
  a lookup is absent and a second delete returns \<open>False\<close> and changes nothing; on an
  identifier that was never stored the first call already does.
\<close>

theorem delete_reports_removal:
  "delete_job i s =
     (Inr (list_ex (\<lambda>r. r ''id'' = SText i) (s Jobs)),
      s(Jobs := filter (\<lambda>r. r ''id'' \<noteq> SText i) (s Jobs)))
   \<and> get_job i (snd (delete_job i s)) = Inr None
   \<and> delete_job i (snd (delete_job i s)) = (Inr False, snd (delete_job i s))
   \<and> (\<not> list_ex (\<lambda>r. r ''id'' = SText i) (s Jobs) \<longrightarrow> delete_job i s = (Inr False, s))
   \<and> delete_contact i s =
     (Inr (list_ex (\<lambda>r. r ''id'' = SText i) (s Contacts)),
      s(Contacts := filter (\<lambda>r. r ''id'' \<noteq> SText i) (s Contacts)))
   \<and> get_contact i (snd (delete_contact i s)) = Inr None
   \<and> delete_contact i (snd (delete_contact i s)) = (Inr False, snd (delete_contact i s))
   \<and> (\<not> list_ex (\<lambda>r. r ''id'' = SText i) (s Contacts) \<longrightarrow> delete_contact i s = (Inr False, s))"
proof -
  have del: "execute_command (DELETE_BY_ID t) [PStr i] s =
      (Inr (length (filter (\<lambda>r. r ''id'' = SText i) (s t))),
       s(t := filter (\<lambda>r. r ''id'' \<noteq> SText i) (s t)))" for t s
    by (rule execute_command_delete)
  have gone: "filter (\<lambda>r. r ''id'' = SText i) (filter (\<lambda>r. r ''id'' \<noteq> SText i) xs) = []"
    for xs :: "row list"
    by (induction xs) auto
  have same: "\<not> list_ex (\<lambda>r. r ''id'' = SText i) xs \<Longrightarrow>
      filter (\<lambda>r. r ''id'' \<noteq> SText i) xs = xs" for xs :: "row list"
    by (induction xs) auto
  have j1: "delete_job i s =
     (Inr (list_ex (\<lambda>r. r ''id'' = SText i) (s Jobs)),
      s(Jobs := filter (\<lambda>r. r ''id'' \<noteq> SText i) (s Jobs)))" for s
    by (simp add: delete_job_def del list_ex_filter)
  have c1: "delete_contact i s =
     (Inr (list_ex (\<lambda>r. r ''id'' = SText i) (s Contacts)),
      s(Contacts := filter (\<lambda>r. r ''id'' \<noteq> SText i) (s Contacts)))" for s
    by (simp add: delete_contact_def del list_ex_filter)
  have j2: "get_job i (snd (delete_job i s)) = Inr None"
    by (simp add: j1 get_job_def execute_query_by_id gone)
  have c2: "get_contact i (snd (delete_contact i s)) = Inr None"
    by (simp add: c1 get_contact_def execute_query_by_id gone first_or_none_def)
  have j3: "delete_job i (snd (delete_job i s)) = (Inr False, snd (delete_job i s))"
    by (simp add: j1 list_ex_filter gone)
  have c3: "delete_contact i (snd (delete_contact i s)) = (Inr False, snd (delete_contact i s))"
    by (simp add: c1 list_ex_filter gone)
  have j4: "\<not> list_ex (\<lambda>r. r ''id'' = SText i) (s Jobs) \<longrightarrow> delete_job i s = (Inr False, s)"
    by (simp add: j1 same)
  have c4: "\<not> list_ex (\<lambda>r. r ''id'' = SText i) (s Contacts) \<longrightarrow>
      delete_contact i s = (Inr False, s)"
    by (simp add: c1 same)
  from j1 j2 j3 j4 c1 c2 c3 c4 show ?thesis by blast
qed

theorem delete_reports_removal_witness:
  "fst (delete_job ''a1'' db_one_job) = Inr True
   \<and> get_job ''a1'' (snd (delete_job ''a1'' db_one_job)) = Inr None
   \<and> fst (delete_job ''a1'' (snd (delete_job ''a1'' db_one_job))) = Inr False
   \<and> delete_job ''zz'' db_one_job = (Inr False, db_one_job)
   \<and> delete_contact ''zz'' db_one_job = (Inr False, db_one_job)"
proof -
  have a: "list_ex (\<lambda>r. r ''id'' = SText ''a1'') (db_one_job Jobs)"
    and b: "\<not> list_ex (\<lambda>r. r ''id'' = SText ''zz'') (db_one_job Jobs)"
    and c: "\<not> list_ex (\<lambda>r. r ''id'' = SText ''zz'') (db_one_job Contacts)"
    by (simp_all add: db_one_job_eq columns_def schema_defs empty_db_def)
  note t1 = delete_reports_removal [of "''a1''" db_one_job]
  note t2 = delete_reports_removal [of "''zz''" db_one_job]
  have "fst (delete_job ''a1'' db_one_job) = Inr True"
    using t1 [THEN conjunct1] a by simp
  moreover have "get_job ''a1'' (snd (delete_job ''a1'' db_one_job)) = Inr None"
    using t1 by blast
  moreover have "fst (delete_job ''a1'' (snd (delete_job ''a1'' db_one_job))) = Inr False"
    using t1 [THEN conjunct2, THEN conjunct2, THEN conjunct1] by simp
  moreover have "delete_job ''zz'' db_one_job = (Inr False, db_one_job)"
    using t2 b by blast
  moreover have "delete_contact ''zz'' db_one_job = (Inr False, db_one_job)"
    using t2 c by blast
  ultimately show ?thesis by blast
qed

section \<open>Running a job alert\<close>

text \<open>
  Claim C10.  \<open>run_job_alert\<close> never raises and never reports a missing alert: for every
  identifier it returns the bundle with \<open>jobs_found = []\<close> and the fixed message.  When
  no alert has the identifier, the \<open>alert\<close> component is \<open>None\<close> and the database is
  unchanged.
\<close>

theorem run_job_alert_placeholder:
  "\<exists>a s'. run_job_alert n1 n2 i s =
       (Inr \<lparr>alert = a, jobs_found = [], message = ''Job alert executed (demo mode)''\<rparr>, s')
     \<and> (\<not> list_ex (\<lambda>r. r ''id'' = SText i) (s JobAlerts) \<longrightarrow> a = None \<and> s' = s)"
  by (simp add: run_job_alert_def then_get_def execute_command_run get_job_alert_eq
      map_unmatched filter_fresh first_or_none_def)

theorem run_job_alert_placeholder_witness:
  "\<exists>a s'. run_job_alert ''2024-05-02T08:00:00'' ''2024-05-02T08:00:00.000010'' ''zz'' empty_db =
       (Inr \<lparr>alert = a, jobs_found = [], message = ''Job alert executed (demo mode)''\<rparr>, s')
     \<and> a = None \<and> s' = empty_db"
proof -
  have "\<not> list_ex (\<lambda>r. r ''id'' = SText ''zz'') (empty_db JobAlerts)"
    by (simp add: empty_db_def)
  with run_job_alert_placeholder
         [of "''2024-05-02T08:00:00''" "''2024-05-02T08:00:00.000010''" "''zz''" empty_db]
  show ?thesis by blast
qed


section \<open>Toggling a job alert\<close>

text \<open>
  The row \<open>toggle_job_alert\<close> leaves where \<open>is_active\<close> was 0 or 1: \<open>NOT is_active\<close>
  and the new \<open>updated_at\<close>.
\<close>

definition flipped :: "string \<Rightarrow> row \<Rightarrow> row" where
  "flipped n r =
     r(''is_active'' := (if r ''is_active'' = SInt 0 then SInt 1 else SInt 0),
       ''updated_at'' := SText n)"

definition boolean_alerts :: "string \<Rightarrow> db \<Rightarrow> bool" where
  "boolean_alerts i s =
     list_all (\<lambda>r. r ''id'' \<noteq> SText i \<or> r ''is_active'' = SInt 0 \<or> r ''is_active'' = SInt 1)
       (s JobAlerts)"

lemma update_row_toggle:
  assumes "r ''is_active'' = SInt 0 \<or> r ''is_active'' = SInt 1"
  shows "update_row JobAlerts [(''is_active'', Inr ''is_active''), (''updated_at'', Inl (SText n))] r =
     Inr (flipped n r)"
  using assms
  by (auto simp: update_row_def set_value_def schema_defs apply_affinity_def null_violation_def
      sql_not_def numeric_affinity_def flipped_def)

lemma execute_command_toggle:
  assumes "boolean_alerts i s"
  shows "execute_command
       (UPDATE_BY_ID JobAlerts [(''is_active'', NotCol ''is_active''), (''updated_at'', Param)])
       [PStr n, PStr i] s =
     (Inr (length (filter (\<lambda>r. r ''id'' = SText i) (s JobAlerts))),
      s(JobAlerts := map (\<lambda>r. if r ''id'' = SText i then flipped n r else r) (s JobAlerts)))"
proof -
  have "collect (map (\<lambda>r. if r ''id'' = SText i
            then update_row JobAlerts
                   [(''is_active'', Inr ''is_active''), (''updated_at'', Inl (SText n))] r
            else Inr r) (s JobAlerts))
        = Inr (map (\<lambda>r. if r ''id'' = SText i then flipped n r else r) (s JobAlerts))"
    using assms
    by (intro collect_map_total) (auto simp: boolean_alerts_def list_all_iff update_row_toggle)
  then show ?thesis
    by (simp add: execute_command_def get_connection_def conn_command_def bind_param_def
        commit_def unknown_column_def schema_defs cong: if_cong)
qed

lemma toggle_job_alert_eq:
  assumes "boolean_alerts i s"
  shows "toggle_job_alert n i s =
     (Inr (first_or_none (map (row_dict JobAlerts)
             (map (flipped n) (filter (\<lambda>r. r ''id'' = SText i) (s JobAlerts))))),
      s(JobAlerts := map (\<lambda>r. if r ''id'' = SText i then flipped n r else r) (s JobAlerts)))"
proof -
  have "filter (\<lambda>r. r ''id'' = SText i)
          (map (\<lambda>r. if r ''id'' = SText i then flipped n r else r) (s JobAlerts))
        = map (flipped n) (filter (\<lambda>r. r ''id'' = SText i) (s JobAlerts))"
    by (rule filter_map_matched) (simp add: flipped_def)
  then show ?thesis
    by (simp add: toggle_job_alert_def then_get_def execute_command_toggle [OF assms]
        get_job_alert_eq)
qed

lemma boolean_alerts_flipped:
  "boolean_alerts i s \<Longrightarrow>
   boolean_alerts i
     (s(JobAlerts := map (\<lambda>r. if r ''id'' = SText i then flipped n r else r) (s JobAlerts)))"
  by (auto simp: boolean_alerts_def list_all_iff flipped_def)

text \<open>
  Claim C7.  Take an identifier whose stored alerts have a boolean \<open>is_active\<close> (0 or 1,
  as the engine keeps \<open>False\<close> and \<open>True\<close>).  If no alert has the identifier,
  \<open>toggle_job_alert\<close> returns the absent value and changes nothing.  If one has, the call
  returns the updated record: \<open>is_active\<close> is flipped (1 to 0, 0 to 1) and \<open>updated_at\<close>
  is the time of the call; a second call flips it again, so \<open>is_active\<close> is back at its
  original value.
\<close>

theorem toggle_twice_restores:
  assumes "boolean_alerts i s"
  shows "(get_job_alert i s = Inr None \<longrightarrow> toggle_job_alert n1 i s = (Inr None, s))
    \<and> (\<forall>a. get_job_alert i s = Inr (Some a) \<longrightarrow>
         (\<exists>a1 s1 a2 s2.
            toggle_job_alert n1 i s = (Inr (Some a1), s1)
          \<and> toggle_job_alert n2 i s1 = (Inr (Some a2), s2)
          \<and> (map_of a ''is_active'' = Some (PInt 1) \<longrightarrow> map_of a1 ''is_active'' = Some (PInt 0))
          \<and> (map_of a ''is_active'' = Some (PInt 0) \<longrightarrow> map_of a1 ''is_active'' = Some (PInt 1))
          \<and> map_of a1 ''is_active'' \<noteq> map_of a ''is_active''
          \<and> map_of a2 ''is_active'' = map_of a ''is_active''
          \<and> map_of a1 ''updated_at'' = Some (PStr n1)
          \<and> map_of a2 ''updated_at'' = Some (PStr n2)))"
proof (intro conjI allI impI)
  assume "get_job_alert i s = Inr None"
  then have "filter (\<lambda>r. r ''id'' = SText i) (s JobAlerts) = []"
    by (simp add: get_job_alert_eq first_or_none_def split: list.splits)
  then have "\<not> list_ex (\<lambda>r. r ''id'' = SText i) (s JobAlerts)"
    by (simp add: list_ex_filter)
  then show "toggle_job_alert n1 i s = (Inr None, s)"
    by (simp add: toggle_job_alert_eq [OF assms] filter_fresh first_or_none_def map_unmatched)
next
  fix a
  assume "get_job_alert i s = Inr (Some a)"
  then obtain r rest where f: "filter (\<lambda>r. r ''id'' = SText i) (s JobAlerts) = r # rest"
    and a: "a = row_dict JobAlerts r"
    by (auto simp: get_job_alert_eq first_or_none_def split: list.splits)
  have "r \<in> set (filter (\<lambda>r. r ''id'' = SText i) (s JobAlerts))"
    by (simp add: f)
  then have "r \<in> set (s JobAlerts)" "r ''id'' = SText i"
    by simp_all
  with assms have b: "r ''is_active'' = SInt 0 \<or> r ''is_active'' = SInt 1"
    by (auto simp: boolean_alerts_def list_all_iff)
  let ?s1 = "s(JobAlerts := map (\<lambda>r. if r ''id'' = SText i then flipped n1 r else r) (s JobAlerts))"
  have t1: "toggle_job_alert n1 i s = (Inr (Some (row_dict JobAlerts (flipped n1 r))), ?s1)"
    by (simp add: toggle_job_alert_eq [OF assms] f first_or_none_def)
  have b1: "boolean_alerts i ?s1"
    using assms by (rule boolean_alerts_flipped)
  have f1: "filter (\<lambda>r. r ''id'' = SText i) (?s1 JobAlerts) = map (flipped n1) (r # rest)"
    using filter_map_matched [of "\<lambda>r. r ''id'' = SText i" "flipped n1" "s JobAlerts"] f
    by (simp add: flipped_def)
  have t2: "\<exists>s2. toggle_job_alert n2 i ?s1 =
      (Inr (Some (row_dict JobAlerts (flipped n2 (flipped n1 r)))), s2)"
    by (simp add: toggle_job_alert_eq [OF b1] f1 first_or_none_def del: fun_upd_apply)
  from b have v: "map_of (row_dict JobAlerts r) ''is_active'' = Some (py_of_sql (r ''is_active''))"
    "map_of (row_dict JobAlerts (flipped n1 r)) ''is_active''
       = Some (if r ''is_active'' = SInt 0 then PInt 1 else PInt 0)"
    "map_of (row_dict JobAlerts (flipped n2 (flipped n1 r))) ''is_active''
       = Some (py_of_sql (r ''is_active''))"
    "map_of (row_dict JobAlerts (flipped n1 r)) ''updated_at'' = Some (PStr n1)"
    "map_of (row_dict JobAlerts (flipped n2 (flipped n1 r))) ''updated_at'' = Some (PStr n2)"
    by (auto simp: row_dict_def schema_defs flipped_def)
  from t1 t2 v b a
  show "\<exists>a1 s1 a2 s2.
            toggle_job_alert n1 i s = (Inr (Some a1), s1)
          \<and> toggle_job_alert n2 i s1 = (Inr (Some a2), s2)
          \<and> (map_of a ''is_active'' = Some (PInt 1) \<longrightarrow> map_of a1 ''is_active'' = Some (PInt 0))
          \<and> (map_of a ''is_active'' = Some (PInt 0) \<longrightarrow> map_of a1 ''is_active'' = Some (PInt 1))
          \<and> map_of a1 ''is_active'' \<noteq> map_of a ''is_active''
          \<and> map_of a2 ''is_active'' = map_of a ''is_active''
          \<and> map_of a1 ''updated_at'' = Some (PStr n1)
          \<and> map_of a2 ''updated_at'' = Some (PStr n2)"
    by auto
qed

text \<open>The database after one job alert has been created with its name only.\<close>

definition db_one_alert :: db where
  "db_one_alert = snd (create_job_alert env_a [(''name'', PStr ''remote'')] empty_db)"

lemma db_one_alert_eq:
  "db_one_alert = empty_db(JobAlerts := [make_row (columns JobAlerts)
      [SText ''a1'', SText ''remote'', SText '''', SText '''', SText ''daily'', SInt 1, SNull,
       SText ''2024-05-01T09:00:00.000001'', SText ''2024-05-01T09:00:00.000001'']])"
  by (simp add: db_one_alert_def create_job_alert_def dict_get_def dict_get_none_def engine_defs
      schema_defs numeric_affinity_def empty_db_def env_a_def)

theorem toggle_twice_restores_witness:
  "boolean_alerts ''a1'' db_one_alert
   \<and> (\<exists>a a1 s1 a2 s2.
        get_job_alert ''a1'' db_one_alert = Inr (Some a)
      \<and> map_of a ''is_active'' = Some (PInt 1)
      \<and> toggle_job_alert ''2024-05-02T08:00:00'' ''a1'' db_one_alert = (Inr (Some a1), s1)
      \<and> toggle_job_alert ''2024-05-03T08:00:00'' ''a1'' s1 = (Inr (Some a2), s2)
      \<and> map_of a1 ''is_active'' = Some (PInt 0)
      \<and> map_of a2 ''is_active'' = Some (PInt 1)
      \<and> map_of a1 ''updated_at'' = Some (PStr ''2024-05-02T08:00:00'')
      \<and> map_of a2 ''updated_at'' = Some (PStr ''2024-05-03T08:00:00''))"
proof -
  have b: "boolean_alerts ''a1'' db_one_alert"
    by (simp add: boolean_alerts_def db_one_alert_eq schema_defs empty_db_def)
  obtain a where g: "get_job_alert ''a1'' db_one_alert = Inr (Some a)"
    and v: "map_of a ''is_active'' = Some (PInt 1)"
    by (simp add: get_job_alert_eq db_one_alert_eq schema_defs empty_db_def first_or_none_def
        row_dict_def)
  from toggle_twice_restores
         [OF b, of "''2024-05-02T08:00:00''" "''2024-05-03T08:00:00''"] g
  obtain a1 s1 a2 s2 where
    "toggle_job_alert ''2024-05-02T08:00:00'' ''a1'' db_one_alert = (Inr (Some a1), s1)"
    "toggle_job_alert ''2024-05-03T08:00:00'' ''a1'' s1 = (Inr (Some a2), s2)"
    "map_of a ''is_active'' = Some (PInt 1) \<longrightarrow> map_of a1 ''is_active'' = Some (PInt 0)"
    "map_of a2 ''is_active'' = map_of a ''is_active''"
    "map_of a1 ''updated_at'' = Some (PStr ''2024-05-02T08:00:00'')"
    "map_of a2 ''updated_at'' = Some (PStr ''2024-05-03T08:00:00'')"
    by blast
  with b g v show ?thesis by auto
qed


section \<open>The value of an offer\<close>

lemmas float_eval = float_mul_def float_of_int_def round53_def norm_float_def float_1_2_def
  bitlen.simps trailing_zeros.simps Let_def

lemma get_offer_eq:
  "get_offer i s =
     Inr (first_or_none (map (row_dict Offers) (filter (\<lambda>r. r ''id'' = SText i) (s Offers))))"
  by (simp add: get_offer_def execute_query_by_id)

lemma create_offer_salary:
  assumes "\<not> list_ex (\<lambda>r. r ''id'' = SText (uuid4 e)) (s Offers)"
  shows "create_offer e [(''base_salary'', PInt 100000)] s =
     (Inr (Some [(''id'', PStr (uuid4 e)), (''job_id'', PNone), (''company'', PStr ''''),
                 (''base_salary'', PInt 100000), (''bonus'', PStr ''''), (''equity'', PStr ''''),
                 (''benefits'', PStr ''''), (''start_date'', PNone),
                 (''negotiation_notes'', PStr ''''), (''status'', PStr ''pending''),
                 (''created_at'', PStr (current_timestamp e)),
                 (''updated_at'', PStr (current_timestamp e))]),
      s(Offers := s Offers @ [make_row (columns Offers)
          [SText (uuid4 e), SNull, SText '''', SInt 100000, SText '''', SText '''', SText '''',
           SNull, SText '''', SText ''pending'', SText (current_timestamp e),
           SText (current_timestamp e)]]))"
  using assms
  by (simp add: create_offer_def dict_get_def dict_get_none_def engine_defs schema_defs
      numeric_affinity_def int64_def get_offer_eq filter_fresh row_dict_def first_or_none_def)

text \<open>
  Claim C4.  \<open>calculate_offer_value\<close> raises \<open>DatabaseError("Offer not found")\<close> exactly
  when no offer has the identifier.  For an offer whose \<open>base_salary\<close> is an integer it
  returns the four-entry bundle in which \<open>estimated_total_value\<close> is the float product of
  \<open>base_salary\<close> and \<open>1.2\<close>; for a null \<open>base_salary\<close> the bundle carries 0 and \<open>0.0\<close>.  An
  offer created with \<open>base_salary = 100000\<close> gives \<open>120000.0\<close>, which is the float
  \<open>1875 * 2 ^ 6\<close>.
\<close>

theorem calculate_offer_value_spec:
  "(get_offer i s = Inr None) = (\<not> list_ex (\<lambda>r. r ''id'' = SText i) (s Offers))
   \<and> (get_offer i s = Inr None \<longrightarrow>
        calculate_offer_value i s = Inl (DatabaseError ''Offer not found''))
   \<and> (\<forall>offer b. get_offer i s = Inr (Some offer) \<and> map_of offer ''base_salary'' = Some (PInt b)
          \<and> int64 b \<longrightarrow>
        calculate_offer_value i s =
          Inr [(''offer_id'', PStr i), (''base_salary'', PInt b),
               (''estimated_total_value'',
                  (case float_mul (float_of_int b) float_1_2 of (m, x) \<Rightarrow> PFloat m x)),
               (''calculation_note'', PStr ''Estimated total value including benefits'')])
   \<and> (\<forall>offer. get_offer i s = Inr (Some offer) \<and> map_of offer ''base_salary'' = Some PNone \<longrightarrow>
        calculate_offer_value i s =
          Inr [(''offer_id'', PStr i), (''base_salary'', PInt 0),
               (''estimated_total_value'', PFloat 0 0),
               (''calculation_note'', PStr ''Estimated total value including benefits'')])
   \<and> (\<not> list_ex (\<lambda>r. r ''id'' = SText (uuid4 e)) (s Offers) \<longrightarrow>
        (\<exists>offer s'. create_offer e [(''base_salary'', PInt 100000)] s = (Inr (Some offer), s')
           \<and> calculate_offer_value (uuid4 e) s' =
               Inr [(''offer_id'', PStr (uuid4 e)), (''base_salary'', PInt 100000),
                    (''estimated_total_value'', PFloat 1875 6),
                    (''calculation_note'', PStr ''Estimated total value including benefits'')]))
   \<and> float_of_int 120000 = (1875, 6)"
proof (intro conjI allI impI)
  show "(get_offer i s = Inr None) = (\<not> list_ex (\<lambda>r. r ''id'' = SText i) (s Offers))"
    by (cases "filter (\<lambda>r. r ''id'' = SText i) (s Offers)")
       (simp_all add: get_offer_eq first_or_none_def list_ex_filter)
next
  assume "get_offer i s = Inr None"
  then show "calculate_offer_value i s = Inl (DatabaseError ''Offer not found'')"
    by (simp add: calculate_offer_value_def)
next
  fix offer b
  assume a: "get_offer i s = Inr (Some offer) \<and> map_of offer ''base_salary'' = Some (PInt b)
          \<and> int64 b"
  then have "offer \<noteq> []" by auto
  with a show "calculate_offer_value i s =
          Inr [(''offer_id'', PStr i), (''base_salary'', PInt b),
               (''estimated_total_value'',
                  (case float_mul (float_of_int b) float_1_2 of (m, x) \<Rightarrow> PFloat m x)),
               (''calculation_note'', PStr ''Estimated total value including benefits'')]"
    by (cases "b = 0")
       (auto simp: calculate_offer_value_def dict_get_def py_or_def mul_1_2_def int64_def
             split: prod.splits)
next
  fix offer
  assume a: "get_offer i s = Inr (Some offer) \<and> map_of offer ''base_salary'' = Some PNone"
  then have "offer \<noteq> []" by auto
  moreover have "float_mul (float_of_int 0) float_1_2 = (0, 0)"
    by (simp add: float_eval)
  ultimately show "calculate_offer_value i s =
          Inr [(''offer_id'', PStr i), (''base_salary'', PInt 0),
               (''estimated_total_value'', PFloat 0 0),
               (''calculation_note'', PStr ''Estimated total value including benefits'')]"
    using a by (simp add: calculate_offer_value_def dict_get_def py_or_def mul_1_2_def)
next
  assume fresh: "\<not> list_ex (\<lambda>r. r ''id'' = SText (uuid4 e)) (s Offers)"
  have m: "float_mul (float_of_int 100000) float_1_2 = (1875, 6)"
    by (simp add: float_eval)
  show "\<exists>offer s'. create_offer e [(''base_salary'', PInt 100000)] s = (Inr (Some offer), s')
           \<and> calculate_offer_value (uuid4 e) s' =
               Inr [(''offer_id'', PStr (uuid4 e)), (''base_salary'', PInt 100000),
                    (''estimated_total_value'', PFloat 1875 6),
                    (''calculation_note'', PStr ''Estimated total value including benefits'')]"
    using fresh
    by (simp add: create_offer_salary calculate_offer_value_def get_offer_eq filter_fresh
        first_or_none_def row_dict_def schema_defs dict_get_def py_or_def mul_1_2_def m)
next
  show "float_of_int 120000 = (1875, 6)"
    by (simp add: float_eval)
qed

theorem calculate_offer_value_spec_witness:
  "calculate_offer_value ''zz'' empty_db = Inl (DatabaseError ''Offer not found'')
   \<and> (\<exists>offer s'. create_offer env_a [(''base_salary'', PInt 100000)] empty_db = (Inr (Some offer), s')
         \<and> calculate_offer_value ''a1'' s' =
             Inr [(''offer_id'', PStr ''a1''), (''base_salary'', PInt 100000),
                  (''estimated_total_value'', PFloat 1875 6),
                  (''calculation_note'', PStr ''Estimated total value including benefits'')])"
proof -
  note t1 = calculate_offer_value_spec [of "''zz''" empty_db env_a]
  have a: "\<not> list_ex (\<lambda>r. r ''id'' = SText ''zz'') (empty_db Offers)"
    and b: "\<not> list_ex (\<lambda>r. r ''id'' = SText (uuid4 env_a)) (empty_db Offers)"
    and c: "uuid4 env_a = ''a1''"
    by (simp_all add: empty_db_def env_a_def)
  from t1 a have "calculate_offer_value ''zz'' empty_db = Inl (DatabaseError ''Offer not found'')"
    by blast
  moreover from t1 b
  have "\<exists>offer s'. create_offer env_a [(''base_salary'', PInt 100000)] empty_db = (Inr (Some offer), s')
         \<and> calculate_offer_value (uuid4 env_a) s' =
             Inr [(''offer_id'', PStr (uuid4 env_a)), (''base_salary'', PInt 100000),
                  (''estimated_total_value'', PFloat 1875 6),
                  (''calculation_note'', PStr ''Estimated total value including benefits'')]"
    by blast
  ultimately show ?thesis unfolding c by blast
qed


section \<open>The order of \<open>get_all\<close>\<close>

lemma sql_le_total: "sql_le a b \<or> sql_le b a"
  by (cases a; cases b) auto

lemma sql_le_trans: "sql_le a b \<Longrightarrow> sql_le b c \<Longrightarrow> sql_le a c"
  by (cases a; cases b; cases c) auto

lemma mset_insort_by: "mset (insort_by le x xs) = add_mset x (mset xs)"
  by (induction xs) auto

lemma mset_sort_by: "mset (sort_by le xs) = mset xs"
  by (induction xs) (auto simp: sort_by_def mset_insort_by)

lemma set_insort_by: "set (insort_by le x xs) = insert x (set xs)"
  by (induction xs) auto

lemma sorted_insort_by:
  assumes total: "\<And>a b. le a b \<or> le b a"
    and trans: "\<And>a b c. le a b \<Longrightarrow> le b c \<Longrightarrow> le a c"
  shows "sorted_wrt le xs \<Longrightarrow> sorted_wrt le (insort_by le x xs)"
proof (induction xs)
  case Nil
  show ?case by simp
next
  case (Cons y ys)
  show ?case
  proof (cases "le x y")
    case True
    with Cons.prems trans show ?thesis by auto
  next
    case False
    with total have "le y x" by blast
    with Cons False show ?thesis by (auto simp: set_insort_by)
  qed
qed

lemma sorted_sort_by:
  assumes total: "\<And>a b. le a b \<or> le b a"
    and trans: "\<And>a b c. le a b \<Longrightarrow> le b c \<Longrightarrow> le a c"
  shows "sorted_wrt le (sort_by le xs)"
proof (induction xs)
  case Nil
  show ?case by (simp add: sort_by_def)
next
  case (Cons x xs)
  have "sort_by le (x # xs) = insort_by le x (sort_by le xs)"
    by (simp add: sort_by_def)
  with Cons sorted_insort_by [of le, OF total trans] show ?case by simp
qed

lemma sorted_order_by: "sorted_wrt (row_le c d) (order_by c d rows)"
  unfolding order_by_def
proof (rule sorted_sort_by)
  fix a b :: row
  show "row_le c d a b \<or> row_le c d b a"
    using sql_le_total by (cases d) auto
next
  fix a b x :: row
  assume "row_le c d a b" "row_le c d b x"
  then show "row_le c d a x"
    using sql_le_trans by (cases d) auto
qed

lemma create_company_named:
  assumes "\<not> list_ex (\<lambda>r. r ''id'' = SText (uuid4 e)) (s Companies)"
  shows "snd (create_company e [(''name'', PStr n)] s) =
      s(Companies := s Companies @ [make_row (columns Companies)
          [SText (uuid4 e), SText n, SNull, SNull, SNull, SNull, SNull, SNull, SNull, SText '''',
           SText (clock e), SText (clock e)]])"
  using assms
  by (simp add: create_company_def dict_get_def dict_get_none_def engine_defs schema_defs)

text \<open>The database after three companies have been created, named C, A and B in this
  order.\<close>

definition db_three_companies :: db where
  "db_three_companies =
     snd (create_company env_c [(''name'', PStr ''B'')]
       (snd (create_company env_b [(''name'', PStr ''A'')]
         (snd (create_company env_a [(''name'', PStr ''C'')] empty_db)))))"

lemma db_three_companies_eq:
  "db_three_companies = empty_db(Companies :=
     [make_row (columns Companies)
        [SText ''a1'', SText ''C'', SNull, SNull, SNull, SNull, SNull, SNull, SNull, SText '''',
         SText ''2024-05-01T09:00:00.000001'', SText ''2024-05-01T09:00:00.000001''],
      make_row (columns Companies)
        [SText ''b2'', SText ''A'', SNull, SNull, SNull, SNull, SNull, SNull, SNull, SText '''',
         SText ''2024-05-01T09:00:00.000002'', SText ''2024-05-01T09:00:00.000002''],
      make_row (columns Companies)
        [SText ''c3'', SText ''B'', SNull, SNull, SNull, SNull, SNull, SNull, SNull, SText '''',
         SText ''2024-05-01T09:00:00.000003'', SText ''2024-05-01T09:00:00.000003'']])"
  by (simp add: db_three_companies_def create_company_named empty_db_def env_a_def env_b_def
      env_c_def schema_defs)

text \<open>
  Claim C6.  Each \<open>get_all\<close> returns the records of all rows of its table, arranged by
  ORDER BY: jobs, interview sessions, job alerts (and offers) by \<open>created_at\<close>
  descending, companies and contacts by \<open>name\<close> ascending; the records of jobs and
  interview sessions have their two list fields decoded.  The arrangement \<open>order_by\<close> is
  a permutation of the rows and is sorted by the column, ascending or descending, in
  the engine's order of values.
\<close>

theorem get_all_default_order:
  "get_jobs s =
     collect (map (\<lambda>r. decode_fields [''requirements'', ''tags''] (row_dict Jobs r))
                (order_by ''created_at'' DESC (s Jobs)))
   \<and> get_interview_sessions s =
     collect (map (\<lambda>r. decode_fields [''questions'', ''answers''] (row_dict InterviewSessions r))
                (order_by ''created_at'' DESC (s InterviewSessions)))
   \<and> get_job_alerts s = Inr (map (row_dict JobAlerts) (order_by ''created_at'' DESC (s JobAlerts)))
   \<and> get_offers s = Inr (map (row_dict Offers) (order_by ''created_at'' DESC (s Offers)))
   \<and> get_companies s = Inr (map (row_dict Companies) (order_by ''name'' ASC (s Companies)))
   \<and> get_contacts s = Inr (map (row_dict Contacts) (order_by ''name'' ASC (s Contacts)))
   \<and> mset (order_by c d rows) = mset rows
   \<and> sorted_wrt (\<lambda>a b. sql_le (a c) (b c)) (order_by c ASC rows)
   \<and> sorted_wrt (\<lambda>a b. sql_le (b c) (a c)) (order_by c DESC rows)"
proof -
  have "row_le c ASC = (\<lambda>a b. sql_le (a c) (b c))" "row_le c DESC = (\<lambda>a b. sql_le (b c) (a c))"
    by (auto simp: fun_eq_iff)
  then have "sorted_wrt (\<lambda>a b. sql_le (a c) (b c)) (order_by c ASC rows)"
    "sorted_wrt (\<lambda>a b. sql_le (b c) (a c)) (order_by c DESC rows)"
    using sorted_order_by [of c ASC rows] sorted_order_by [of c DESC rows] by simp_all
  moreover have "mset (order_by c d rows) = mset rows"
    by (simp add: order_by_def mset_sort_by)
  ultimately show ?thesis
    by (simp add: get_jobs_def get_interview_sessions_def get_job_alerts_def get_offers_def
        get_companies_def get_contacts_def execute_query_all schema_defs comp_def)
qed

theorem get_all_default_order_witness:
  "\<exists>rs. get_companies db_three_companies = Inr rs
     \<and> map (\<lambda>r. map_of r ''name'') rs = [Some (PStr ''A''), Some (PStr ''B''), Some (PStr ''C'')]"
proof -
  have "get_companies db_three_companies =
      Inr (map (row_dict Companies) (order_by ''name'' ASC (db_three_companies Companies)))"
    using get_all_default_order [of db_three_companies] by blast
  moreover have "map (\<lambda>r. map_of r ''name'')
      (map (row_dict Companies) (order_by ''name'' ASC (db_three_companies Companies)))
    = [Some (PStr ''A''), Some (PStr ''B''), Some (PStr ''C'')]"
    by (simp add: db_three_companies_eq empty_db_def order_by_def sort_by_def row_dict_def
        schema_defs)
  ultimately show ?thesis by (intro exI conjI)
qed


section \<open>Errors of the engine at the connection boundary\<close>

text \<open>
  A job whose stored \<open>requirements\<close> text is not JSON: the row of \<open>db_one_job\<close> with that
  column overwritten, as another program writing the database file would leave it.
\<close>

definition db_malformed :: db where
  "db_malformed =
     db_one_job(Jobs := map (\<lambda>r. r(''requirements'' := SText ''not json'')) (db_one_job Jobs))"

lemma json_loads_not_json: "json_loads ''not json'' = Inl JSONDecodeError"
  by (simp add: json_loads_def scan_once_def scan_scalar_def skip_ws_def is_ws_def dquote_def
      starts_def scan_number_def scan_unsigned_def is_digit_def)

text \<open>
  Against claim C5 as stated.  Reading back the job with the malformed list column
  raises the decoder's \<open>JSONDecodeError\<close>, from \<open>get_job\<close> and from \<open>get_jobs\<close>; and creating
  an offer whose \<open>base_salary\<close> is the integer \<open>2 ^ 63\<close> raises \<open>OverflowError\<close> inside the
  connection.  Neither is turned into \<open>DatabaseError\<close>.
\<close>

theorem other_exceptions_escape:
  "get_job ''a1'' db_malformed = Inl JSONDecodeError
   \<and> get_jobs db_malformed = Inl JSONDecodeError
   \<and> create_offer env_a [(''base_salary'', PInt (2 ^ 63))] empty_db = (Inl OverflowError, empty_db)"
proof -
  have "get_job ''a1'' db_malformed = Inl JSONDecodeError"
    by (simp add: db_malformed_def db_one_job_eq empty_db_def get_job_def execute_query_by_id
        row_dict_def schema_defs decode_field_def dict_get_none_def dict_get_def py_or_def
        py_json_loads_def json_loads_not_json)
  moreover have "get_jobs db_malformed = Inl JSONDecodeError"
    by (simp add: db_malformed_def db_one_job_eq empty_db_def get_jobs_def execute_query_all
        order_by_def sort_by_def row_dict_def schema_defs decode_field_def dict_get_none_def
        dict_get_def py_or_def py_json_loads_def json_loads_not_json)
  moreover have "create_offer env_a [(''base_salary'', PInt (2 ^ 63))] empty_db
      = (Inl OverflowError, empty_db)"
    by (simp add: create_offer_def dict_get_def dict_get_none_def engine_defs int64_def)
  ultimately show ?thesis by blast
qed

text \<open>
  Claim C5, amended.  Whatever the body of a connection does, an exception of
  \<open>sqlite3.Error\<close> raised in it is caught at the connection boundary and replaced by
  \<open>DatabaseError\<close> with the text \<open>Database error: \<close> followed by the engine's message; the
  database is left as last committed.  No \<open>sqlite3.Error\<close> leaves \<open>get_connection\<close>,
  \<open>execute_query\<close> or \<open>execute_command\<close>, and a command that fails leaves the database as
  it was.  An exception of any other type passes unchanged; in particular the error
  of decoding a list column, raised after the query has returned, is what \<open>get_job\<close>
  raises.
\<close>

theorem engine_errors_wrapped:
  "(body \<lparr>committed = s, working = s\<rparr> = (Inl (SqliteError m), c) \<longrightarrow>
      get_connection body s = (Inl (DatabaseError (''Database error: '' @ m)), committed c))
   \<and> (body \<lparr>committed = s, working = s\<rparr> = (Inl x, c) \<and> (\<forall>m'. x \<noteq> SqliteError m') \<longrightarrow>
      get_connection body s = (Inl x, committed c))
   \<and> fst (get_connection body s) \<noteq> Inl (SqliteError m)
   \<and> fst (execute_query q ps s) \<noteq> Inl (SqliteError m)
   \<and> fst (execute_command cmd ps s) \<noteq> Inl (SqliteError m)
   \<and> snd (execute_query q ps s) = s
   \<and> (fst (conn_command cmd ps \<lparr>committed = s, working = s\<rparr>) = Inl (SqliteError m) \<longrightarrow>
      execute_command cmd ps s = (Inl (DatabaseError (''Database error: '' @ m)), s))
   \<and> (fst (execute_command cmd ps s) = Inl x \<longrightarrow> snd (execute_command cmd ps s) = s)
   \<and> (fst (execute_query (SELECT_BY_ID Jobs) [PStr i] s) = Inr (job # rest)
        \<and> decode_fields [''requirements'', ''tags''] job = Inl x \<longrightarrow>
      get_job i s = Inl x)"
proof -
  have no_raw: "fst (get_connection b s) \<noteq> Inl (SqliteError m)"
    for b :: "conn \<Rightarrow> (exn + 'b) \<times> conn"
    by (auto simp: get_connection_def split: prod.splits sum.splits exn.splits)
  have q: "snd (execute_query q ps s) = s"
    by (auto simp: execute_query_def get_connection_def conn_query_def rollback_def
        split: prod.splits sum.splits exn.splits if_splits)
  have c1: "fst (conn_command cmd ps \<lparr>committed = s, working = s\<rparr>) = Inl (SqliteError m) \<longrightarrow>
      execute_command cmd ps s = (Inl (DatabaseError (''Database error: '' @ m)), s)"
    by (auto simp: execute_command_def get_connection_def conn_command_def rollback_def
        split: prod.splits sum.splits if_splits)
  have c2: "fst (execute_command cmd ps s) = Inl x \<longrightarrow> snd (execute_command cmd ps s) = s"
    by (auto simp: execute_command_def get_connection_def conn_command_def rollback_def commit_def
        split: prod.splits sum.splits exn.splits if_splits)
  have g1: "body \<lparr>committed = s, working = s\<rparr> = (Inl (SqliteError m), c) \<longrightarrow>
      get_connection body s = (Inl (DatabaseError (''Database error: '' @ m)), committed c)"
    by (simp add: get_connection_def rollback_def)
  have g2: "body \<lparr>committed = s, working = s\<rparr> = (Inl x, c) \<and> (\<forall>m'. x \<noteq> SqliteError m') \<longrightarrow>
      get_connection body s = (Inl x, committed c)"
    by (cases x) (simp_all add: get_connection_def)
  have d: "fst (execute_query (SELECT_BY_ID Jobs) [PStr i] s) = Inr (job # rest)
        \<and> decode_fields [''requirements'', ''tags''] job = Inl x \<longrightarrow> get_job i s = Inl x"
    by (simp add: get_job_def)
  have n0: "fst (get_connection body s) \<noteq> Inl (SqliteError m)"
    by (rule no_raw)
  have n1: "fst (execute_query q ps s) \<noteq> Inl (SqliteError m)"
    unfolding execute_query_def by (rule no_raw)
  have n2: "fst (execute_command cmd ps s) \<noteq> Inl (SqliteError m)"
    unfolding execute_command_def by (rule no_raw)
  show ?thesis by (intro conjI g1 g2 n0 n1 n2 q c1 c2 d)
qed

theorem engine_errors_wrapped_witness:
  "execute_command
     (INSERT Jobs [''id'', ''title'', ''company'', ''created_at'', ''updated_at''] ''2024-05-01 07:00:09'')
     [PStr ''a1'', PStr ''Engineer'', PStr ''TechCorp'', PStr ''2024-05-01T09:00:09'',
      PStr ''2024-05-01T09:00:09''] db_one_job
   = (Inl (DatabaseError ''Database error: UNIQUE constraint failed: jobs.id''), db_one_job)"
proof -
  have "fst (conn_command
     (INSERT Jobs [''id'', ''title'', ''company'', ''created_at'', ''updated_at''] ''2024-05-01 07:00:09'')
     [PStr ''a1'', PStr ''Engineer'', PStr ''TechCorp'', PStr ''2024-05-01T09:00:09'',
      PStr ''2024-05-01T09:00:09''] \<lparr>committed = db_one_job, working = db_one_job\<rparr>)
    = Inl (SqliteError ''UNIQUE constraint failed: jobs.id'')"
    by (simp add: conn_command_def bind_param_def unknown_column_def insert_value_def
        apply_affinity_def null_violation_def schema_defs db_one_job_eq empty_db_def)
  moreover have "fst (conn_command
     (INSERT Jobs [''id'', ''title'', ''company'', ''created_at'', ''updated_at''] ''2024-05-01 07:00:09'')
     [PStr ''a1'', PStr ''Engineer'', PStr ''TechCorp'', PStr ''2024-05-01T09:00:09'',
      PStr ''2024-05-01T09:00:09''] \<lparr>committed = db_one_job, working = db_one_job\<rparr>)
    = Inl (SqliteError ''UNIQUE constraint failed: jobs.id'') \<longrightarrow>
    execute_command
     (INSERT Jobs [''id'', ''title'', ''company'', ''created_at'', ''updated_at''] ''2024-05-01 07:00:09'')
     [PStr ''a1'', PStr ''Engineer'', PStr ''TechCorp'', PStr ''2024-05-01T09:00:09'',
      PStr ''2024-05-01T09:00:09''] db_one_job
    = (Inl (DatabaseError (''Database error: '' @ ''UNIQUE constraint failed: jobs.id'')), db_one_job)"
    using engine_errors_wrapped
         [where cmd = "INSERT Jobs [''id'', ''title'', ''company'', ''created_at'', ''updated_at'']
                         ''2024-05-01 07:00:09''"
            and ps = "[PStr ''a1'', PStr ''Engineer'', PStr ''TechCorp'',
                       PStr ''2024-05-01T09:00:09'', PStr ''2024-05-01T09:00:09'']"
            and s = db_one_job and m = "''UNIQUE constraint failed: jobs.id''",
             THEN conjunct2, THEN conjunct2, THEN conjunct2, THEN conjunct2, THEN conjunct2,
             THEN conjunct2, THEN conjunct1]
    by simp
  ultimately show ?thesis by simp
qed


section \<open>Encoding and decoding a list of strings\<close>

lemma hex_val_hex_digit:
  assumes "k < 16"
  shows "hex_val (hex_digit k) = Some k"
proof -
  from assms have "k = 0 \<or> k = 1 \<or> k = 2 \<or> k = 3 \<or> k = 4 \<or> k = 5 \<or> k = 6 \<or> k = 7 \<or> k = 8
      \<or> k = 9 \<or> k = 10 \<or> k = 11 \<or> k = 12 \<or> k = 13 \<or> k = 14 \<or> k = 15"
    by arith
  then show ?thesis
    by (elim disjE) (simp_all add: hex_digit_def hex_val_def)
qed

lemma scan_escape_u00:
  "scan_escape (CHR ''u'' # CHR ''0'' # CHR ''0'' # hex_digit (of_char c div 16)
                 # hex_digit (of_char c mod 16) # t) = Inr (c, t)"
proof -
  have d: "(of_char c :: nat) div 16 < 16"
    by (rule less_mult_imp_div_less) simp
  have m: "(of_char c :: nat) mod 16 < 16"
    by simp
  have z: "hex_val CHR ''0'' = Some 0"
    by (simp add: hex_val_def)
  have "hex4 CHR ''0'' CHR ''0'' (hex_digit (of_char c div 16)) (hex_digit (of_char c mod 16))
      = Some (of_char c)"
    by (simp add: hex4_def z hex_val_hex_digit [OF d] hex_val_hex_digit [OF m])
  then show ?thesis
    by (simp add: scan_escape_def)
qed

lemma scan_escape_short:
  "scan_escape (CHR 0x22 # t) = Inr (CHR 0x22, t)"
  "scan_escape (CHR 0x5C # t) = Inr (CHR 0x5C, t)"
  "scan_escape (CHR ''n'' # t) = Inr (CHR 0x0A, t)"
  "scan_escape (CHR ''r'' # t) = Inr (CHR 0x0D, t)"
  "scan_escape (CHR ''t'' # t) = Inr (CHR 0x09, t)"
  "scan_escape (CHR ''b'' # t) = Inr (CHR 0x08, t)"
  "scan_escape (CHR ''f'' # t) = Inr (CHR 0x0C, t)"
  by (simp_all add: scan_escape_def unescape_def dquote_def backslash_def)

lemma scanstring_escape_char:
  "scanstring (json_escape_char c @ t) acc = scanstring t (acc @ [c])"
  by (simp add: json_escape_char_def dquote_def backslash_def scan_escape_short scan_escape_u00)

lemma scanstring_escaped:
  "scanstring (concat (map json_escape_char s) @ dquote # rest) acc = Inr (acc @ s, rest)"
  by (induction s arbitrary: acc) (simp_all add: scanstring_escape_char)

lemma scan_scalar_encoded:
  "scan_scalar (encode_basestring_ascii s @ rest) = Inr (PStr s, rest)"
  using scanstring_escaped [of s rest "[]"]
  by (simp add: scan_scalar_def encode_basestring_ascii_def)

lemma skip_ws_keep: "\<not> is_ws c \<Longrightarrow> skip_ws (c # r) = c # r"
  by (simp add: skip_ws_def)

lemma skip_ws_space: "skip_ws (CHR '' '' # r) = skip_ws r"
  by (simp add: skip_ws_def is_ws_def)

lemma encoded_head:
  "\<exists>r. encode_basestring_ascii s @ rest = CHR 0x22 # r"
  by (simp add: encode_basestring_ascii_def dquote_def)

lemma joined_head:
  "xs \<noteq> [] \<Longrightarrow> \<exists>r. join '', '' (map encode_basestring_ascii xs) @ rest = CHR 0x22 # r"
proof (cases xs)
  case Nil
  moreover assume "xs \<noteq> []"
  ultimately show ?thesis by simp
next
  case (Cons y ys)
  then show ?thesis
    by (cases ys) (simp_all add: encode_basestring_ascii_def dquote_def)
qed

lemma parse_elems_strings:
  "xs \<noteq> [] \<Longrightarrow>
   parse_elems (join '', '' (map encode_basestring_ascii xs) @ CHR '']'' # rest) acc
     = Inr (acc @ map PStr xs, rest)"
proof (induction xs arbitrary: acc)
  case Nil
  then show ?case by simp
next
  case (Cons x xs)
  show ?case
  proof (cases xs)
    case Nil
    then show ?thesis
      by (subst parse_elems.simps)
         (simp add: scan_scalar_encoded skip_ws_keep is_ws_def)
  next
    case c: (Cons y ys)
    then have ne: "xs \<noteq> []" by simp
    have e: "join '', '' (map encode_basestring_ascii (x # xs)) @ CHR '']'' # rest
        = encode_basestring_ascii x @ CHR '','' # CHR '' ''
            # (join '', '' (map encode_basestring_ascii xs) @ CHR '']'' # rest)"
      using c by simp
    obtain r where r: "join '', '' (map encode_basestring_ascii xs) @ CHR '']'' # rest = CHR 0x22 # r"
      using joined_head [OF ne] by blast
    have k: "skip_ws (CHR '' '' # (join '', '' (map encode_basestring_ascii xs) @ CHR '']'' # rest))
        = join '', '' (map encode_basestring_ascii xs) @ CHR '']'' # rest"
      unfolding skip_ws_space r by (simp add: skip_ws_keep is_ws_def)
    have ih: "parse_elems (join '', '' (map encode_basestring_ascii xs) @ CHR '']'' # rest)
         (acc @ [PStr x]) = Inr ((acc @ [PStr x]) @ map PStr xs, rest)"
      using Cons.IH [OF ne] .
    show ?thesis
      unfolding e
      by (subst parse_elems.simps)
         (simp add: scan_scalar_encoded skip_ws_keep is_ws_def k ih)
  qed
qed

lemma json_dumps_strings:
  "json_dumps (PList (map PStr xs))
     = Inr (CHR ''['' # join '', '' (map encode_basestring_ascii xs) @ '']'')"
  by (simp add: json_dumps_def comp_def)

lemma json_loads_strings:
  "json_loads (CHR ''['' # join '', '' (map encode_basestring_ascii xs) @ '']'')
     = Inr (PList (map PStr xs))"
proof (cases "xs = []")
  case True
  then show ?thesis
    by (simp add: json_loads_def scan_once_def parse_array_def skip_ws_def is_ws_def)
next
  case False
  obtain r where r: "join '', '' (map encode_basestring_ascii xs) @ '']'' = CHR 0x22 # r"
    using joined_head [OF False] by blast
  have p: "parse_elems (CHR 0x22 # r) [] = Inr (map PStr xs, [])"
    using parse_elems_strings [OF False, of "[]" "[]"] r by simp
  have a: "parse_array (CHR 0x22 # r) = Inr (PList (map PStr xs), [])"
    by (simp add: parse_array_def skip_ws_keep is_ws_def p)
  show ?thesis
    unfolding r
    by (simp add: json_loads_def scan_once_def skip_ws_keep is_ws_def a skip_ws_def [of "[]"])
qed

lemma roundtrip_strings:
  "json_dumps (PList (map PStr xs)) = Inr t \<Longrightarrow>
   py_json_loads (py_or (PStr t) (PStr ''[]'')) = Inr (PList (map PStr xs))"
  by (auto simp: json_dumps_strings py_json_loads_def py_or_def json_loads_strings)


section \<open>What a successful create has done\<close>

lemma distinct_columns: "distinct (columns t)"
  by (cases t) (simp_all add: schema_defs)

lemma make_row_of_schema:
  assumes "list_all2 (\<lambda>cd w. f cd = Inr w) sch ws"
    and "distinct (map cname sch)" and "cd \<in> set sch"
  shows "f cd = Inr (make_row (map cname sch) ws (cname cd))"
  using assms
proof (induction sch ws rule: list_all2_induct)
  case Nil
  then show ?case by simp
next
  case (Cons x xs y ys)
  show ?case
  proof (cases "cd = x")
    case True
    with Cons show ?thesis by simp
  next
    case False
    with Cons have m: "cd \<in> set xs" and d: "distinct (map cname xs)" by simp_all
    from m have "cname cd \<in> cname ` set xs" by (rule imageI)
    moreover from Cons.prems(1) have "cname x \<notin> cname ` set xs" by simp
    ultimately have ne: "cname cd \<noteq> cname x" by metis
    from Cons.IH [OF d m] ne show ?thesis by simp
  qed
qed

lemma map_of_zip_bound:
  assumes "list_all2 (\<lambda>p v. bind_param 0 p = Inr v) (map snd kvs) vs"
  shows "map_of (zip (map fst kvs) vs) c =
           map_option (\<lambda>p. case bind_param 0 p of Inr v \<Rightarrow> v | Inl x \<Rightarrow> SNull) (map_of kvs c)"
  using assms
proof (induction kvs arbitrary: vs)
  case Nil
  then show ?case by simp
next
  case (Cons kv kvs)
  then show ?case by (cases kv) (auto simp: list_all2_Cons1)
qed

text \<open>What a successful INSERT has done.\<close>

lemma insert_record_Inr:
  assumes "insert_record t ts kvs s = (Inr n, s')"
  shows "\<exists>row. s' = s(t := s t @ [row])
           \<and> \<not> list_ex (matches_id (row ''id'')) (s t)
           \<and> (\<forall>cd x. cd \<in> set (schema t) \<and> caff cd = TEXT
                 \<and> map_of kvs (cname cd) = Some (PStr x) \<longrightarrow> row (cname cd) = SText x)
           \<and> (\<forall>cd. cd \<in> set (schema t) \<and> cdefault cd = CurrentTimestamp
                 \<and> map_of kvs (cname cd) = None \<longrightarrow> row (cname cd) = SText ts)"
proof -
  from assms obtain vs where b: "bind_from 1 (map snd kvs) = Inr vs"
    by (auto simp: insert_record_def execute_command_def get_connection_def conn_command_def
        split: if_splits sum.splits prod.splits exn.splits)
  with assms have r: "run_command (INSERT t (map fst kvs) ts) vs s = Inr (n, s')"
    by (auto simp: insert_record_def execute_command_def get_connection_def conn_command_def
        commit_def split: if_splits sum.splits prod.splits exn.splits)
  then obtain ws where w: "collect (map (insert_value ts (zip (map fst kvs) vs)) (schema t)) = Inr ws"
    by (auto split: option.splits sum.splits)
  let ?row = "make_row (columns t) ws"
  from r w have s': "s' = s(t := s t @ [?row])" and u: "\<not> list_ex (matches_id (?row ''id'')) (s t)"
    by (auto simp: Let_def split: option.splits if_splits)
  from w have l: "list_all2 (\<lambda>cd w. insert_value ts (zip (map fst kvs) vs) cd = Inr w) (schema t) ws"
    by (simp add: collect_map_Inr_iff)
  have v: "insert_value ts (zip (map fst kvs) vs) cd = Inr (?row (cname cd))"
    if "cd \<in> set (schema t)" for cd
    using make_row_of_schema [OF l _ that] distinct_columns [of t]
    by (simp add: columns_def)
  from b have bl: "list_all2 (\<lambda>p v. bind_param 0 p = Inr v) (map snd kvs) vs"
    by (simp add: bind_from_Inr_iff)
  have t1: "?row (cname cd) = SText x"
    if "cd \<in> set (schema t)" "caff cd = TEXT" "map_of kvs (cname cd) = Some (PStr x)" for cd x
    using v [OF that(1)] that(2,3)
    by (simp add: insert_value_def map_of_zip_bound [OF bl] bind_param_def apply_affinity_def)
  have t2: "?row (cname cd) = SText ts"
    if "cd \<in> set (schema t)" "cdefault cd = CurrentTimestamp" "map_of kvs (cname cd) = None" for cd
    using v [OF that(1)] that(2,3)
    by (simp add: insert_value_def map_of_zip_bound [OF bl])
  from s' u t1 t2 show ?thesis by blast
qed

lemma id_column: "col ''id'' TEXT \<in> set (schema t)"
  by (cases t) simp_all

lemma insert_record_id:
  assumes "insert_record t ts ((''id'', PStr u) # kvs) s = (Inr n, s')"
  shows "\<exists>row. s' = s(t := s t @ [row]) \<and> row ''id'' = SText u
           \<and> filter (\<lambda>r. r ''id'' = SText u) (s' t) = [row]"
proof -
  from insert_record_Inr [OF assms] obtain row where s': "s' = s(t := s t @ [row])"
    and u: "\<not> list_ex (matches_id (row ''id'')) (s t)"
    and c: "\<forall>cd x. cd \<in> set (schema t) \<and> caff cd = TEXT
                 \<and> map_of ((''id'', PStr u) # kvs) (cname cd) = Some (PStr x)
               \<longrightarrow> row (cname cd) = SText x"
    by blast
  from c [rule_format, of "col ''id'' TEXT" u] id_column [of t] have i: "row ''id'' = SText u"
    by (simp add: col_def)
  with u have "filter (\<lambda>r. r ''id'' = SText u) (s t) = []"
    by (simp add: filter_fresh)
  with s' i show ?thesis by simp
qed

lemma map_of_replace:
  "map_of (map (\<lambda>(k', v'). if k' = k then (k', v) else (k', v')) d) c =
     (if c = k then map_option (\<lambda>x. v) (map_of d c) else map_of d c)"
  by (induction d) (auto simp: case_prod_beta)

lemma map_of_dict_set: "map_of (dict_set d k v) c = (if c = k then Some v else map_of d c)"
proof (cases "k \<in> fst ` set d")
  case True
  then obtain x where "map_of d k = Some x"
    by (cases "map_of d k") (simp_all add: map_of_eq_None_iff)
  with True show ?thesis by (simp add: dict_set_def map_of_replace)
next
  case False
  then have "map_of d k = None" by (simp add: map_of_eq_None_iff)
  with False show ?thesis by (auto simp: dict_set_def map_add_def split: option.splits)
qed

lemma keys_dict_set: "fst ` set (dict_set d k v) = insert k (fst ` set d)"
  by (auto simp: dict_set_def image_iff split: if_splits prod.splits) force+

lemma decode_field_Inr:
  assumes "decode_field k d = Inr d'"
  shows "\<exists>v. py_json_loads (py_or (dict_get_none d k) (PStr ''[]'')) = Inr v
           \<and> map_of d' = (map_of d)(k \<mapsto> v) \<and> fst ` set d' = insert k (fst ` set d)"
proof -
  from assms obtain v where v: "py_json_loads (py_or (dict_get_none d k) (PStr ''[]'')) = Inr v"
    and d': "d' = dict_set d k v"
    by (auto simp: decode_field_def split: sum.splits)
  have "map_of d' = (map_of d)(k \<mapsto> v)"
    by (simp add: d' map_of_dict_set fun_eq_iff)
  moreover have "fst ` set d' = insert k (fst ` set d)"
    by (simp add: d' keys_dict_set)
  ultimately show ?thesis using v by blast
qed

lemma decode_two_Inr:
  assumes "decode_fields [a, b] d = Inr d'" and "a \<noteq> b"
  shows "\<exists>v w. py_json_loads (py_or (dict_get_none d a) (PStr ''[]'')) = Inr v
           \<and> py_json_loads (py_or (dict_get_none d b) (PStr ''[]'')) = Inr w
           \<and> map_of d' = (map_of d)(a \<mapsto> v, b \<mapsto> w)
           \<and> fst ` set d' = insert a (insert b (fst ` set d))"
proof -
  from assms(1) obtain d1 where 1: "decode_field a d = Inr d1" and 2: "decode_field b d1 = Inr d'"
    by (auto split: sum.splits)
  from decode_field_Inr [OF 1] obtain v where
    v: "py_json_loads (py_or (dict_get_none d a) (PStr ''[]'')) = Inr v"
    and m1: "map_of d1 = (map_of d)(a \<mapsto> v)" and k1: "fst ` set d1 = insert a (fst ` set d)"
    by blast
  from decode_field_Inr [OF 2] obtain w where
    w: "py_json_loads (py_or (dict_get_none d1 b) (PStr ''[]'')) = Inr w"
    and m2: "map_of d' = (map_of d1)(b \<mapsto> w)" and k2: "fst ` set d' = insert b (fst ` set d1)"
    by blast
  from assms(2) m1 have "dict_get_none d1 b = dict_get_none d b"
    by (simp add: dict_get_none_def dict_get_def)
  with v w m1 m2 k1 k2 show ?thesis by auto
qed

lemma map_of_row_dict:
  "map_of (row_dict t r) c = (if c \<in> set (columns t) then Some (py_of_sql (r c)) else None)"
  by (simp add: row_dict_def map_of_map_restrict restrict_map_def)

lemma keys_row_dict: "fst ` set (row_dict t r) = set (columns t)"
  by (auto simp: row_dict_def image_iff)

lemma id_in_columns: "''id'' \<in> set (columns t)"
  by (cases t) (simp_all add: schema_defs)

lemma get_job_eq:
  "get_job i s =
     (case filter (\<lambda>r. r ''id'' = SText i) (s Jobs) of
        [] \<Rightarrow> Inr None
      | row # _ \<Rightarrow> map_sum id Some (decode_fields [''requirements'', ''tags''] (row_dict Jobs row)))"
  by (simp add: get_job_def execute_query_by_id split: list.splits sum.splits)

lemma get_interview_session_eq:
  "get_interview_session i s =
     (case filter (\<lambda>r. r ''id'' = SText i) (s InterviewSessions) of
        [] \<Rightarrow> Inr None
      | row # _ \<Rightarrow>
          map_sum id Some (decode_fields [''questions'', ''answers''] (row_dict InterviewSessions row)))"
  by (simp add: get_interview_session_def execute_query_by_id split: list.splits sum.splits)

lemma get_company_eq:
  "get_company i s =
     Inr (first_or_none (map (row_dict Companies) (filter (\<lambda>r. r ''id'' = SText i) (s Companies))))"
  by (simp add: get_company_def execute_query_by_id)

lemma get_contact_eq:
  "get_contact i s =
     Inr (first_or_none (map (row_dict Contacts) (filter (\<lambda>r. r ''id'' = SText i) (s Contacts))))"
  by (simp add: get_contact_def execute_query_by_id)

text \<open>The row a successful INSERT of a new record has added, and the columns it is known by.\<close>

definition inserted :: "table \<Rightarrow> string \<Rightarrow> pydict \<Rightarrow> db \<Rightarrow> db \<Rightarrow> row \<Rightarrow> bool" where
  "inserted t ts kvs s s' row \<longleftrightarrow>
     s' = s(t := s t @ [row])
     \<and> (\<forall>cd x. cd \<in> set (schema t) \<and> caff cd = TEXT
           \<and> map_of kvs (cname cd) = Some (PStr x) \<longrightarrow> row (cname cd) = SText x)
     \<and> (\<forall>cd. cd \<in> set (schema t) \<and> cdefault cd = CurrentTimestamp
           \<and> map_of kvs (cname cd) = None \<longrightarrow> row (cname cd) = SText ts)"

lemma inserted_text:
  "inserted t ts kvs s s' row \<Longrightarrow> cd \<in> set (schema t) \<Longrightarrow> caff cd = TEXT \<Longrightarrow>
   map_of kvs (cname cd) = Some (PStr x) \<Longrightarrow> row (cname cd) = SText x"
  unfolding inserted_def by blast

lemma inserted_timestamp:
  "inserted t ts kvs s s' row \<Longrightarrow> cd \<in> set (schema t) \<Longrightarrow> cdefault cd = CurrentTimestamp \<Longrightarrow>
   map_of kvs (cname cd) = None \<Longrightarrow> row (cname cd) = SText ts"
  unfolding inserted_def by blast

lemma insert_record_new:
  assumes "insert_record t ts ((''id'', PStr u) # kvs) s = (Inr n, s')"
  shows "\<exists>row. inserted t ts ((''id'', PStr u) # kvs) s s' row \<and> row ''id'' = SText u
           \<and> filter (\<lambda>r. r ''id'' = SText u) (s' t) = [row]"
proof -
  from insert_record_Inr [OF assms] obtain row where s': "s' = s(t := s t @ [row])"
    and u: "\<not> list_ex (matches_id (row ''id'')) (s t)"
    and i: "inserted t ts ((''id'', PStr u) # kvs) s s' row"
    unfolding inserted_def by blast
  from inserted_text [OF i, of "col ''id'' TEXT" u] id_column [of t] have r: "row ''id'' = SText u"
    by (simp add: col_def)
  with u have "filter (\<lambda>r. r ''id'' = SText u) (s t) = []"
    by (simp add: filter_fresh)
  with s' i r show ?thesis by simp
qed

lemma create_simple_Inr:
  assumes "then_get (insert_record t ts ((''id'', PStr u) # kvs) s) g = (Inr ro, s')"
    and "\<And>s. g s = Inr (first_or_none (map (row_dict t) (filter (\<lambda>r. r ''id'' = SText u) (s t))))"
  shows "\<exists>row. inserted t ts ((''id'', PStr u) # kvs) s s' row \<and> row ''id'' = SText u
           \<and> ro = Some (row_dict t row) \<and> g s' = Inr (Some (row_dict t row))"
proof -
  from assms(1) obtain n where i: "insert_record t ts ((''id'', PStr u) # kvs) s = (Inr n, s')"
    and g: "g s' = Inr ro"
    by (auto simp: then_get_def split: sum.splits prod.splits)
  from insert_record_new [OF i] obtain row where
    r: "inserted t ts ((''id'', PStr u) # kvs) s s' row" "row ''id'' = SText u"
    and f: "filter (\<lambda>r. r ''id'' = SText u) (s' t) = [row]"
    by blast
  from g f have "ro = Some (row_dict t row)"
    by (simp add: assms(2) first_or_none_def)
  with r g show ?thesis by blast
qed

lemma create_decoded_Inr:
  assumes "then_get (insert_record t ts ((''id'', PStr u) # kvs) s) g = (Inr ro, s')"
    and "\<And>s. g s = (case filter (\<lambda>r. r ''id'' = SText u) (s t) of
                       [] \<Rightarrow> Inr None
                     | row # _ \<Rightarrow> map_sum id Some (decode_fields ks (row_dict t row)))"
  shows "\<exists>row j. inserted t ts ((''id'', PStr u) # kvs) s s' row \<and> row ''id'' = SText u
           \<and> decode_fields ks (row_dict t row) = Inr j
           \<and> ro = Some j \<and> g s' = Inr (Some j)"
proof -
  from assms(1) obtain n where i: "insert_record t ts ((''id'', PStr u) # kvs) s = (Inr n, s')"
    and g: "g s' = Inr ro"
    by (auto simp: then_get_def split: sum.splits prod.splits)
  from insert_record_new [OF i] obtain row where
    r: "inserted t ts ((''id'', PStr u) # kvs) s s' row" "row ''id'' = SText u"
    and f: "filter (\<lambda>r. r ''id'' = SText u) (s' t) = [row]"
    by blast
  from g f obtain j where "decode_fields ks (row_dict t row) = Inr j" "ro = Some j"
    by (cases "decode_fields ks (row_dict t row)") (simp_all add: assms(2))
  with r g show ?thesis by blast
qed

lemma dict_get_none_row_dict:
  "dict_get_none (row_dict t r) c = (if c \<in> set (columns t) then py_of_sql (r c) else PNone)"
  by (simp add: dict_get_none_def dict_get_def map_of_row_dict)

lemma decoded_strings:
  assumes "json_dumps v = Inr t" and "v = PList (map PStr xs)"
  shows "py_json_loads (py_or (PStr t) (PStr ''[]'')) = Inr v"
  using assms roundtrip_strings [of xs t] by simp

lemma create_job_Inr:
  assumes "create_job e d s = (Inr ro, s')"
  shows "\<exists>j. ro = Some j \<and> get_job (uuid4 e) s' = Inr (Some j)
           \<and> map_of j ''id'' = Some (PStr (uuid4 e))
           \<and> map_of j ''created_at'' = Some (PStr (clock e))
           \<and> map_of j ''updated_at'' = Some (PStr (clock e))
           \<and> (\<forall>xs. dict_get d ''requirements'' (PList []) = PList (map PStr xs) \<longrightarrow>
                 map_of j ''requirements'' = Some (PList (map PStr xs)))
           \<and> (\<forall>xs. dict_get d ''tags'' (PList []) = PList (map PStr xs) \<longrightarrow>
                 map_of j ''tags'' = Some (PList (map PStr xs)))"
proof -
  define kvs where "kvs reqs tags =
                    [(''title'', dict_get d ''title'' (PStr '''')),
                     (''company'', dict_get d ''company'' (PStr '''')),
                     (''url'', dict_get_none d ''url''),
                     (''description'', dict_get_none d ''description''),
                     (''location'', dict_get_none d ''location''),
                     (''salary'', dict_get_none d ''salary''),
                     (''requirements'', PStr reqs),
                     (''stage'', dict_get d ''stage'' (PStr ''saved'')),
                     (''notes'', dict_get d ''notes'' (PStr '''')),
                     (''tags'', PStr tags),
                     (''applied_date'', dict_get_none d ''applied_date''),
                     (''created_at'', PStr (clock e)),
                     (''updated_at'', PStr (clock e))]" for reqs tags
  from assms obtain reqs tags where
    j1: "json_dumps (dict_get d ''requirements'' (PList [])) = Inr reqs"
    and j2: "json_dumps (dict_get d ''tags'' (PList [])) = Inr tags"
    and c: "then_get (insert_record Jobs (current_timestamp e)
                        ((''id'', PStr (uuid4 e)) # kvs reqs tags) s) (get_job (uuid4 e))
            = (Inr ro, s')"
    by (auto simp: create_job_def kvs_def split: sum.splits)
  from create_decoded_Inr [OF c get_job_eq] obtain row j where
    i: "inserted Jobs (current_timestamp e) ((''id'', PStr (uuid4 e)) # kvs reqs tags) s s' row"
    and r: "row ''id'' = SText (uuid4 e)"
    and dc: "decode_fields [''requirements'', ''tags''] (row_dict Jobs row) = Inr j"
    and ro: "ro = Some j" "get_job (uuid4 e) s' = Inr (Some j)"
    by blast
  have c1: "row ''created_at'' = SText (clock e)"
    using inserted_text [OF i, of "col_nn ''created_at'' TEXT" "clock e"]
    by (simp add: kvs_def col_nn_def)
  have c2: "row ''updated_at'' = SText (clock e)"
    using inserted_text [OF i, of "col_nn ''updated_at'' TEXT" "clock e"]
    by (simp add: kvs_def col_nn_def)
  have c3: "row ''requirements'' = SText reqs"
    using inserted_text [OF i, of "col ''requirements'' TEXT" reqs]
    by (simp add: kvs_def col_def)
  have c4: "row ''tags'' = SText tags"
    using inserted_text [OF i, of "col ''tags'' TEXT" tags]
    by (simp add: kvs_def col_def)
  from decode_two_Inr [OF dc] obtain v w where
    v: "py_json_loads (py_or (PStr reqs) (PStr ''[]'')) = Inr v"
    and w: "py_json_loads (py_or (PStr tags) (PStr ''[]'')) = Inr w"
    and m: "map_of j = (map_of (row_dict Jobs row))(''requirements'' \<mapsto> v, ''tags'' \<mapsto> w)"
    by (auto simp: dict_get_none_row_dict schema_defs c3 c4)
  have k1: "map_of j ''id'' = Some (PStr (uuid4 e))"
    by (simp add: m map_of_row_dict schema_defs r)
  have k2: "map_of j ''created_at'' = Some (PStr (clock e))"
    by (simp add: m map_of_row_dict schema_defs c1)
  have k3: "map_of j ''updated_at'' = Some (PStr (clock e))"
    by (simp add: m map_of_row_dict schema_defs c2)
  have k4: "map_of j ''requirements'' = Some (PList (map PStr xs))"
    if "dict_get d ''requirements'' (PList []) = PList (map PStr xs)" for xs
    using decoded_strings [OF j1 that] v that by (simp add: m)
  have k5: "map_of j ''tags'' = Some (PList (map PStr xs))"
    if "dict_get d ''tags'' (PList []) = PList (map PStr xs)" for xs
    using decoded_strings [OF j2 that] w that by (simp add: m)
  from ro k1 k2 k3 k4 k5 show ?thesis by blast
qed

lemma create_interview_session_Inr:
  assumes "create_interview_session e d s = (Inr ro, s')"
  shows "\<exists>j. ro = Some j \<and> get_interview_session (uuid4 e) s' = Inr (Some j)
           \<and> map_of j ''id'' = Some (PStr (uuid4 e))
           \<and> map_of j ''created_at'' = Some (PStr (clock e))
           \<and> map_of j ''updated_at'' = Some (PStr (clock e))
           \<and> (\<forall>xs. dict_get d ''questions'' (PList []) = PList (map PStr xs) \<longrightarrow>
                 map_of j ''questions'' = Some (PList (map PStr xs)))
           \<and> (\<forall>xs. dict_get d ''answers'' (PList []) = PList (map PStr xs) \<longrightarrow>
                 map_of j ''answers'' = Some (PList (map PStr xs)))"
proof -
  define kvs where "kvs questions answers =
                    [(''company'', dict_get d ''company'' (PStr '''')),
                     (''role'', dict_get d ''role'' (PStr '''')),
                     (''category'', dict_get d ''category'' (PStr ''behavioral'')),
                     (''questions'', PStr questions),
                     (''answers'', PStr answers),
                     (''feedback'', dict_get d ''feedback'' (PStr '''')),
                     (''score'', dict_get_none d ''score''),
                     (''created_at'', PStr (clock e)),
                     (''updated_at'', PStr (clock e))]" for questions answers
  from assms obtain qs as where
    j1: "json_dumps (dict_get d ''questions'' (PList [])) = Inr qs"
    and j2: "json_dumps (dict_get d ''answers'' (PList [])) = Inr as"
    and c: "then_get (insert_record InterviewSessions (current_timestamp e)
                        ((''id'', PStr (uuid4 e)) # kvs qs as) s) (get_interview_session (uuid4 e))
            = (Inr ro, s')"
    by (auto simp: create_interview_session_def kvs_def split: sum.splits)
  from create_decoded_Inr [OF c get_interview_session_eq] obtain row j where
    i: "inserted InterviewSessions (current_timestamp e) ((''id'', PStr (uuid4 e)) # kvs qs as)
          s s' row"
    and r: "row ''id'' = SText (uuid4 e)"
    and dc: "decode_fields [''questions'', ''answers''] (row_dict InterviewSessions row) = Inr j"
    and ro: "ro = Some j" "get_interview_session (uuid4 e) s' = Inr (Some j)"
    by blast
  have c1: "row ''created_at'' = SText (clock e)"
    using inserted_text [OF i, of "col_d ''created_at'' TEXT CurrentTimestamp" "clock e"]
    by (simp add: kvs_def col_d_def)
  have c2: "row ''updated_at'' = SText (clock e)"
    using inserted_text [OF i, of "col_d ''updated_at'' TEXT CurrentTimestamp" "clock e"]
    by (simp add: kvs_def col_d_def)
  have c3: "row ''questions'' = SText qs"
    using inserted_text [OF i, of "col ''questions'' TEXT" qs]
    by (simp add: kvs_def col_def)
  have c4: "row ''answers'' = SText as"
    using inserted_text [OF i, of "col ''answers'' TEXT" as]
    by (simp add: kvs_def col_def)
  from decode_two_Inr [OF dc] obtain v w where
    v: "py_json_loads (py_or (PStr qs) (PStr ''[]'')) = Inr v"
    and w: "py_json_loads (py_or (PStr as) (PStr ''[]'')) = Inr w"
    and m: "map_of j = (map_of (row_dict InterviewSessions row))(''questions'' \<mapsto> v, ''answers'' \<mapsto> w)"
    by (auto simp: dict_get_none_row_dict schema_defs c3 c4)
  have k1: "map_of j ''id'' = Some (PStr (uuid4 e))"
    by (simp add: m map_of_row_dict schema_defs r)
  have k2: "map_of j ''created_at'' = Some (PStr (clock e))"
    by (simp add: m map_of_row_dict schema_defs c1)
  have k3: "map_of j ''updated_at'' = Some (PStr (clock e))"
    by (simp add: m map_of_row_dict schema_defs c2)
  have k4: "map_of j ''questions'' = Some (PList (map PStr xs))"
    if "dict_get d ''questions'' (PList []) = PList (map PStr xs)" for xs
    using decoded_strings [OF j1 that] v that by (simp add: m)
  have k5: "map_of j ''answers'' = Some (PList (map PStr xs))"
    if "dict_get d ''answers'' (PList []) = PList (map PStr xs)" for xs
    using decoded_strings [OF j2 that] w that by (simp add: m)
  from ro k1 k2 k3 k4 k5 show ?thesis by blast
qed

lemma create_company_Inr:
  assumes "create_company e d s = (Inr ro, s')"
  shows "\<exists>r. ro = Some r \<and> get_company (uuid4 e) s' = Inr (Some r)
           \<and> map_of r ''id'' = Some (PStr (uuid4 e))
           \<and> map_of r ''created_at'' = Some (PStr (clock e))
           \<and> map_of r ''last_updated'' = Some (PStr (clock e))
           \<and> map_of r ''updated_at'' = None"
proof -
  define kvs where "kvs =
          [(''name'', dict_get d ''name'' (PStr '''')),
           (''domain'', dict_get_none d ''domain''),
           (''industry'', dict_get_none d ''industry''),
           (''size'', dict_get_none d ''size''),
           (''funding_stage'', dict_get_none d ''funding_stage''),
           (''rating'', dict_get_none d ''rating''),
           (''location'', dict_get_none d ''location''),
           (''website'', dict_get_none d ''website''),
           (''notes'', dict_get d ''notes'' (PStr '''')),
           (''last_updated'', PStr (clock e)),
           (''created_at'', PStr (clock e))]"
  from assms have c: "then_get (insert_record Companies (current_timestamp e)
                        ((''id'', PStr (uuid4 e)) # kvs) s) (get_company (uuid4 e)) = (Inr ro, s')"
    by (simp add: create_company_def kvs_def)
  from create_simple_Inr [OF c get_company_eq] obtain row where
    i: "inserted Companies (current_timestamp e) ((''id'', PStr (uuid4 e)) # kvs) s s' row"
    and r: "row ''id'' = SText (uuid4 e)"
    and ro: "ro = Some (row_dict Companies row)"
            "get_company (uuid4 e) s' = Inr (Some (row_dict Companies row))"
    by blast
  have c1: "row ''created_at'' = SText (clock e)"
    using inserted_text [OF i, of "col_d ''created_at'' TEXT CurrentTimestamp" "clock e"]
    by (simp add: kvs_def col_d_def)
  have c2: "row ''last_updated'' = SText (clock e)"
    using inserted_text [OF i, of "col ''last_updated'' TEXT" "clock e"]
    by (simp add: kvs_def col_def)
  have "map_of (row_dict Companies row) ''id'' = Some (PStr (uuid4 e))"
    "map_of (row_dict Companies row) ''created_at'' = Some (PStr (clock e))"
    "map_of (row_dict Companies row) ''last_updated'' = Some (PStr (clock e))"
    "map_of (row_dict Companies row) ''updated_at'' = None"
    by (simp_all add: map_of_row_dict schema_defs r c1 c2)
  with ro show ?thesis by blast
qed

lemma create_contact_Inr:
  assumes "create_contact e d s = (Inr ro, s')"
  shows "\<exists>r. ro = Some r \<and> get_contact (uuid4 e) s' = Inr (Some r)
           \<and> map_of r ''id'' = Some (PStr (uuid4 e))
           \<and> map_of r ''created_at'' = Some (PStr (current_timestamp e))
           \<and> map_of r ''updated_at'' = Some (PStr (current_timestamp e))"
proof -
  define kvs where "kvs =
          [(''name'', dict_get d ''name'' (PStr '''')),
           (''company'', dict_get d ''company'' (PStr '''')),
           (''position'', dict_get_none d ''position''),
           (''linkedin_url'', dict_get_none d ''linkedin_url''),
           (''relationship'', dict_get_none d ''relationship''),
           (''connection_type'', dict_get_none d ''connection_type''),
           (''warm_intro_potential'', dict_get_none d ''warm_intro_potential''),
           (''last_contact'', dict_get_none d ''last_contact''),
           (''notes'', dict_get d ''notes'' (PStr ''''))]"
  from assms have c: "then_get (insert_record Contacts (current_timestamp e)
                        ((''id'', PStr (uuid4 e)) # kvs) s) (get_contact (uuid4 e)) = (Inr ro, s')"
    by (simp add: create_contact_def kvs_def)
  from create_simple_Inr [OF c get_contact_eq] obtain row where
    i: "inserted Contacts (current_timestamp e) ((''id'', PStr (uuid4 e)) # kvs) s s' row"
    and r: "row ''id'' = SText (uuid4 e)"
    and ro: "ro = Some (row_dict Contacts row)"
            "get_contact (uuid4 e) s' = Inr (Some (row_dict Contacts row))"
    by blast
  have c1: "row ''created_at'' = SText (current_timestamp e)"
    using inserted_timestamp [OF i, of "col_d ''created_at'' TEXT CurrentTimestamp"]
    by (simp add: kvs_def col_d_def)
  have c2: "row ''updated_at'' = SText (current_timestamp e)"
    using inserted_timestamp [OF i, of "col_d ''updated_at'' TEXT CurrentTimestamp"]
    by (simp add: kvs_def col_d_def)
  have "map_of (row_dict Contacts row) ''id'' = Some (PStr (uuid4 e))"
    "map_of (row_dict Contacts row) ''created_at'' = Some (PStr (current_timestamp e))"
    "map_of (row_dict Contacts row) ''updated_at'' = Some (PStr (current_timestamp e))"
    by (simp_all add: map_of_row_dict schema_defs r c1 c2)
  with ro show ?thesis by blast
qed

lemma create_offer_Inr:
  assumes "create_offer e d s = (Inr ro, s')"
  shows "\<exists>r. ro = Some r \<and> get_offer (uuid4 e) s' = Inr (Some r)
           \<and> map_of r ''id'' = Some (PStr (uuid4 e))
           \<and> map_of r ''created_at'' = Some (PStr (current_timestamp e))
           \<and> map_of r ''updated_at'' = Some (PStr (current_timestamp e))"
proof -
  define kvs where "kvs =
          [(''job_id'', dict_get_none d ''job_id''),
           (''company'', dict_get d ''company'' (PStr '''')),
           (''base_salary'', dict_get_none d ''base_salary''),
           (''bonus'', dict_get d ''bonus'' (PStr '''')),
           (''equity'', dict_get d ''equity'' (PStr '''')),
           (''benefits'', dict_get d ''benefits'' (PStr '''')),
           (''start_date'', dict_get_none d ''start_date''),
           (''negotiation_notes'', dict_get d ''negotiation_notes'' (PStr '''')),
           (''status'', dict_get d ''status'' (PStr ''pending''))]"
  from assms have c: "then_get (insert_record Offers (current_timestamp e)
                        ((''id'', PStr (uuid4 e)) # kvs) s) (get_offer (uuid4 e)) = (Inr ro, s')"
    by (simp add: create_offer_def kvs_def)
  from create_simple_Inr [OF c get_offer_eq] obtain row where
    i: "inserted Offers (current_timestamp e) ((''id'', PStr (uuid4 e)) # kvs) s s' row"
    and r: "row ''id'' = SText (uuid4 e)"
    and ro: "ro = Some (row_dict Offers row)"
            "get_offer (uuid4 e) s' = Inr (Some (row_dict Offers row))"
    by blast
  have c1: "row ''created_at'' = SText (current_timestamp e)"
    using inserted_timestamp [OF i, of "col_d ''created_at'' TEXT CurrentTimestamp"]
    by (simp add: kvs_def col_d_def)
  have c2: "row ''updated_at'' = SText (current_timestamp e)"
    using inserted_timestamp [OF i, of "col_d ''updated_at'' TEXT CurrentTimestamp"]
    by (simp add: kvs_def col_d_def)
  have "map_of (row_dict Offers row) ''id'' = Some (PStr (uuid4 e))"
    "map_of (row_dict Offers row) ''created_at'' = Some (PStr (current_timestamp e))"
    "map_of (row_dict Offers row) ''updated_at'' = Some (PStr (current_timestamp e))"
    by (simp_all add: map_of_row_dict schema_defs r c1 c2)
  with ro show ?thesis by blast
qed

lemma create_job_alert_Inr:
  assumes "create_job_alert e d s = (Inr ro, s')"
  shows "\<exists>r. ro = Some r \<and> get_job_alert (uuid4 e) s' = Inr (Some r)
           \<and> map_of r ''id'' = Some (PStr (uuid4 e))
           \<and> map_of r ''created_at'' = Some (PStr (clock e))
           \<and> map_of r ''updated_at'' = Some (PStr (clock e))"
proof -
  define kvs where "kvs =
          [(''name'', dict_get d ''name'' (PStr '''')),
           (''keywords'', dict_get d ''keywords'' (PStr '''')),
           (''location'', dict_get d ''location'' (PStr '''')),
           (''frequency'', dict_get d ''frequency'' (PStr ''daily'')),
           (''is_active'', dict_get d ''is_active'' (PBool True)),
           (''last_run'', dict_get_none d ''last_run''),
           (''created_at'', PStr (clock e)),
           (''updated_at'', PStr (clock e))]"
  from assms have c: "then_get (insert_record JobAlerts (current_timestamp e)
                        ((''id'', PStr (uuid4 e)) # kvs) s) (get_job_alert (uuid4 e)) = (Inr ro, s')"
    by (simp add: create_job_alert_def kvs_def)
  from create_simple_Inr [OF c get_job_alert_eq] obtain row where
    i: "inserted JobAlerts (current_timestamp e) ((''id'', PStr (uuid4 e)) # kvs) s s' row"
    and r: "row ''id'' = SText (uuid4 e)"
    and ro: "ro = Some (row_dict JobAlerts row)"
            "get_job_alert (uuid4 e) s' = Inr (Some (row_dict JobAlerts row))"
    by blast
  have c1: "row ''created_at'' = SText (clock e)"
    using inserted_text [OF i, of "col_d ''created_at'' TEXT CurrentTimestamp" "clock e"]
    by (simp add: kvs_def col_d_def)
  have c2: "row ''updated_at'' = SText (clock e)"
    using inserted_text [OF i, of "col_d ''updated_at'' TEXT CurrentTimestamp" "clock e"]
    by (simp add: kvs_def col_d_def)
  have "map_of (row_dict JobAlerts row) ''id'' = Some (PStr (uuid4 e))"
    "map_of (row_dict JobAlerts row) ''created_at'' = Some (PStr (clock e))"
    "map_of (row_dict JobAlerts row) ''updated_at'' = Some (PStr (clock e))"
    by (simp_all add: map_of_row_dict schema_defs r c1 c2)
  with ro show ?thesis by blast
qed


section \<open>Create and get\<close>

text \<open>
  The field sets of a job that the data model admits: the texts are strings, the
  optional texts strings or \<open>None\<close>, the two list fields lists of strings.  A key that
  is absent stands for its default.
\<close>

definition is_text :: "pyval \<Rightarrow> bool" where
  "is_text v = (case v of PStr x \<Rightarrow> True | _ \<Rightarrow> False)"

definition is_text_or_none :: "pyval \<Rightarrow> bool" where
  "is_text_or_none v = (v = PNone \<or> is_text v)"

definition is_strings :: "pyval \<Rightarrow> bool" where
  "is_strings v = (case v of PList xs \<Rightarrow> list_all is_text xs | _ \<Rightarrow> False)"

definition valid_job_data :: "pydict \<Rightarrow> bool" where
  "valid_job_data d \<longleftrightarrow>
     is_text (dict_get d ''title'' (PStr ''''))
     \<and> is_text (dict_get d ''company'' (PStr ''''))
     \<and> is_text_or_none (dict_get_none d ''url'')
     \<and> is_text_or_none (dict_get_none d ''description'')
     \<and> is_text_or_none (dict_get_none d ''location'')
     \<and> is_text_or_none (dict_get_none d ''salary'')
     \<and> is_strings (dict_get d ''requirements'' (PList []))
     \<and> is_text_or_none (dict_get d ''stage'' (PStr ''saved''))
     \<and> is_text_or_none (dict_get d ''notes'' (PStr ''''))
     \<and> is_strings (dict_get d ''tags'' (PList []))
     \<and> is_text_or_none (dict_get_none d ''applied_date'')"

text \<open>The stored value of a text or \<open>None\<close>.\<close>

definition bound :: "pyval \<Rightarrow> sqlval" where
  "bound p = (case bind_param 0 p of Inr v \<Rightarrow> v | Inl x \<Rightarrow> SNull)"

lemma text_bound:
  assumes "is_text p"
  shows "bind_param n p = Inr (bound p)" "apply_affinity TEXT (bound p) = Inr (bound p)"
    "(bound p = SNull) = False" "py_of_sql (bound p) = p"
  using assms
  by (cases p; simp add: is_text_def bound_def bind_param_def apply_affinity_def)+

lemma text_or_none_bound:
  assumes "is_text_or_none p"
  shows "bind_param n p = Inr (bound p)" "apply_affinity TEXT (bound p) = Inr (bound p)"
    "py_of_sql (bound p) = p"
  using assms
  by (cases p; simp add: is_text_or_none_def is_text_def bound_def bind_param_def apply_affinity_def)+

lemma str_bound:
  "bind_param n (PStr x) = Inr (SText x)" "apply_affinity TEXT (SText x) = Inr (SText x)"
  by (simp_all add: bind_param_def apply_affinity_def)

lemma dict_get_none_Cons:
  "dict_get_none ((k, v) # d) c = (if c = k then v else dict_get_none d c)"
  by (simp add: dict_get_none_def dict_get_def)

lemma texts_are_strings: "list_all is_text xs \<Longrightarrow> \<exists>ys. xs = map PStr ys"
proof (induction xs)
  case Nil
  then show ?case by simp
next
  case (Cons x xs)
  then obtain ys where ys: "xs = map PStr ys" by auto
  from Cons.prems obtain y where "x = PStr y"
    by (cases x) (simp_all add: is_text_def)
  with ys have "x # xs = map PStr (y # ys)" by simp
  then show ?case by (rule exI)
qed

lemma is_strings_iff: "is_strings v \<longleftrightarrow> (\<exists>ys. v = PList (map PStr ys))"
proof
  assume "is_strings v"
  then obtain xs where "v = PList xs" "list_all is_text xs"
    by (cases v) (simp_all add: is_strings_def)
  with texts_are_strings show "\<exists>ys. v = PList (map PStr ys)" by blast
next
  assume "\<exists>ys. v = PList (map PStr ys)"
  then show "is_strings v"
    by (auto simp: is_strings_def list_all_iff is_text_def)
qed

lemma create_job_valid:
  assumes "valid_job_data d" and "\<not> list_ex (\<lambda>r. r ''id'' = SText (uuid4 e)) (s Jobs)"
  shows "fst (create_job e d s) =
     Inr (Some [(''id'', PStr (uuid4 e)),
                (''title'', dict_get d ''title'' (PStr '''')),
                (''company'', dict_get d ''company'' (PStr '''')),
                (''url'', dict_get_none d ''url''),
                (''description'', dict_get_none d ''description''),
                (''location'', dict_get_none d ''location''),
                (''salary'', dict_get_none d ''salary''),
                (''requirements'', dict_get d ''requirements'' (PList [])),
                (''stage'', dict_get d ''stage'' (PStr ''saved'')),
                (''notes'', dict_get d ''notes'' (PStr '''')),
                (''tags'', dict_get d ''tags'' (PList [])),
                (''applied_date'', dict_get_none d ''applied_date''),
                (''created_at'', PStr (clock e)),
                (''updated_at'', PStr (clock e))])"
proof -
  from assms(1) have t: "is_text (dict_get d ''title'' (PStr ''''))"
    "is_text (dict_get d ''company'' (PStr ''''))"
    and o: "is_text_or_none (dict_get_none d ''url'')"
    "is_text_or_none (dict_get_none d ''description'')"
    "is_text_or_none (dict_get_none d ''location'')"
    "is_text_or_none (dict_get_none d ''salary'')"
    "is_text_or_none (dict_get d ''stage'' (PStr ''saved''))"
    "is_text_or_none (dict_get d ''notes'' (PStr ''''))"
    "is_text_or_none (dict_get_none d ''applied_date'')"
    and l: "is_strings (dict_get d ''requirements'' (PList []))"
    "is_strings (dict_get d ''tags'' (PList []))"
    by (simp_all add: valid_job_data_def)
  from l obtain ys zs where ys: "dict_get d ''requirements'' (PList []) = PList (map PStr ys)"
    and zs: "dict_get d ''tags'' (PList []) = PList (map PStr zs)"
    by (auto simp: is_strings_iff)
  obtain reqs where j1: "json_dumps (dict_get d ''requirements'' (PList [])) = Inr reqs"
    by (simp add: ys json_dumps_strings)
  obtain tags where j2: "json_dumps (dict_get d ''tags'' (PList [])) = Inr tags"
    by (simp add: zs json_dumps_strings)
  note l1 = decoded_strings [OF j1 ys]
  note l2 = decoded_strings [OF j2 zs]
  have i: "insert_record Jobs (current_timestamp e)
                    [(''id'', PStr (uuid4 e)),
                     (''title'', dict_get d ''title'' (PStr '''')),
                     (''company'', dict_get d ''company'' (PStr '''')),
                     (''url'', dict_get_none d ''url''),
                     (''description'', dict_get_none d ''description''),
                     (''location'', dict_get_none d ''location''),
                     (''salary'', dict_get_none d ''salary''),
                     (''requirements'', PStr reqs),
                     (''stage'', dict_get d ''stage'' (PStr ''saved'')),
                     (''notes'', dict_get d ''notes'' (PStr '''')),
                     (''tags'', PStr tags),
                     (''applied_date'', dict_get_none d ''applied_date''),
                     (''created_at'', PStr (clock e)),
                     (''updated_at'', PStr (clock e))] s =
      (Inr 1, s(Jobs := s Jobs @ [make_row (columns Jobs)
          [SText (uuid4 e), bound (dict_get d ''title'' (PStr '''')),
           bound (dict_get d ''company'' (PStr '''')), bound (dict_get_none d ''url''),
           bound (dict_get_none d ''description''), bound (dict_get_none d ''location''),
           bound (dict_get_none d ''salary''), SText reqs,
           bound (dict_get d ''stage'' (PStr ''saved'')), bound (dict_get d ''notes'' (PStr '''')),
           SText tags, bound (dict_get_none d ''applied_date''),
           SText (clock e), SText (clock e)]]))"
    using assms(2)
    by (simp add: insert_record_def execute_command_def get_connection_def conn_command_def
        unknown_column_def insert_value_def null_violation_def commit_def schema_defs
        text_bound [OF t(1)] text_bound [OF t(2)]
        text_or_none_bound [OF o(1)] text_or_none_bound [OF o(2)] text_or_none_bound [OF o(3)]
        text_or_none_bound [OF o(4)] text_or_none_bound [OF o(5)] text_or_none_bound [OF o(6)]
        text_or_none_bound [OF o(7)] str_bound)
  show ?thesis
    using assms(2)
    by (simp add: create_job_def j1 j2 i then_get_def get_job_eq filter_fresh row_dict_def
        schema_defs decode_field_def dict_get_none_Cons l1 l2 dict_set_def
        text_bound [OF t(1)] text_bound [OF t(2)]
        text_or_none_bound [OF o(1)] text_or_none_bound [OF o(2)] text_or_none_bound [OF o(3)]
        text_or_none_bound [OF o(4)] text_or_none_bound [OF o(5)] text_or_none_bound [OF o(6)]
        text_or_none_bound [OF o(7)])
qed

text \<open>
  The field sets of the other five entity types that the data model admits.  A text field
  is a string, an optional one a string or \<open>None\<close>; \<open>base_salary\<close> and \<open>score\<close> are integers
  of 64 bits or \<open>None\<close>, \<open>rating\<close> is an integer, a float or \<open>None\<close>, \<open>is_active\<close> a boolean,
  \<open>questions\<close> and \<open>answers\<close> lists of strings.
\<close>

definition is_integer_or_none :: "pyval \<Rightarrow> bool" where
  "is_integer_or_none v = (case v of PNone \<Rightarrow> True | PInt i \<Rightarrow> int64 i | _ \<Rightarrow> False)"

definition is_number_or_none :: "pyval \<Rightarrow> bool" where
  "is_number_or_none v =
     (case v of PNone \<Rightarrow> True | PInt i \<Rightarrow> int64 i | PFloat m e \<Rightarrow> True | _ \<Rightarrow> False)"

definition is_boolean :: "pyval \<Rightarrow> bool" where
  "is_boolean v = (case v of PBool b \<Rightarrow> True | _ \<Rightarrow> False)"

definition valid_company_data :: "pydict \<Rightarrow> bool" where
  "valid_company_data d \<longleftrightarrow>
     is_text (dict_get d ''name'' (PStr ''''))
     \<and> is_text_or_none (dict_get_none d ''domain'')
     \<and> is_text_or_none (dict_get_none d ''industry'')
     \<and> is_text_or_none (dict_get_none d ''size'')
     \<and> is_text_or_none (dict_get_none d ''funding_stage'')
     \<and> is_number_or_none (dict_get_none d ''rating'')
     \<and> is_text_or_none (dict_get_none d ''location'')
     \<and> is_text_or_none (dict_get_none d ''website'')
     \<and> is_text_or_none (dict_get d ''notes'' (PStr ''''))"

definition valid_contact_data :: "pydict \<Rightarrow> bool" where
  "valid_contact_data d \<longleftrightarrow>
     is_text (dict_get d ''name'' (PStr ''''))
     \<and> is_text (dict_get d ''company'' (PStr ''''))
     \<and> is_text_or_none (dict_get_none d ''position'')
     \<and> is_text_or_none (dict_get_none d ''linkedin_url'')
     \<and> is_text_or_none (dict_get_none d ''relationship'')
     \<and> is_text_or_none (dict_get_none d ''connection_type'')
     \<and> is_text_or_none (dict_get_none d ''warm_intro_potential'')
     \<and> is_text_or_none (dict_get_none d ''last_contact'')
     \<and> is_text_or_none (dict_get d ''notes'' (PStr ''''))"

definition valid_offer_data :: "pydict \<Rightarrow> bool" where
  "valid_offer_data d \<longleftrightarrow>
     is_text_or_none (dict_get_none d ''job_id'')
     \<and> is_text (dict_get d ''company'' (PStr ''''))
     \<and> is_integer_or_none (dict_get_none d ''base_salary'')
     \<and> is_text_or_none (dict_get d ''bonus'' (PStr ''''))
     \<and> is_text_or_none (dict_get d ''equity'' (PStr ''''))
     \<and> is_text_or_none (dict_get d ''benefits'' (PStr ''''))
     \<and> is_text_or_none (dict_get_none d ''start_date'')
     \<and> is_text_or_none (dict_get d ''negotiation_notes'' (PStr ''''))
     \<and> is_text_or_none (dict_get d ''status'' (PStr ''pending''))"

definition valid_alert_data :: "pydict \<Rightarrow> bool" where
  "valid_alert_data d \<longleftrightarrow>
     is_text (dict_get d ''name'' (PStr ''''))
     \<and> is_text (dict_get d ''keywords'' (PStr ''''))
     \<and> is_text_or_none (dict_get d ''location'' (PStr ''''))
     \<and> is_text_or_none (dict_get d ''frequency'' (PStr ''daily''))
     \<and> is_boolean (dict_get d ''is_active'' (PBool True))
     \<and> is_text_or_none (dict_get_none d ''last_run'')"

definition valid_session_data :: "pydict \<Rightarrow> bool" where
  "valid_session_data d \<longleftrightarrow>
     is_text (dict_get d ''company'' (PStr ''''))
     \<and> is_text (dict_get d ''role'' (PStr ''''))
     \<and> is_text_or_none (dict_get d ''category'' (PStr ''behavioral''))
     \<and> is_strings (dict_get d ''questions'' (PList []))
     \<and> is_strings (dict_get d ''answers'' (PList []))
     \<and> is_text_or_none (dict_get d ''feedback'' (PStr ''''))
     \<and> is_integer_or_none (dict_get_none d ''score'')"

text \<open>The value a REAL column keeps of a number.\<close>

definition stored_real :: "pyval \<Rightarrow> sqlval" where
  "stored_real p = (case apply_affinity REAL (bound p) of Inr w \<Rightarrow> w | Inl x \<Rightarrow> SNull)"

lemma integer_bound:
  assumes "is_integer_or_none p"
  shows "bind_param n p = Inr (bound p)" "apply_affinity INTEGER (bound p) = Inr (bound p)"
  using assms
  by (cases p; simp add: is_integer_or_none_def bound_def bind_param_def apply_affinity_def
      numeric_affinity_def)+

lemma boolean_bound:
  assumes "is_boolean p"
  shows "bind_param n p = Inr (bound p)" "apply_affinity NUMERIC (bound p) = Inr (bound p)"
  using assms
  by (cases p; simp add: is_boolean_def bound_def bind_param_def apply_affinity_def
      numeric_affinity_def)+

lemma number_bound:
  assumes "is_number_or_none p"
  shows "bind_param n p = Inr (bound p)" "apply_affinity REAL (bound p) = Inr (stored_real p)"
proof -
  show "bind_param n p = Inr (bound p)"
    using assms
    by (cases p) (simp_all add: is_number_or_none_def bound_def bind_param_def split: prod.splits)
  show "apply_affinity REAL (bound p) = Inr (stored_real p)"
    using assms
    by (cases p)
       (simp_all add: is_number_or_none_def stored_real_def bound_def bind_param_def
         apply_affinity_def split: prod.splits)
qed

lemma dict_get_none_dict_set:
  "dict_get_none (dict_set d k v) c = (if c = k then v else dict_get_none d c)"
  by (simp add: dict_get_none_def dict_get_def map_of_dict_set)

lemma create_company_valid:
  assumes "valid_company_data d" and "\<not> list_ex (\<lambda>r. r ''id'' = SText (uuid4 e)) (s Companies)"
  shows "\<exists>r. fst (create_company e d s) = Inr (Some r)"
proof -
  from assms(1) have t: "is_text (dict_get d ''name'' (PStr ''''))"
    and o: "is_text_or_none (dict_get_none d ''domain'')"
    "is_text_or_none (dict_get_none d ''industry'')"
    "is_text_or_none (dict_get_none d ''size'')"
    "is_text_or_none (dict_get_none d ''funding_stage'')"
    "is_text_or_none (dict_get_none d ''location'')"
    "is_text_or_none (dict_get_none d ''website'')"
    "is_text_or_none (dict_get d ''notes'' (PStr ''''))"
    and n: "is_number_or_none (dict_get_none d ''rating'')"
    by (simp_all add: valid_company_data_def)
  have i: "insert_record Companies (current_timestamp e)
          [(''id'', PStr (uuid4 e)),
           (''name'', dict_get d ''name'' (PStr '''')),
           (''domain'', dict_get_none d ''domain''),
           (''industry'', dict_get_none d ''industry''),
           (''size'', dict_get_none d ''size''),
           (''funding_stage'', dict_get_none d ''funding_stage''),
           (''rating'', dict_get_none d ''rating''),
           (''location'', dict_get_none d ''location''),
           (''website'', dict_get_none d ''website''),
           (''notes'', dict_get d ''notes'' (PStr '''')),
           (''last_updated'', PStr (clock e)),
           (''created_at'', PStr (clock e))] s =
      (Inr 1, s(Companies := s Companies @ [make_row (columns Companies)
          [SText (uuid4 e), bound (dict_get d ''name'' (PStr '''')),
           bound (dict_get_none d ''domain''), bound (dict_get_none d ''industry''),
           bound (dict_get_none d ''size''), bound (dict_get_none d ''funding_stage''),
           stored_real (dict_get_none d ''rating''), bound (dict_get_none d ''location''),
           bound (dict_get_none d ''website''), bound (dict_get d ''notes'' (PStr '''')),
           SText (clock e), SText (clock e)]]))"
    using assms(2)
    by (simp add: insert_record_def execute_command_def get_connection_def conn_command_def
        unknown_column_def insert_value_def null_violation_def commit_def schema_defs
        text_bound [OF t] number_bound [OF n]
        text_or_none_bound [OF o(1)] text_or_none_bound [OF o(2)] text_or_none_bound [OF o(3)]
        text_or_none_bound [OF o(4)] text_or_none_bound [OF o(5)] text_or_none_bound [OF o(6)]
        text_or_none_bound [OF o(7)] str_bound)
  show ?thesis
    using assms(2)
    by (simp add: create_company_def i then_get_def get_company_eq filter_fresh
        first_or_none_def schema_defs)
qed

lemma create_contact_valid:
  assumes "valid_contact_data d" and "\<not> list_ex (\<lambda>r. r ''id'' = SText (uuid4 e)) (s Contacts)"
  shows "\<exists>r. fst (create_contact e d s) = Inr (Some r)"
proof -
  from assms(1) have t: "is_text (dict_get d ''name'' (PStr ''''))"
    "is_text (dict_get d ''company'' (PStr ''''))"
    and o: "is_text_or_none (dict_get_none d ''position'')"
    "is_text_or_none (dict_get_none d ''linkedin_url'')"
    "is_text_or_none (dict_get_none d ''relationship'')"
    "is_text_or_none (dict_get_none d ''connection_type'')"
    "is_text_or_none (dict_get_none d ''warm_intro_potential'')"
    "is_text_or_none (dict_get_none d ''last_contact'')"
    "is_text_or_none (dict_get d ''notes'' (PStr ''''))"
    by (simp_all add: valid_contact_data_def)
  have i: "insert_record Contacts (current_timestamp e)
          [(''id'', PStr (uuid4 e)),
           (''name'', dict_get d ''name'' (PStr '''')),
           (''company'', dict_get d ''company'' (PStr '''')),
           (''position'', dict_get_none d ''position''),
           (''linkedin_url'', dict_get_none d ''linkedin_url''),
           (''relationship'', dict_get_none d ''relationship''),
           (''connection_type'', dict_get_none d ''connection_type''),
           (''warm_intro_potential'', dict_get_none d ''warm_intro_potential''),
           (''last_contact'', dict_get_none d ''last_contact''),
           (''notes'', dict_get d ''notes'' (PStr ''''))] s =
      (Inr 1, s(Contacts := s Contacts @ [make_row (columns Contacts)
          [SText (uuid4 e), bound (dict_get d ''name'' (PStr '''')),
           bound (dict_get d ''company'' (PStr '''')), bound (dict_get_none d ''position''),
           bound (dict_get_none d ''linkedin_url''), bound (dict_get_none d ''relationship''),
           bound (dict_get_none d ''connection_type''),
           bound (dict_get_none d ''warm_intro_potential''),
           bound (dict_get_none d ''last_contact''), bound (dict_get d ''notes'' (PStr '''')),
           SText (current_timestamp e), SText (current_timestamp e)]]))"
    using assms(2)
    by (simp add: insert_record_def execute_command_def get_connection_def conn_command_def
        unknown_column_def insert_value_def null_violation_def commit_def schema_defs
        text_bound [OF t(1)] text_bound [OF t(2)]
        text_or_none_bound [OF o(1)] text_or_none_bound [OF o(2)] text_or_none_bound [OF o(3)]
        text_or_none_bound [OF o(4)] text_or_none_bound [OF o(5)] text_or_none_bound [OF o(6)]
        text_or_none_bound [OF o(7)] str_bound)
  show ?thesis
    using assms(2)
    by (simp add: create_contact_def i then_get_def get_contact_eq filter_fresh
        first_or_none_def schema_defs)
qed

lemma create_offer_valid:
  assumes "valid_offer_data d" and "\<not> list_ex (\<lambda>r. r ''id'' = SText (uuid4 e)) (s Offers)"
  shows "\<exists>r. fst (create_offer e d s) = Inr (Some r)"
proof -
  from assms(1) have t: "is_text (dict_get d ''company'' (PStr ''''))"
    and o: "is_text_or_none (dict_get_none d ''job_id'')"
    "is_text_or_none (dict_get d ''bonus'' (PStr ''''))"
    "is_text_or_none (dict_get d ''equity'' (PStr ''''))"
    "is_text_or_none (dict_get d ''benefits'' (PStr ''''))"
    "is_text_or_none (dict_get_none d ''start_date'')"
    "is_text_or_none (dict_get d ''negotiation_notes'' (PStr ''''))"
    "is_text_or_none (dict_get d ''status'' (PStr ''pending''))"
    and n: "is_integer_or_none (dict_get_none d ''base_salary'')"
    by (simp_all add: valid_offer_data_def)
  have i: "insert_record Offers (current_timestamp e)
          [(''id'', PStr (uuid4 e)),
           (''job_id'', dict_get_none d ''job_id''),
           (''company'', dict_get d ''company'' (PStr '''')),
           (''base_salary'', dict_get_none d ''base_salary''),
           (''bonus'', dict_get d ''bonus'' (PStr '''')),
           (''equity'', dict_get d ''equity'' (PStr '''')),
           (''benefits'', dict_get d ''benefits'' (PStr '''')),
           (''start_date'', dict_get_none d ''start_date''),
           (''negotiation_notes'', dict_get d ''negotiation_notes'' (PStr '''')),
           (''status'', dict_get d ''status'' (PStr ''pending''))] s =
      (Inr 1, s(Offers := s Offers @ [make_row (columns Offers)
          [SText (uuid4 e), bound (dict_get_none d ''job_id''),
           bound (dict_get d ''company'' (PStr '''')), bound (dict_get_none d ''base_salary''),
           bound (dict_get d ''bonus'' (PStr '''')), bound (dict_get d ''equity'' (PStr '''')),
           bound (dict_get d ''benefits'' (PStr '''')), bound (dict_get_none d ''start_date''),
           bound (dict_get d ''negotiation_notes'' (PStr '''')),
           bound (dict_get d ''status'' (PStr ''pending'')),
           SText (current_timestamp e), SText (current_timestamp e)]]))"
    using assms(2)
    by (simp add: insert_record_def execute_command_def get_connection_def conn_command_def
        unknown_column_def insert_value_def null_violation_def commit_def schema_defs
        text_bound [OF t] integer_bound [OF n]
        text_or_none_bound [OF o(1)] text_or_none_bound [OF o(2)] text_or_none_bound [OF o(3)]
        text_or_none_bound [OF o(4)] text_or_none_bound [OF o(5)] text_or_none_bound [OF o(6)]
        text_or_none_bound [OF o(7)] str_bound)
  show ?thesis
    using assms(2)
    by (simp add: create_offer_def i then_get_def get_offer_eq filter_fresh
        first_or_none_def schema_defs)
qed

lemma create_job_alert_valid:
  assumes "valid_alert_data d" and "\<not> list_ex (\<lambda>r. r ''id'' = SText (uuid4 e)) (s JobAlerts)"
  shows "\<exists>r. fst (create_job_alert e d s) = Inr (Some r)"
proof -
  from assms(1) have t: "is_text (dict_get d ''name'' (PStr ''''))"
    "is_text (dict_get d ''keywords'' (PStr ''''))"
    and o: "is_text_or_none (dict_get d ''location'' (PStr ''''))"
    "is_text_or_none (dict_get d ''frequency'' (PStr ''daily''))"
    "is_text_or_none (dict_get_none d ''last_run'')"
    and b: "is_boolean (dict_get d ''is_active'' (PBool True))"
    by (simp_all add: valid_alert_data_def)
  have i: "insert_record JobAlerts (current_timestamp e)
          [(''id'', PStr (uuid4 e)),
           (''name'', dict_get d ''name'' (PStr '''')),
           (''keywords'', dict_get d ''keywords'' (PStr '''')),
           (''location'', dict_get d ''location'' (PStr '''')),
           (''frequency'', dict_get d ''frequency'' (PStr ''daily'')),
           (''is_active'', dict_get d ''is_active'' (PBool True)),
           (''last_run'', dict_get_none d ''last_run''),
           (''created_at'', PStr (clock e)),
           (''updated_at'', PStr (clock e))] s =
      (Inr 1, s(JobAlerts := s JobAlerts @ [make_row (columns JobAlerts)
          [SText (uuid4 e), bound (dict_get d ''name'' (PStr '''')),
           bound (dict_get d ''keywords'' (PStr '''')), bound (dict_get d ''location'' (PStr '''')),
           bound (dict_get d ''frequency'' (PStr ''daily'')),
           bound (dict_get d ''is_active'' (PBool True)), bound (dict_get_none d ''last_run''),
           SText (clock e), SText (clock e)]]))"
    using assms(2)
    by (simp add: insert_record_def execute_command_def get_connection_def conn_command_def
        unknown_column_def insert_value_def null_violation_def commit_def schema_defs
        text_bound [OF t(1)] text_bound [OF t(2)] boolean_bound [OF b]
        text_or_none_bound [OF o(1)] text_or_none_bound [OF o(2)] text_or_none_bound [OF o(3)]
        str_bound)
  show ?thesis
    using assms(2)
    by (simp add: create_job_alert_def i then_get_def get_job_alert_eq filter_fresh
        first_or_none_def schema_defs)
qed

lemma create_interview_session_valid:
  assumes "valid_session_data d"
    and "\<not> list_ex (\<lambda>r. r ''id'' = SText (uuid4 e)) (s InterviewSessions)"
  shows "\<exists>r. fst (create_interview_session e d s) = Inr (Some r)"
proof -
  from assms(1) have t: "is_text (dict_get d ''company'' (PStr ''''))"
    "is_text (dict_get d ''role'' (PStr ''''))"
    and o: "is_text_or_none (dict_get d ''category'' (PStr ''behavioral''))"
    "is_text_or_none (dict_get d ''feedback'' (PStr ''''))"
    and n: "is_integer_or_none (dict_get_none d ''score'')"
    and l: "is_strings (dict_get d ''questions'' (PList []))"
    "is_strings (dict_get d ''answers'' (PList []))"
    by (simp_all add: valid_session_data_def)
  from l obtain ys zs where ys: "dict_get d ''questions'' (PList []) = PList (map PStr ys)"
    and zs: "dict_get d ''answers'' (PList []) = PList (map PStr zs)"
    by (auto simp: is_strings_iff)
  obtain qs where j1: "json_dumps (dict_get d ''questions'' (PList [])) = Inr qs"
    by (simp add: ys json_dumps_strings)
  obtain as where j2: "json_dumps (dict_get d ''answers'' (PList [])) = Inr as"
    by (simp add: zs json_dumps_strings)
  note l1 = decoded_strings [OF j1 ys]
  note l2 = decoded_strings [OF j2 zs]
  have i: "insert_record InterviewSessions (current_timestamp e)
                    [(''id'', PStr (uuid4 e)),
                     (''company'', dict_get d ''company'' (PStr '''')),
                     (''role'', dict_get d ''role'' (PStr '''')),
                     (''category'', dict_get d ''category'' (PStr ''behavioral'')),
                     (''questions'', PStr qs),
                     (''answers'', PStr as),
                     (''feedback'', dict_get d ''feedback'' (PStr '''')),
                     (''score'', dict_get_none d ''score''),
                     (''created_at'', PStr (clock e)),
                     (''updated_at'', PStr (clock e))] s =
      (Inr 1, s(InterviewSessions := s InterviewSessions @ [make_row (columns InterviewSessions)
          [SText (uuid4 e), bound (dict_get d ''company'' (PStr '''')),
           bound (dict_get d ''role'' (PStr '''')),
           bound (dict_get d ''category'' (PStr ''behavioral'')), SText qs, SText as,
           bound (dict_get d ''feedback'' (PStr '''')), bound (dict_get_none d ''score''),
           SText (clock e), SText (clock e)]]))"
    using assms(2)
    by (simp add: insert_record_def execute_command_def get_connection_def conn_command_def
        unknown_column_def insert_value_def null_violation_def commit_def schema_defs
        text_bound [OF t(1)] text_bound [OF t(2)] integer_bound [OF n]
        text_or_none_bound [OF o(1)] text_or_none_bound [OF o(2)] str_bound)
  show ?thesis
    using assms(2)
    by (simp add: create_interview_session_def j1 j2 i then_get_def get_interview_session_eq
        filter_fresh schema_defs decode_field_def dict_get_none_row_dict dict_get_none_dict_set
        l1 l2)
qed

text \<open>
  Claim C1.  For a valid field set of a job and an identifier that is not in the table,
  \<open>create_job\<close> returns the record made of the new identifier, the fields supplied (a
  missing one at its default), the two list fields as the lists of strings supplied, and
  the time of the call as \<open>created_at\<close> and \<open>updated_at\<close>.  For each of the six entity types,
  whenever create returns, it returns a record, the record carries the new identifier,
  and \<open>get\<close> with that identifier on the database left by create returns the same record;
  a list field of a job or of an interview session that was supplied as a list of
  strings is in the record as that list, in the same order.  And for each of the other
  five entity types, create on a valid field set with an identifier that is not in the
  table returns a record.
\<close>

theorem create_get_round_trip:
  "(valid_job_data d \<and> \<not> list_ex (\<lambda>r. r ''id'' = SText (uuid4 e)) (s Jobs) \<longrightarrow>
      fst (create_job e d s) =
        Inr (Some [(''id'', PStr (uuid4 e)),
                   (''title'', dict_get d ''title'' (PStr '''')),
                   (''company'', dict_get d ''company'' (PStr '''')),
                   (''url'', dict_get_none d ''url''),
                   (''description'', dict_get_none d ''description''),
                   (''location'', dict_get_none d ''location''),
                   (''salary'', dict_get_none d ''salary''),
                   (''requirements'', dict_get d ''requirements'' (PList [])),
                   (''stage'', dict_get d ''stage'' (PStr ''saved'')),
                   (''notes'', dict_get d ''notes'' (PStr '''')),
                   (''tags'', dict_get d ''tags'' (PList [])),
                   (''applied_date'', dict_get_none d ''applied_date''),
                   (''created_at'', PStr (clock e)),
                   (''updated_at'', PStr (clock e))]))
   \<and> (create_job e d s = (Inr ro, s') \<longrightarrow>
        (\<exists>r. ro = Some r \<and> get_job (uuid4 e) s' = Inr (Some r)
           \<and> map_of r ''id'' = Some (PStr (uuid4 e))
           \<and> (\<forall>xs. dict_get d ''requirements'' (PList []) = PList (map PStr xs) \<longrightarrow>
                 map_of r ''requirements'' = Some (PList (map PStr xs)))
           \<and> (\<forall>xs. dict_get d ''tags'' (PList []) = PList (map PStr xs) \<longrightarrow>
                 map_of r ''tags'' = Some (PList (map PStr xs)))))
   \<and> (create_interview_session e d s = (Inr ro, s') \<longrightarrow>
        (\<exists>r. ro = Some r \<and> get_interview_session (uuid4 e) s' = Inr (Some r)
           \<and> map_of r ''id'' = Some (PStr (uuid4 e))
           \<and> (\<forall>xs. dict_get d ''questions'' (PList []) = PList (map PStr xs) \<longrightarrow>
                 map_of r ''questions'' = Some (PList (map PStr xs)))
           \<and> (\<forall>xs. dict_get d ''answers'' (PList []) = PList (map PStr xs) \<longrightarrow>
                 map_of r ''answers'' = Some (PList (map PStr xs)))))
   \<and> (create_company e d s = (Inr ro, s') \<longrightarrow>
        (\<exists>r. ro = Some r \<and> get_company (uuid4 e) s' = Inr (Some r)
           \<and> map_of r ''id'' = Some (PStr (uuid4 e))))
   \<and> (create_contact e d s = (Inr ro, s') \<longrightarrow>
        (\<exists>r. ro = Some r \<and> get_contact (uuid4 e) s' = Inr (Some r)
           \<and> map_of r ''id'' = Some (PStr (uuid4 e))))
   \<and> (create_offer e d s = (Inr ro, s') \<longrightarrow>
        (\<exists>r. ro = Some r \<and> get_offer (uuid4 e) s' = Inr (Some r)
           \<and> map_of r ''id'' = Some (PStr (uuid4 e))))
   \<and> (create_job_alert e d s = (Inr ro, s') \<longrightarrow>
        (\<exists>r. ro = Some r \<and> get_job_alert (uuid4 e) s' = Inr (Some r)
           \<and> map_of r ''id'' = Some (PStr (uuid4 e))))
   \<and> (valid_session_data d \<and> \<not> list_ex (\<lambda>r. r ''id'' = SText (uuid4 e)) (s InterviewSessions)
        \<longrightarrow> (\<exists>r. fst (create_interview_session e d s) = Inr (Some r)))
   \<and> (valid_company_data d \<and> \<not> list_ex (\<lambda>r. r ''id'' = SText (uuid4 e)) (s Companies)
        \<longrightarrow> (\<exists>r. fst (create_company e d s) = Inr (Some r)))
   \<and> (valid_contact_data d \<and> \<not> list_ex (\<lambda>r. r ''id'' = SText (uuid4 e)) (s Contacts)
        \<longrightarrow> (\<exists>r. fst (create_contact e d s) = Inr (Some r)))
   \<and> (valid_offer_data d \<and> \<not> list_ex (\<lambda>r. r ''id'' = SText (uuid4 e)) (s Offers)
        \<longrightarrow> (\<exists>r. fst (create_offer e d s) = Inr (Some r)))
   \<and> (valid_alert_data d \<and> \<not> list_ex (\<lambda>r. r ''id'' = SText (uuid4 e)) (s JobAlerts)
        \<longrightarrow> (\<exists>r. fst (create_job_alert e d s) = Inr (Some r)))"
proof (intro conjI impI)
  assume "valid_job_data d \<and> \<not> list_ex (\<lambda>r. r ''id'' = SText (uuid4 e)) (s Jobs)"
  then show "fst (create_job e d s) =
        Inr (Some [(''id'', PStr (uuid4 e)),
                   (''title'', dict_get d ''title'' (PStr '''')),
                   (''company'', dict_get d ''company'' (PStr '''')),
                   (''url'', dict_get_none d ''url''),
                   (''description'', dict_get_none d ''description''),
                   (''location'', dict_get_none d ''location''),
                   (''salary'', dict_get_none d ''salary''),
                   (''requirements'', dict_get d ''requirements'' (PList [])),
                   (''stage'', dict_get d ''stage'' (PStr ''saved'')),
                   (''notes'', dict_get d ''notes'' (PStr '''')),
                   (''tags'', dict_get d ''tags'' (PList [])),
                   (''applied_date'', dict_get_none d ''applied_date''),
                   (''created_at'', PStr (clock e)),
                   (''updated_at'', PStr (clock e))])"
    using create_job_valid [of d e s] by blast
next
  assume "create_job e d s = (Inr ro, s')"
  from create_job_Inr [OF this]
  show "\<exists>r. ro = Some r \<and> get_job (uuid4 e) s' = Inr (Some r)
           \<and> map_of r ''id'' = Some (PStr (uuid4 e))
           \<and> (\<forall>xs. dict_get d ''requirements'' (PList []) = PList (map PStr xs) \<longrightarrow>
                 map_of r ''requirements'' = Some (PList (map PStr xs)))
           \<and> (\<forall>xs. dict_get d ''tags'' (PList []) = PList (map PStr xs) \<longrightarrow>
                 map_of r ''tags'' = Some (PList (map PStr xs)))"
    by blast
next
  assume "create_interview_session e d s = (Inr ro, s')"
  from create_interview_session_Inr [OF this]
  show "\<exists>r. ro = Some r \<and> get_interview_session (uuid4 e) s' = Inr (Some r)
           \<and> map_of r ''id'' = Some (PStr (uuid4 e))
           \<and> (\<forall>xs. dict_get d ''questions'' (PList []) = PList (map PStr xs) \<longrightarrow>
                 map_of r ''questions'' = Some (PList (map PStr xs)))
           \<and> (\<forall>xs. dict_get d ''answers'' (PList []) = PList (map PStr xs) \<longrightarrow>
                 map_of r ''answers'' = Some (PList (map PStr xs)))"
    by blast
next
  assume "create_company e d s = (Inr ro, s')"
  from create_company_Inr [OF this]
  show "\<exists>r. ro = Some r \<and> get_company (uuid4 e) s' = Inr (Some r)
           \<and> map_of r ''id'' = Some (PStr (uuid4 e))"
    by blast
next
  assume "create_contact e d s = (Inr ro, s')"
  from create_contact_Inr [OF this]
  show "\<exists>r. ro = Some r \<and> get_contact (uuid4 e) s' = Inr (Some r)
           \<and> map_of r ''id'' = Some (PStr (uuid4 e))"
    by blast
next
  assume "create_offer e d s = (Inr ro, s')"
  from create_offer_Inr [OF this]
  show "\<exists>r. ro = Some r \<and> get_offer (uuid4 e) s' = Inr (Some r)
           \<and> map_of r ''id'' = Some (PStr (uuid4 e))"
    by blast
next
  assume "create_job_alert e d s = (Inr ro, s')"
  from create_job_alert_Inr [OF this]
  show "\<exists>r. ro = Some r \<and> get_job_alert (uuid4 e) s' = Inr (Some r)
           \<and> map_of r ''id'' = Some (PStr (uuid4 e))"
    by blast
next
  assume "valid_session_data d \<and> \<not> list_ex (\<lambda>r. r ''id'' = SText (uuid4 e)) (s InterviewSessions)"
  then show "\<exists>r. fst (create_interview_session e d s) = Inr (Some r)"
    using create_interview_session_valid [of d e s] by blast
next
  assume "valid_company_data d \<and> \<not> list_ex (\<lambda>r. r ''id'' = SText (uuid4 e)) (s Companies)"
  then show "\<exists>r. fst (create_company e d s) = Inr (Some r)"
    using create_company_valid [of d e s] by blast
next
  assume "valid_contact_data d \<and> \<not> list_ex (\<lambda>r. r ''id'' = SText (uuid4 e)) (s Contacts)"
  then show "\<exists>r. fst (create_contact e d s) = Inr (Some r)"
    using create_contact_valid [of d e s] by blast
next
  assume "valid_offer_data d \<and> \<not> list_ex (\<lambda>r. r ''id'' = SText (uuid4 e)) (s Offers)"
  then show "\<exists>r. fst (create_offer e d s) = Inr (Some r)"
    using create_offer_valid [of d e s] by blast
next
  assume "valid_alert_data d \<and> \<not> list_ex (\<lambda>r. r ''id'' = SText (uuid4 e)) (s JobAlerts)"
  then show "\<exists>r. fst (create_job_alert e d s) = Inr (Some r)"
    using create_job_alert_valid [of d e s] by blast
qed

text \<open>A job with two requirements and one tag, and the record expected for it.\<close>

definition job_fields :: pydict where
  "job_fields =
     [(''title'', PStr ''Engineer''), (''company'', PStr ''TechCorp''),
      (''requirements'', PList [PStr ''Python'', PStr ''SQL'']),
      (''tags'', PList [PStr ''remote''])]"

definition job_engineer :: pydict where
  "job_engineer =
     [(''id'', PStr ''a1''), (''title'', PStr ''Engineer''), (''company'', PStr ''TechCorp''),
      (''url'', PNone), (''description'', PNone), (''location'', PNone), (''salary'', PNone),
      (''requirements'', PList [PStr ''Python'', PStr ''SQL'']), (''stage'', PStr ''saved''),
      (''notes'', PStr ''''), (''tags'', PList [PStr ''remote'']), (''applied_date'', PNone),
      (''created_at'', PStr ''2024-05-01T09:00:00.000001''),
      (''updated_at'', PStr ''2024-05-01T09:00:00.000001'')]"

text \<open>An interview session with two questions and one answer.\<close>

definition session_fields :: pydict where
  "session_fields =
     [(''company'', PStr ''TechCorp''), (''role'', PStr ''Engineer''),
      (''questions'', PList [PStr ''Why us?'', PStr ''Why now?'']),
      (''answers'', PList [PStr ''Mission''])]"

theorem create_get_round_trip_witness:
  "fst (create_job env_a job_fields empty_db) = Inr (Some job_engineer)
   \<and> get_job ''a1'' (snd (create_job env_a job_fields empty_db)) = Inr (Some job_engineer)
   \<and> (\<exists>r. fst (create_interview_session env_b session_fields empty_db) = Inr (Some r)
         \<and> get_interview_session ''b2''
             (snd (create_interview_session env_b session_fields empty_db)) = Inr (Some r)
         \<and> map_of r ''questions'' = Some (PList [PStr ''Why us?'', PStr ''Why now?''])
         \<and> map_of r ''answers'' = Some (PList [PStr ''Mission'']))"
proof -
  note t = create_get_round_trip [of job_fields env_a empty_db "Some job_engineer"
      "snd (create_job env_a job_fields empty_db)"]
  have v: "valid_job_data job_fields"
    by (simp add: valid_job_data_def job_fields_def dict_get_def dict_get_none_def is_text_def
        is_text_or_none_def is_strings_def)
  have f: "\<not> list_ex (\<lambda>r. r ''id'' = SText (uuid4 env_a)) (empty_db Jobs)"
    by (simp add: empty_db_def)
  from t [THEN conjunct1] v f
  have 1: "fst (create_job env_a job_fields empty_db) = Inr (Some job_engineer)"
    by (simp add: job_fields_def job_engineer_def dict_get_def dict_get_none_def env_a_def)
  then have "create_job env_a job_fields empty_db
      = (Inr (Some job_engineer), snd (create_job env_a job_fields empty_db))"
    by (simp add: prod_eq_iff)
  with t [THEN conjunct2, THEN conjunct1]
  have 2: "get_job ''a1'' (snd (create_job env_a job_fields empty_db)) = Inr (Some job_engineer)"
    by (auto simp: env_a_def)
  have vs: "valid_session_data session_fields"
    by (simp add: valid_session_data_def session_fields_def dict_get_def dict_get_none_def
        is_text_def is_text_or_none_def is_strings_def is_integer_or_none_def)
  have fs: "\<not> list_ex (\<lambda>r. r ''id'' = SText (uuid4 env_b)) (empty_db InterviewSessions)"
    by (simp add: empty_db_def)
  from create_get_round_trip [of session_fields env_b empty_db,
      THEN conjunct2, THEN conjunct2, THEN conjunct2, THEN conjunct2, THEN conjunct2,
      THEN conjunct2, THEN conjunct2, THEN conjunct1] vs fs
  obtain r where r: "fst (create_interview_session env_b session_fields empty_db) = Inr (Some r)"
    by blast
  then have c: "create_interview_session env_b session_fields empty_db
      = (Inr (Some r), snd (create_interview_session env_b session_fields empty_db))"
    by (simp add: prod_eq_iff)
  from create_get_round_trip [of session_fields env_b empty_db "Some r"
      "snd (create_interview_session env_b session_fields empty_db)",
      THEN conjunct2, THEN conjunct2, THEN conjunct1] c
  obtain r' where r': "Some r = Some r'"
    and g: "get_interview_session (uuid4 env_b)
              (snd (create_interview_session env_b session_fields empty_db)) = Inr (Some r')"
    and q: "\<forall>xs. dict_get session_fields ''questions'' (PList []) = PList (map PStr xs) \<longrightarrow>
                 map_of r' ''questions'' = Some (PList (map PStr xs))"
    and a: "\<forall>xs. dict_get session_fields ''answers'' (PList []) = PList (map PStr xs) \<longrightarrow>
                 map_of r' ''answers'' = Some (PList (map PStr xs))"
    by blast
  from r' have e: "r' = r" by simp
  from g e have 3: "get_interview_session ''b2''
      (snd (create_interview_session env_b session_fields empty_db)) = Inr (Some r)"
    by (simp add: env_b_def)
  from q [rule_format, of "[''Why us?'', ''Why now?'']"] e
  have 4: "map_of r ''questions'' = Some (PList [PStr ''Why us?'', PStr ''Why now?''])"
    by (simp add: session_fields_def dict_get_def)
  from a [rule_format, of "[''Mission'']"] e
  have 5: "map_of r ''answers'' = Some (PList [PStr ''Mission''])"
    by (simp add: session_fields_def dict_get_def)
  from r 3 4 5
  have "\<exists>r. fst (create_interview_session env_b session_fields empty_db) = Inr (Some r)
         \<and> get_interview_session ''b2''
             (snd (create_interview_session env_b session_fields empty_db)) = Inr (Some r)
         \<and> map_of r ''questions'' = Some (PList [PStr ''Why us?'', PStr ''Why now?''])
         \<and> map_of r ''answers'' = Some (PList [PStr ''Mission''])"
    by blast
  with 1 2 show ?thesis by (intro conjI)
qed


section \<open>Updating a job\<close>






























section \<open>The fields all records share\<close>


















end
